theory Spec2Isabelle
  imports Complex_Main
begin

section \<open>The per-datapath forwarding controller (faucet/valve.py)\<close>

text \<open>
  A shallow embedding of the class \<open>Valve\<close> of \<open>faucet/valve.py\<close>. A method that
  mutates the Valve takes the Valve and returns the updated Valve together with its
  result. Times are real numbers, counts and priorities are natural numbers. The
  classes \<open>DP\<close>, \<open>Port\<close> and \<open>VLAN\<close>, the managers and the modules
  \<open>valve_of\<close> and \<open>valve_packet\<close> are not part of the sources: the records below
  hold the attributes that \<open>valve.py\<close> reads and writes, and the functions of the
  missing modules are parameters. Logging and metric gauges are left out; counters
  incremented through \<open>_inc_var\<close> and the notifications are kept.
\<close>

subsection \<open>Data model\<close>

datatype py_error = KeyError | TypeError | ZeroDivisionError | AttributeError | IndexError

type_synonym mac = string
type_synonym bytes = "nat list"

text \<open>A VLAN: its VID, the MAC of its virtual router and whether it has input ACLs.\<close>

record vlan =
  vid :: nat
  faucet_mac :: mac
  acls_in :: bool

text \<open>A parsed LACP PDU, as far as \<open>valve.py\<close> reads it.\<close>

record lacp_pdu =
  actor_system :: mac
  actor_key :: nat
  actor_port :: nat
  actor_state_synchronization :: bool
  actor_state_collecting :: bool
  actor_state_distributing :: bool

text \<open>
  Modelled from the spec: the stack states of a port. The class \<open>Port\<close> is missing;
  the spec names admin-down, INIT, UP and DOWN, and \<open>valve.py\<close> sets a port to one of
  them through \<open>stack_init\<close>, \<open>stack_up\<close> and \<open>stack_down\<close>.
\<close>

datatype stack_state = STACK_STATE_ADMIN_DOWN | STACK_STATE_INIT | STACK_STATE_DOWN | STACK_STATE_UP

text \<open>
  The dictionary \<open>dyn_stack_probe_info\<close>: \<open>valve.py\<close> reads the keys
  \<open>last_seen_lldp_time\<close> and \<open>stack_correct\<close> with \<open>get(key, None)\<close>, so each is
  optional.
\<close>

record stack_probe_info =
  last_seen_lldp_time :: "real option"
  stack_correct :: "bool option"

text \<open>
  The remote end of a stack link, \<open>port.stack['dp']\<close>: the \<open>send_interval\<close> of its
  \<open>lldp_beacon\<close> dictionary, when present, and its \<open>DEFAULT_LLDP_SEND_INTERVAL\<close>.
\<close>

record remote_dp =
  lldp_beacon_send_interval :: "real option"
  DEFAULT_LLDP_SEND_INTERVAL :: real

datatype action =
    PopVlan
  | OutputPort nat
  | PushVlanAct nat
  | SetNoExternalForwardingRequested
  | SetExternalForwardingRequested
  | OtherAction string

record port =
  number :: nat
  enabled :: bool
  opstatus_reconf :: bool
  output_only :: bool
  receive_lldp :: bool
  coprocessor :: "nat option option"
  dot1x :: bool
  lacp :: nat
  lacp_active :: bool
  lacp_passthrough :: "nat list"
  lacp_resp_interval :: real
  stack :: "remote_dp option"
  max_lldp_lost :: nat
  tagged_vlans :: "vlan list"
  native_vlan :: "vlan option"
  mirror_actions :: "action list"
  loop_protect_external :: bool
  dyn_phys_up :: bool
  dyn_dot1x_native_vlan :: "vlan option"
  dyn_lacp_up :: bool
  dyn_last_lacp_pkt :: "lacp_pdu option"
  dyn_lacp_updated_time :: "real option"
  dyn_lacp_last_resp_time :: "real option"
  dyn_stack_current_state :: stack_state
  dyn_stack_probe_info :: stack_probe_info


text \<open>
  OpenFlow messages. A table is named as in \<open>dp.tables\<close>; \<open>wildcard_table\<close> stands
  for all tables. A match lists the fields that \<open>valve.py\<close> sets.
\<close>

datatype table = Table string | wildcard_table

datatype vlan_match = NullVLAN | OFVLAN nat

record ofp_match =
  match_in_port :: "nat option"
  match_vlan :: "vlan_match option"
  match_eth_type :: "nat option"
  match_eth_dst :: "mac option"
  match_eth_dst_mask :: "mac option"

datatype inst = ApplyActions "action list" | Goto table | OtherInst string

datatype ofmsg =
    FlowMod table ofp_match nat "inst list"
  | FlowDrop table ofp_match nat
  | FlowController table ofp_match nat nat
  | FlowDel table ofp_match "nat option" bool
  | PacketOut nat bytes
  | OtherMsg string

definition match_all :: ofp_match where
  "match_all = \<lparr>match_in_port = None, match_vlan = None, match_eth_type = None,
     match_eth_dst = None, match_eth_dst_mask = None\<rparr>"

text \<open>The datapath configuration with its dynamic state (\<open>dyn_*\<close>).\<close>

record dp =
  ports :: "(nat \<times> port) list"
  vlans :: "(nat \<times> vlan) list"
  tables :: "string list"
  in_port_tables :: "string list"
  dp_stack :: "string option"
  is_stack_root :: bool
  stack_root_flood_reflection :: bool
  use_idle_timeout :: bool
  classification_table :: string
  dp_dot1x :: "nat option"
  dp_acls :: bool
  has_acls :: bool
  has_externals :: bool
  idle_dst :: bool
  cookie :: nat
  strict_packet_in_cookie :: bool
  global_vlan :: nat
  ignore_learn_ins :: nat
  lacp_timeout :: real
  lowest_priority :: nat
  low_priority :: nat
  high_priority :: nat
  highest_priority :: nat
  dyn_running :: bool
  dyn_up_port_nos :: "nat set"
  dyn_last_coldstart_time :: "real option"

text \<open>
  A manager, as \<open>valve.py\<close> sees one: the messages that each of its methods returns.
  The record is the union of the methods that \<open>valve.py\<close> calls on the pipeline, the
  host, route, flood and ACL managers; the managers' own caches are not modelled.
\<close>

record manager =
  initialise_tables :: "ofmsg list"
  add_port :: "port \<Rightarrow> ofmsg list"
  del_port :: "port \<Rightarrow> ofmsg list"
  add_vlan :: "vlan \<Rightarrow> ofmsg list"
  update_vlan :: "vlan \<Rightarrow> ofmsg list"
  expire_port_nexthops :: "port \<Rightarrow> ofmsg list"
  cold_start_port :: "port \<Rightarrow> ofmsg list"
  expire_hosts_from_vlan :: "vlan \<Rightarrow> real \<Rightarrow> (mac \<times> nat) list"
  delete_host_from_vlan :: "mac \<Rightarrow> vlan \<Rightarrow> ofmsg list"
  resolve_expire_hosts :: "vlan \<Rightarrow> real \<Rightarrow> ofmsg list"
  accept_to_classification :: "inst list"

datatype event =
    DP_CHANGE string
  | PORT_CHANGE nat string nat bool
  | L2_EXPIRE nat nat mac
  | CONFIG_CHANGE "string option"

text \<open>The 802.1X manager \<open>self.dot1x\<close>, by the messages its methods return.\<close>

record dot1x_manager =
  nfv_sw_port_up :: "port \<Rightarrow> ofmsg list"
  port_up :: "port \<Rightarrow> port \<Rightarrow> ofmsg list"
  port_down :: "port \<Rightarrow> port \<Rightarrow> ofmsg list"

record valve =
  dp :: dp
  dot1x_mgr :: dot1x_manager
  pipeline :: manager
  host_manager :: manager
  route_manager_by_ipv :: "(nat \<times> manager) list"
  flood_manager :: manager
  acl_manager :: "manager option"
  last_pipeline_flows :: "string list list"
  packet_in_count_sec :: nat
  last_packet_in_sec :: real
  last_advertise_sec :: real
  last_fast_advertise_sec :: real
  port_highwater :: "(nat \<times> (nat \<times> nat) list) list"
  notifications :: "event list"
  counters :: "string \<Rightarrow> nat"

subsection \<open>Counters and notifications\<close>

definition inc_var :: "valve \<Rightarrow> string \<Rightarrow> valve" where
  "inc_var v var = v\<lparr>counters := (counters v)(var := counters v var + 1)\<rparr>"

definition notify :: "valve \<Rightarrow> event \<Rightarrow> valve" where
  "notify v event_dict = v\<lparr>notifications := notifications v @ [event_dict]\<rparr>"

subsection \<open>Packet-in rate limiting\<close>

text \<open>
  \<^verbatim>\<open>
  def rate_limit_packet_ins(self, now):
      if self._last_packet_in_sec != now:
          self._last_packet_in_sec = now
          self._packet_in_count_sec = 0
      self._packet_in_count_sec += 1
      if self.dp.ignore_learn_ins:
          if self._packet_in_count_sec % self.dp.ignore_learn_ins == 0:
              self._inc_var('of_ignored_packet_ins')
              return True
      return False
  \<close>
\<close>

definition rate_limit_packet_ins :: "valve \<Rightarrow> real \<Rightarrow> valve \<times> bool" where
  "rate_limit_packet_ins v now =
     (let v1 = (if last_packet_in_sec v \<noteq> now
                then v\<lparr>last_packet_in_sec := now, packet_in_count_sec := 0\<rparr> else v);
          v2 = v1\<lparr>packet_in_count_sec := packet_in_count_sec v1 + 1\<rparr>
      in if ignore_learn_ins (dp v2) \<noteq> 0
            \<and> packet_in_count_sec v2 mod ignore_learn_ins (dp v2) = 0
         then (inc_var v2 ''of_ignored_packet_ins'', True)
         else (v2, False))"


subsection \<open>Stack link state\<close>

text \<open>
  Modelled from the spec: the state tests of the missing class \<open>Port\<close>; a stack port is
  in exactly one of the states admin-down, INIT, DOWN and UP.
\<close>

definition is_stack_admin_down :: "port \<Rightarrow> bool" where
  "is_stack_admin_down port = (dyn_stack_current_state port = STACK_STATE_ADMIN_DOWN)"

definition is_stack_init :: "port \<Rightarrow> bool" where
  "is_stack_init port = (dyn_stack_current_state port = STACK_STATE_INIT)"

definition is_stack_down :: "port \<Rightarrow> bool" where
  "is_stack_down port = (dyn_stack_current_state port = STACK_STATE_DOWN)"

definition is_stack_up :: "port \<Rightarrow> bool" where
  "is_stack_up port = (dyn_stack_current_state port = STACK_STATE_UP)"

text \<open>\<open>remote_dp.lldp_beacon.get('send_interval', remote_dp.DEFAULT_LLDP_SEND_INTERVAL)\<close>\<close>

definition send_interval :: "remote_dp \<Rightarrow> real" where
  "send_interval remote = (case lldp_beacon_send_interval remote of
     None \<Rightarrow> DEFAULT_LLDP_SEND_INTERVAL remote | Some i \<Rightarrow> i)"

text \<open>
  \<open>Valve._next_stack_link_state\<close>. The result \<open>next_state\<close> of the source is one of
  the methods \<open>port.stack_init\<close>, \<open>port.stack_up\<close>, \<open>port.stack_down\<close> or \<open>None\<close>;
  here it is the state that the method sets. \<open>port.stack['dp']\<close> raises \<open>TypeError\<close>
  on a port with no stack configuration and the division raises
  \<open>ZeroDivisionError\<close> when the send interval is zero. \<open>not stack_correct\<close> holds
  for \<open>None\<close> and for \<open>False\<close>; \<open>if time_since_lldp_seen\<close> holds for a time that is
  not zero.
\<close>

definition next_stack_link_state :: "port \<Rightarrow> real \<Rightarrow> py_error + stack_state option" where
  "next_stack_link_state port now =
     (if is_stack_admin_down port then Inr None
      else case last_seen_lldp_time (dyn_stack_probe_info port) of
        None \<Rightarrow> Inr (if is_stack_down port then Some STACK_STATE_INIT else None)
      | Some last_seen \<Rightarrow>
         (case stack port of
            None \<Rightarrow> Inl TypeError
          | Some remote \<Rightarrow>
             (let time_since_lldp_seen = now - last_seen in
              if send_interval remote = 0 then Inl ZeroDivisionError
              else
                let num_lost_lldp = time_since_lldp_seen / send_interval remote;
                    stack_timed_out = \<not> (num_lost_lldp < real (max_lldp_lost port))
                in if stack_correct (dyn_stack_probe_info port) \<noteq> Some True
                   then Inr (if \<not> is_stack_down port then Some STACK_STATE_DOWN else None)
                   else if stack_timed_out
                   then Inr (if \<not> is_stack_down port \<and> time_since_lldp_seen \<noteq> 0
                             then Some STACK_STATE_DOWN else None)
                   else Inr (if \<not> is_stack_up port then Some STACK_STATE_UP else None))))"

text \<open>
  The step of \<open>Valve._update_stack_link_state\<close> that applies the result:
  \<open>if next_state is not None: next_state()\<close>.
\<close>

definition apply_next_state :: "port \<Rightarrow> stack_state option \<Rightarrow> port" where
  "apply_next_state port next_state = (case next_state of
     None \<Rightarrow> port | Some s \<Rightarrow> port\<lparr>dyn_stack_current_state := s\<rparr>)"

subsection \<open>Packet-in parsing\<close>

text \<open>
  A packet-in message. \<open>msg.match\<close> is a dictionary from field names to values or
  \<open>None\<close>; \<open>msg.data\<close> is a byte string or \<open>None\<close>.
\<close>

record packet_in =
  msg_cookie :: nat
  msg_reason :: nat
  msg_match :: "(string \<rightharpoonup> nat) option"
  msg_data :: "bytes option"
  msg_total_len :: nat

record ethernet =
  src :: mac
  dst :: mac

type_synonym packet = bytes

record packet_meta =
  data :: bytes
  orig_len :: nat
  pkt :: packet
  eth_pkt :: ethernet
  vlan_pkt :: "packet option"
  port :: port
  vlan :: "vlan option"
  eth_src :: mac
  eth_dst :: mac
  eth_type :: "nat option"

text \<open>
  The functions and constants of the missing modules \<open>valve_packet\<close> and \<open>valve_of\<close>
  that \<open>valve.py\<close> uses; they are parameters of the model.
  \<open>parse_packet_in_pkt\<close> returns \<open>(pkt, eth_pkt, eth_type, vlan_pkt, vlan_vid)\<close>, each
  possibly \<open>None\<close>.
\<close>

record valve_packet =
  parse_packet_in_pkt ::
    "bytes \<Rightarrow> nat \<Rightarrow> packet option \<times> ethernet option \<times> nat option \<times> packet option \<times> nat option"
  mac_addr_is_unicast :: "mac \<Rightarrow> bool"
  mac_addr_all_zeros :: "mac \<Rightarrow> bool"
  int_from_mac :: "mac \<Rightarrow> nat"
  reparse_all :: "bytes \<Rightarrow> packet"
  parse_lacp_pkt :: "packet \<Rightarrow> lacp_pdu option"
  lacp_actor_up :: "lacp_pdu \<Rightarrow> bool"
  lacp_str :: "lacp_pdu \<Rightarrow> string"
  lacp_reqreply :: "nat \<Rightarrow> nat \<Rightarrow> bool \<Rightarrow> bool \<Rightarrow> bool \<Rightarrow> lacp_pdu option \<Rightarrow> bytes"
  port_status_from_state :: "nat \<Rightarrow> bool"
  SLOW_PROTOCOL_MULTICAST :: mac
  LLDP_MAC_NEAREST_BRIDGE :: mac
  BRIDGE_GROUP_MASK :: mac
  LACP_SIZE :: nat
  ETH_VLAN_HEADER_SIZE :: nat
  MAX_PACKET_IN_BYTES :: nat

text \<open>OpenFlow 1.3 and Ethernet constants.\<close>

definition OFPR_ACTION :: nat where "OFPR_ACTION = 1"
definition OFPPR_ADD :: nat where "OFPPR_ADD = 0"
definition OFPPR_DELETE :: nat where "OFPPR_DELETE = 1"
definition OFPPR_MODIFY :: nat where "OFPPR_MODIFY = 2"
definition OFPPS_LINK_DOWN :: nat where "OFPPS_LINK_DOWN = 1"
definition ETH_TYPE_SLOW :: nat where "ETH_TYPE_SLOW = 0x8809"
definition ETH_TYPE_LLDP :: nat where "ETH_TYPE_LLDP = 0x88cc"

text \<open>
  Modelled from the spec: \<open>DP.port_no_valid\<close> is missing; a port number is valid when
  it is one of the declared ports of the datapath (an in-port ``not in the
  configuration'' is rejected).
\<close>

definition port_no_valid :: "dp \<Rightarrow> nat \<Rightarrow> bool" where
  "port_no_valid d port_no = (map_of (ports d) port_no \<noteq> None)"

text \<open>
  \<open>Valve.parse_rcv_packet\<close>. \<open>self.dp.ports[in_port]\<close> raises \<open>KeyError\<close> for a port
  that is not declared.
\<close>

definition parse_rcv_packet ::
  "valve_packet \<Rightarrow> valve \<Rightarrow> nat \<Rightarrow> nat option \<Rightarrow> nat option \<Rightarrow> bytes \<Rightarrow> nat \<Rightarrow> packet
     \<Rightarrow> ethernet \<Rightarrow> packet option \<Rightarrow> py_error + packet_meta" where
  "parse_rcv_packet vp v in_port vlan_vid et dat olen p eth vl =
     (let vlan0 = (case vlan_vid of None \<Rightarrow> None | Some vd \<Rightarrow> map_of (vlans (dp v)) vd) in
      case map_of (ports (dp v)) in_port of
        None \<Rightarrow> Inl KeyError
      | Some prt \<Rightarrow>
         (let pkt_meta = \<lparr>data = dat, orig_len = olen, pkt = p, eth_pkt = eth, vlan_pkt = vl,
                port = prt, vlan = vlan0, eth_src = src eth, eth_dst = dst eth,
                eth_type = et\<rparr>
          in if vlan_vid = Some (global_vlan (dp v))
             then (let vlan1 = map_of (vlans (dp v)) (int_from_mac vp (eth_dst pkt_meta));
                       pkt_meta1 = pkt_meta\<lparr>vlan := vlan1\<rparr>
                   in case vlan1 of
                        None \<Rightarrow> Inr pkt_meta1
                      | Some vl1 \<Rightarrow> Inr (pkt_meta1\<lparr>eth_dst := faucet_mac vl1\<rparr>))
             else Inr pkt_meta))"

text \<open>
  \<open>Valve.parse_pkt_meta\<close>. \<open>msg.match['in_port']\<close> raises \<open>KeyError\<close> when the match
  has no such field; \<open>not in_port\<close> holds for the port number 0; \<open>not msg.data\<close>
  holds for \<open>None\<close> and for the empty byte string.
\<close>

definition parse_pkt_meta :: "valve_packet \<Rightarrow> valve \<Rightarrow> packet_in \<Rightarrow> py_error + packet_meta option" where
  "parse_pkt_meta vp v msg =
     (if \<not> dyn_running (dp v) then Inr None
      else if strict_packet_in_cookie (dp v) \<and> cookie (dp v) \<noteq> msg_cookie msg then Inr None
      else if msg_reason msg \<noteq> OFPR_ACTION then Inr None
      else case msg_match msg of
        None \<Rightarrow> Inr None
      | Some m \<Rightarrow>
         (case m ''in_port'' of
            None \<Rightarrow> Inl KeyError
          | Some in_port \<Rightarrow>
             if in_port = 0 \<or> \<not> port_no_valid (dp v) in_port then Inr None
             else (case msg_data msg of
               None \<Rightarrow> Inr None
             | Some msgdata \<Rightarrow>
                if msgdata = [] then Inr None
                else
                  (let dat = take (MAX_PACKET_IN_BYTES vp) msgdata;
                       (p_opt, eth_opt, et, vl, vlan_vid) =
                          parse_packet_in_pkt vp dat (ETH_VLAN_HEADER_SIZE vp)
                   in case p_opt of
                        None \<Rightarrow> Inr None
                      | Some p \<Rightarrow>
                         (case eth_opt of
                            None \<Rightarrow> Inr None
                          | Some eth \<Rightarrow>
                             if (case vlan_vid of None \<Rightarrow> False
                                 | Some vd \<Rightarrow> map_of (vlans (dp v)) vd = None
                                              \<and> vd \<noteq> global_vlan (dp v))
                             then Inr None
                             else
                               (case parse_rcv_packet vp v in_port vlan_vid et dat
                                       (msg_total_len msg) p eth vl of
                                  Inl e \<Rightarrow> Inl e
                                | Inr pkt_meta \<Rightarrow>
                                   if \<not> mac_addr_is_unicast vp (eth_src pkt_meta) then Inr None
                                   else if mac_addr_all_zeros vp (eth_src pkt_meta) then Inr None
                                   else if dp_stack (dp v) \<noteq> None
                                        \<and> stack (port pkt_meta) = None
                                        \<and> (case vlan pkt_meta of None \<Rightarrow> False
                                            | Some vl0 \<Rightarrow>
                                               vl0 \<notin> set (tagged_vlans (port pkt_meta))
                                               \<and> Some vl0 \<noteq> native_vlan (port pkt_meta))
                                   then Inr None
                                   else Inr (Some pkt_meta)))))))"

text \<open>
  \<open>Valve.datapath_disconnect\<close>; the gauge \<open>dp_status\<close> that \<open>_reset_dp_status\<close>
  sets is not modelled.
\<close>

definition datapath_disconnect :: "valve \<Rightarrow> valve" where
  "datapath_disconnect v =
     (let v1 = notify v (DP_CHANGE ''disconnect'');
          v2 = v1\<lparr>dp := (dp v1)\<lparr>dyn_running := False\<rparr>\<rparr>
      in inc_var v2 ''of_dp_disconnections'')"

subsection \<open>Ports, managers and LACP state\<close>

text \<open>
  A port object is shared between \<open>dp.ports\<close> and the code that holds it, and the
  source mutates it in place. Here a method that mutates a port takes the port record
  and returns the updated record, and \<open>set_port\<close> stores it back in \<open>dp.ports\<close>
  under its number.
\<close>

definition set_port :: "valve \<Rightarrow> port \<Rightarrow> valve" where
  "set_port v prt = v\<lparr>dp := (dp v)\<lparr>ports :=
     map (\<lambda>(n, p). if n = number prt then (n, prt) else (n, p)) (ports (dp v))\<rparr>\<rparr>"

text \<open>
  Modelled from the spec: \<open>Port.running()\<close>, \<open>Port.vlans()\<close> and
  \<open>DP.lacp_forwarding(port)\<close> are missing. A port runs when it is enabled by its
  configuration and physically up; its VLANs are its native VLAN (the dynamic 802.1X
  native VLAN, when set) followed by its tagged VLANs; \<open>lacp_forwarding(port)\<close> is
  true iff the DP is not stacked or is the stack root.
\<close>

definition running :: "port \<Rightarrow> bool" where
  "running prt = (enabled prt \<and> dyn_phys_up prt)"

definition port_vlans :: "port \<Rightarrow> vlan list" where
  "port_vlans prt = (case dyn_dot1x_native_vlan prt of
       Some vl \<Rightarrow> vl # tagged_vlans prt
     | None \<Rightarrow> (case native_vlan prt of
         Some vl \<Rightarrow> vl # tagged_vlans prt
       | None \<Rightarrow> tagged_vlans prt))"

definition lacp_forwarding :: "dp \<Rightarrow> port \<Rightarrow> bool" where
  "lacp_forwarding d prt = (dp_stack d = None \<or> is_stack_root d)"

text \<open>\<open>Valve._get_managers\<close>: the managers that are not \<open>None\<close>, in the source's order.\<close>

definition get_managers :: "valve \<Rightarrow> manager list" where
  "get_managers v =
     [pipeline v, host_manager v]
     @ (case map_of (route_manager_by_ipv v) 4 of None \<Rightarrow> [] | Some m \<Rightarrow> [m])
     @ (case map_of (route_manager_by_ipv v) 6 of None \<Rightarrow> [] | Some m \<Rightarrow> [m])
     @ [flood_manager v]
     @ (case acl_manager v of None \<Rightarrow> [] | Some m \<Rightarrow> [m])"

text \<open>
  A Python set of VLANs that is later iterated: kept as a list without duplicates in
  the order of first insertion. \<open>set_update s xs\<close> is \<open>s.update(xs)\<close>.
\<close>

definition set_update :: "'a list \<Rightarrow> 'a list \<Rightarrow> 'a list" where
  "set_update s xs = fold (\<lambda>x acc. if x \<in> set acc then acc else acc @ [x]) xs s"

text \<open>
  \<open>Valve.lacp_down\<close>; the result carries the updated Valve and port besides the
  messages. The gauge set by \<open>_reset_lacp_status\<close> is not modelled.
\<close>

definition lacp_down :: "valve_packet \<Rightarrow> valve \<Rightarrow> port \<Rightarrow> bool \<Rightarrow> valve \<times> port \<times> ofmsg list" where
  "lacp_down vp v prt cold_start =
     (let prt1 = prt\<lparr>dyn_lacp_up := False, dyn_last_lacp_pkt := None,
                   dyn_lacp_updated_time := None, dyn_lacp_last_resp_time := None\<rparr>;
          v1 = set_port v prt1;
          ofmsgs = (if \<not> cold_start
                    then del_port (host_manager v1) prt1
                         @ concat (map (add_vlan (flood_manager v1)) (port_vlans prt1))
                    else [])
      in (v1, prt1,
          ofmsgs
          @ [FlowDrop (Table ''vlan'') (match_all\<lparr>match_in_port := Some (number prt1)\<rparr>)
               (high_priority (dp v1)),
             FlowController (Table ''vlan'')
               (match_all\<lparr>match_in_port := Some (number prt1),
                   match_eth_type := Some ETH_TYPE_SLOW,
                   match_eth_dst := Some (SLOW_PROTOCOL_MULTICAST vp)\<rparr>)
               (highest_priority (dp v1)) (LACP_SIZE vp)]))"

text \<open>\<open>Valve.lacp_up\<close>\<close>

definition lacp_up :: "valve \<Rightarrow> port \<Rightarrow> valve \<times> port \<times> ofmsg list" where
  "lacp_up v prt =
     (let prt1 = prt\<lparr>dyn_lacp_up := True\<rparr>;
          v1 = set_port v prt1
      in (v1, prt1,
          if lacp_forwarding (dp v1) prt1
          then FlowDel (Table ''vlan'') (match_all\<lparr>match_in_port := Some (number prt1)\<rparr>)
                 (Some (high_priority (dp v1))) True
               # concat (map (add_vlan (flood_manager v1)) (port_vlans prt1))
          else []))"

text \<open>
  The loop of \<open>Valve._lacp_actions\<close> over \<open>port.lacp_passthrough\<close>: \<open>False\<close> as soon
  as a peer is down; \<open>lacp_peer.dyn_lacp_up\<close> raises \<open>AttributeError\<close> for a peer that
  is not a port of the DP.
\<close>

fun lacp_passthrough_up :: "dp \<Rightarrow> nat list \<Rightarrow> py_error + bool" where
  "lacp_passthrough_up d [] = Inr True"
| "lacp_passthrough_up d (peer_num # peers) =
     (case map_of (ports d) peer_num of
        None \<Rightarrow> Inl AttributeError
      | Some lacp_peer \<Rightarrow>
         if \<not> dyn_lacp_up lacp_peer then Inr False else lacp_passthrough_up d peers)"

text \<open>
  \<open>Valve._lacp_actions\<close>. Both branches on \<open>lacp_pkt\<close> build the reply with
  \<open>valve_packet.lacp_reqreply\<close>, from the LAG, the port number, the actor state flags
  and the fields of the received PDU when there is one.
\<close>

definition lacp_actions ::
  "valve_packet \<Rightarrow> valve \<Rightarrow> lacp_pdu option \<Rightarrow> port \<Rightarrow> py_error + ofmsg list" where
  "lacp_actions vp v lacp_pkt prt =
     (case lacp_passthrough_up (dp v) (lacp_passthrough prt) of
        Inl e \<Rightarrow> Inl e
      | Inr peers_up \<Rightarrow>
         if \<not> peers_up then Inr []
         else
           (let actor_state_activity = lacp_active prt;
                actor_state_collecting = lacp_forwarding (dp v) prt;
                actor_state_distributing = lacp_forwarding (dp v) prt
            in Inr [PacketOut (number prt)
                 (lacp_reqreply vp (lacp prt) (number prt) actor_state_activity
                    actor_state_collecting actor_state_distributing lacp_pkt)]))"

text \<open>
  \<open>Valve.lacp_handler\<close>. The result is the entry of \<open>ofmsgs_by_valve\<close> for this
  Valve, \<open>None\<close> when the dictionary has no such entry. The final loop over the
  other ports of the LAG only logs and is left out.
\<close>

definition lacp_handler ::
  "valve_packet \<Rightarrow> valve \<Rightarrow> real \<Rightarrow> packet_meta \<Rightarrow> py_error + (valve \<times> ofmsg list option)" where
  "lacp_handler vp v now pkt_meta =
     (if eth_dst pkt_meta = SLOW_PROTOCOL_MULTICAST vp
         \<and> eth_type pkt_meta = Some ETH_TYPE_SLOW
         \<and> lacp (port pkt_meta) \<noteq> 0
      then
        (case parse_lacp_pkt vp (reparse_all vp (take (LACP_SIZE vp) (data pkt_meta))) of
           None \<Rightarrow> Inr (v, None)
         | Some lacp_pkt \<Rightarrow>
            (let prt = port pkt_meta;
                 age = (case dyn_lacp_last_resp_time prt of
                          None \<Rightarrow> None
                        | Some t \<Rightarrow> if t = 0 then None else Some (now - t));
                 actor_up = lacp_actor_up vp lacp_pkt;
                 lacp_state_change = (dyn_lacp_up prt \<noteq> actor_up);
                 lacp_pkt_change =
                   (case dyn_last_lacp_pkt prt of
                      None \<Rightarrow> True
                    | Some last_pkt \<Rightarrow> lacp_str vp lacp_pkt \<noteq> lacp_str vp last_pkt);
                 (v1, prt1, ofmsgs1) =
                   (if lacp_state_change
                    then (if actor_up
                          then (case lacp_up v prt of (v', p', ms) \<Rightarrow> (v', p', Some ms))
                          else (case lacp_down vp v prt False of
                                  (v', p', ms) \<Rightarrow> (v', p', Some ms)))
                    else (v, prt, None))
             in if lacp_pkt_change
                   \<or> (case age of None \<Rightarrow> False | Some a \<Rightarrow> a > lacp_resp_interval prt)
                then
                  (case lacp_actions vp v1 (Some lacp_pkt) prt1 of
                     Inl e \<Rightarrow> Inl e
                   | Inr reply \<Rightarrow>
                      Inr (set_port v1 (prt1\<lparr>dyn_lacp_last_resp_time := Some now,
                                    dyn_last_lacp_pkt := Some lacp_pkt,
                                    dyn_lacp_updated_time := Some now\<rparr>),
                           Some ((case ofmsgs1 of None \<Rightarrow> [] | Some ms \<Rightarrow> ms) @ reply)))
                else
                  Inr (set_port v1 (prt1\<lparr>dyn_last_lacp_pkt := Some lacp_pkt,
                                    dyn_lacp_updated_time := Some now\<rparr>),
                       ofmsgs1)))
      else Inr (v, None))"

subsection \<open>Adding and deleting ports\<close>

text \<open>\<open>Valve._find_forwarding_table\<close> and \<open>Valve._port_add_vlan_rules\<close>\<close>

definition find_forwarding_table :: "valve \<Rightarrow> vlan \<Rightarrow> table" where
  "find_forwarding_table v vl =
     (if acls_in vl then Table ''vlan_acl'' else Table (classification_table (dp v)))"

definition port_add_vlan_rules :: "valve \<Rightarrow> port \<Rightarrow> vlan \<Rightarrow> action list \<Rightarrow> bool \<Rightarrow> ofmsg" where
  "port_add_vlan_rules v prt vl mirror_act push_vlan =
     (let actions1 = (if push_vlan then mirror_act @ [PushVlanAct (vid vl)] else mirror_act);
          match_vlan = (if push_vlan then NullVLAN else OFVLAN (vid vl));
          actions2 = (if has_externals (dp v)
                      then (if loop_protect_external prt
                            then actions1 @ [SetNoExternalForwardingRequested]
                            else actions1 @ [SetExternalForwardingRequested])
                      else actions1)
      in FlowMod (Table ''vlan'')
           (match_all\<lparr>match_in_port := Some (number prt), match_vlan := Some match_vlan\<rparr>)
           (low_priority (dp v))
           [ApplyActions actions2, Goto (find_forwarding_table v vl)])"

text \<open>\<open>Valve._port_add_vlans\<close>\<close>

definition port_add_vlans :: "valve \<Rightarrow> port \<Rightarrow> action list \<Rightarrow> ofmsg list" where
  "port_add_vlans v prt mirror_act =
     map (\<lambda>vl. port_add_vlan_rules v prt vl mirror_act False) (tagged_vlans prt)
     @ (case dyn_dot1x_native_vlan prt of
          Some vl \<Rightarrow> [port_add_vlan_rules v prt vl mirror_act True]
        | None \<Rightarrow> (case native_vlan prt of
            Some vl \<Rightarrow> [port_add_vlan_rules v prt vl mirror_act True]
          | None \<Rightarrow> []))"

text \<open>
  \<open>Valve._delete_all_port_match_flows\<close>, \<open>Valve._port_delete_manager_state\<close> and
  \<open>Valve._port_delete_flows_state\<close>
\<close>

definition delete_all_port_match_flows :: "valve \<Rightarrow> port \<Rightarrow> ofmsg list" where
  "delete_all_port_match_flows v prt =
     (let tbls = (if dp_acls (dp v)
                  then map Table (filter (\<lambda>t. t \<noteq> ''port_acl'') (remdups (in_port_tables (dp v))))
                  else [wildcard_table])
      in map (\<lambda>t. FlowDel t (match_all\<lparr>match_in_port := Some (number prt)\<rparr>) None False) tbls)"

definition port_delete_manager_state :: "valve \<Rightarrow> port \<Rightarrow> ofmsg list" where
  "port_delete_manager_state v prt = concat (map (\<lambda>m. del_port m prt) (get_managers v))"

definition port_delete_flows_state :: "valve \<Rightarrow> port \<Rightarrow> ofmsg list" where
  "port_delete_flows_state v prt =
     concat (map (\<lambda>(ipv, m). expire_port_nexthops m prt) (route_manager_by_ipv v))
     @ delete_all_port_match_flows v prt
     @ port_delete_manager_state v prt"

text \<open>\<open>Valve._coprocessor_flows\<close>; \<open>vlan_vid_base\<close> is \<open>port.coprocessor.get('vlan_vid_base', 0)\<close>.\<close>

definition coprocessor_flows :: "valve \<Rightarrow> port \<Rightarrow> nat option \<Rightarrow> ofmsg list" where
  "coprocessor_flows v prt copro =
     (let vlan_vid_base = (case copro of None \<Rightarrow> 0 | Some b \<Rightarrow> b) in
      FlowMod (Table ''vlan'') (match_all\<lparr>match_in_port := Some (number prt)\<rparr>)
        (low_priority (dp v)) [Goto (Table ''copro'')]
      # map (\<lambda>(n, dp_port).
              FlowMod (Table ''copro'')
                (match_all\<lparr>match_vlan := Some (OFVLAN (vlan_vid_base + number dp_port))\<rparr>)
                (high_priority (dp v))
                [ApplyActions [PopVlan, OutputPort (number dp_port)]])
          (ports (dp v)))"

text \<open>
  The 802.1X step of \<open>ports_add\<close>. \<open>self.dp.ports[self.dp.dot1x['nfv_sw_port']]\<close>
  raises \<open>KeyError\<close> when the NFV port is not a port of the DP.
\<close>

definition ports_add_dot1x :: "valve \<Rightarrow> port \<Rightarrow> py_error + ofmsg list" where
  "ports_add_dot1x v prt =
     (case dp_dot1x (dp v) of
        None \<Rightarrow> Inr []
      | Some nfv \<Rightarrow>
         (case map_of (ports (dp v)) nfv of
            None \<Rightarrow> Inl KeyError
          | Some nfv_sw_port \<Rightarrow>
             if prt = nfv_sw_port then Inr (nfv_sw_port_up (dot1x_mgr v) nfv_sw_port)
             else if dot1x prt then Inr (port_up (dot1x_mgr v) prt nfv_sw_port)
             else Inr []))"

text \<open>
  The LACP step of \<open>ports_add\<close>: \<open>lacp_down\<close>, then \<open>_lacp_actions\<close> on an active port.
\<close>

definition ports_add_lacp ::
  "valve_packet \<Rightarrow> valve \<Rightarrow> port \<Rightarrow> bool \<Rightarrow> py_error + (valve \<times> port \<times> ofmsg list)" where
  "ports_add_lacp vp v prt cold_start =
     (if lacp prt \<noteq> 0
      then (case lacp_down vp v prt cold_start of
              (v1, prt1, ofmsgs) \<Rightarrow>
                if lacp_active prt1
                then (case lacp_actions vp v1 (dyn_last_lacp_pkt prt1) prt1 of
                        Inl e \<Rightarrow> Inl e
                      | Inr actions \<Rightarrow> Inr (v1, prt1, ofmsgs @ actions))
                else Inr (v1, prt1, ofmsgs))
      else Inr (v, prt, []))"

text \<open>
  The body of the loop of \<open>Valve.ports_add\<close> for one port number: the updated
  Valve, the messages appended to \<open>ofmsgs\<close> and the VLANs added to
  \<open>vlans_with_ports_added\<close>. Each \<open>continue\<close> of the source ends the body.
\<close>

definition ports_add_port ::
  "valve_packet \<Rightarrow> valve \<Rightarrow> bool \<Rightarrow> nat \<Rightarrow> py_error + (valve \<times> ofmsg list \<times> vlan list)" where
  "ports_add_port vp v cold_start port_num =
     (if \<not> port_no_valid (dp v) port_num then Inr (v, [], [])
      else case map_of (ports (dp v)) port_num of
        None \<Rightarrow> Inl KeyError
      | Some port0 \<Rightarrow>
         (let prt = port0\<lparr>dyn_phys_up := True\<rparr>;
              v1 = set_port v prt
          in if \<not> running prt then Inr (v1, [], [])
             else
               (let ofmsgs1 = concat (map (\<lambda>m. add_port m prt) (get_managers v1)) in
                case coprocessor prt of
                  Some copro \<Rightarrow> Inr (v1, ofmsgs1 @ coprocessor_flows v1 prt copro, [])
                | None \<Rightarrow>
                   (case ports_add_dot1x v1 prt of
                      Inl e \<Rightarrow> Inl e
                    | Inr ofmsgs2 \<Rightarrow>
                       if output_only prt
                       then Inr (v1, ofmsgs1 @ ofmsgs2
                                 @ [FlowDrop (Table ''vlan'')
                                      (match_all\<lparr>match_in_port := Some port_num\<rparr>)
                                      (highest_priority (dp v1))], [])
                       else
                         (let ofmsgs3 =
                                (if receive_lldp prt
                                 then [FlowController (Table ''vlan'')
                                         (match_all\<lparr>match_in_port := Some port_num,
                                            match_eth_dst := Some (LLDP_MAC_NEAREST_BRIDGE vp),
                                            match_eth_dst_mask := Some (BRIDGE_GROUP_MASK vp),
                                            match_eth_type := Some ETH_TYPE_LLDP\<rparr>)
                                         (highest_priority (dp v1)) 128]
                                 else [])
                          in case ports_add_lacp vp v1 prt cold_start of
                               Inl e \<Rightarrow> Inl e
                             | Inr (v2, prt2, ofmsgs4) \<Rightarrow>
                                (case stack prt2 of
                                   Some remote \<Rightarrow>
                                     Inr (v2, ofmsgs1 @ ofmsgs2 @ ofmsgs3 @ ofmsgs4
                                          @ [FlowDrop (Table ''vlan'')
                                               (match_all\<lparr>match_in_port := Some port_num,
                                                  match_vlan := Some NullVLAN\<rparr>)
                                               (low_priority (dp v2) + 1),
                                             FlowMod (Table ''vlan'')
                                               (match_all\<lparr>match_in_port := Some port_num\<rparr>)
                                               (low_priority (dp v2))
                                               (accept_to_classification (pipeline v2))],
                                          map snd (vlans (dp v2)))
                                 | None \<Rightarrow>
                                     Inr (v2, ofmsgs1 @ ofmsgs2 @ ofmsgs3 @ ofmsgs4
                                          @ port_add_vlans v2 prt2 (mirror_actions prt2),
                                          port_vlans prt2)))))))"

text \<open>The loop of \<open>Valve.ports_add\<close> over \<open>port_nums\<close>.\<close>

fun ports_add_loop ::
  "valve_packet \<Rightarrow> bool \<Rightarrow> nat list \<Rightarrow> valve \<Rightarrow> ofmsg list \<Rightarrow> vlan list
     \<Rightarrow> py_error + (valve \<times> ofmsg list \<times> vlan list)" where
  "ports_add_loop vp cold_start [] v ofmsgs vlans_with_ports_added =
     Inr (v, ofmsgs, vlans_with_ports_added)"
| "ports_add_loop vp cold_start (port_num # port_nums) v ofmsgs vlans_with_ports_added =
     (case ports_add_port vp v cold_start port_num of
        Inl e \<Rightarrow> Inl e
      | Inr (v1, ms, port_vlans1) \<Rightarrow>
         ports_add_loop vp cold_start port_nums v1 (ofmsgs @ ms)
           (set_update vlans_with_ports_added port_vlans1))"

text \<open>\<open>Valve.ports_add\<close> and \<open>Valve.port_add\<close>\<close>

definition ports_add ::
  "valve_packet \<Rightarrow> valve \<Rightarrow> nat list \<Rightarrow> bool \<Rightarrow> py_error + (valve \<times> ofmsg list)" where
  "ports_add vp v port_nums cold_start =
     (case ports_add_loop vp cold_start port_nums v [] [] of
        Inl e \<Rightarrow> Inl e
      | Inr (v1, ofmsgs, vlans_with_ports_added) \<Rightarrow>
         if \<not> cold_start
         then Inr (v1, ofmsgs @ concat (map (add_vlan (flood_manager v1)) vlans_with_ports_added))
         else Inr (v1, ofmsgs))"

definition port_add :: "valve_packet \<Rightarrow> valve \<Rightarrow> nat \<Rightarrow> py_error + (valve \<times> ofmsg list)" where
  "port_add vp v port_num = ports_add vp v [port_num] False"

text \<open>
  The body of the loop of \<open>Valve.ports_delete\<close> for one port number.
  \<open>self.dp.dot1x['nfv_sw_port']\<close> raises \<open>TypeError\<close> when the DP has no 802.1X
  configuration.
\<close>

definition ports_delete_port ::
  "valve_packet \<Rightarrow> valve \<Rightarrow> nat \<Rightarrow> py_error + (valve \<times> ofmsg list \<times> vlan list)" where
  "ports_delete_port vp v port_num =
     (if \<not> port_no_valid (dp v) port_num then Inr (v, [], [])
      else case map_of (ports (dp v)) port_num of
        None \<Rightarrow> Inl KeyError
      | Some port0 \<Rightarrow>
         (let prt = port0\<lparr>dyn_phys_up := False\<rparr>;
              v1 = set_port v prt
          in if output_only prt then Inr (v1, [], [])
             else
               (case (if dot1x prt
                      then (case dp_dot1x (dp v1) of
                              None \<Rightarrow> Inl TypeError
                            | Some nfv \<Rightarrow>
                               (case map_of (ports (dp v1)) nfv of
                                  None \<Rightarrow> Inl KeyError
                                | Some nfv_sw_port \<Rightarrow>
                                   Inr (port_down (dot1x_mgr v1) prt nfv_sw_port)))
                      else Inr []) of
                  Inl e \<Rightarrow> Inl e
                | Inr ofmsgs1 \<Rightarrow>
                   if lacp prt \<noteq> 0
                   then (case lacp_down vp v1 prt False of
                           (v2, prt2, ofmsgs2) \<Rightarrow> Inr (v2, ofmsgs1 @ ofmsgs2, port_vlans prt))
                   else Inr (v1, ofmsgs1 @ port_delete_flows_state v1 prt, port_vlans prt))))"

fun ports_delete_loop ::
  "valve_packet \<Rightarrow> nat list \<Rightarrow> valve \<Rightarrow> ofmsg list \<Rightarrow> vlan list
     \<Rightarrow> py_error + (valve \<times> ofmsg list \<times> vlan list)" where
  "ports_delete_loop vp [] v ofmsgs vlans_with_deleted_ports =
     Inr (v, ofmsgs, vlans_with_deleted_ports)"
| "ports_delete_loop vp (port_num # port_nums) v ofmsgs vlans_with_deleted_ports =
     (case ports_delete_port vp v port_num of
        Inl e \<Rightarrow> Inl e
      | Inr (v1, ms, port_vlans1) \<Rightarrow>
         ports_delete_loop vp port_nums v1 (ofmsgs @ ms)
           (set_update vlans_with_deleted_ports port_vlans1))"

text \<open>\<open>Valve.ports_delete\<close> and \<open>Valve.port_delete\<close>\<close>

definition ports_delete ::
  "valve_packet \<Rightarrow> valve \<Rightarrow> nat list \<Rightarrow> py_error + (valve \<times> ofmsg list)" where
  "ports_delete vp v port_nums =
     (case ports_delete_loop vp port_nums v [] [] of
        Inl e \<Rightarrow> Inl e
      | Inr (v1, ofmsgs, vlans_with_deleted_ports) \<Rightarrow>
         Inr (v1, ofmsgs
                  @ concat (map (update_vlan (flood_manager v1)) vlans_with_deleted_ports)))"

definition port_delete :: "valve_packet \<Rightarrow> valve \<Rightarrow> nat \<Rightarrow> py_error + (valve \<times> ofmsg list)" where
  "port_delete vp v port_num = ports_delete vp v [port_num]"

subsection \<open>Port status\<close>

text \<open>\<open>Valve._set_port_status\<close>; the gauge \<open>port_status\<close> is not modelled.\<close>

definition set_port_status :: "valve \<Rightarrow> nat \<Rightarrow> bool \<Rightarrow> valve" where
  "set_port_status v port_no port_status =
     v\<lparr>dp := (dp v)\<lparr>dyn_up_port_nos :=
        (if port_status then insert port_no (dyn_up_port_nos (dp v))
         else dyn_up_port_nos (dp v) - {port_no})\<rparr>\<rparr>"

definition decode_port_status :: "nat \<Rightarrow> string" where
  "decode_port_status reason =
     (if reason = OFPPR_ADD then ''ADD''
      else if reason = OFPPR_DELETE then ''DELETE''
      else if reason = OFPPR_MODIFY then ''MODIFY''
      else ''UNKNOWN'')"

text \<open>
  \<open>Valve.port_status_handler\<close>. The result is the entry of the returned dictionary
  for this Valve, \<open>None\<close> for the empty dictionary.
\<close>

definition port_status_handler ::
  "valve_packet \<Rightarrow> valve \<Rightarrow> nat \<Rightarrow> nat \<Rightarrow> nat \<Rightarrow> py_error + (valve \<times> ofmsg list option)" where
  "port_status_handler vp v port_no reason state =
     (let port_status = port_status_from_state vp state;
          v1 = notify v (PORT_CHANGE port_no (decode_port_status reason) state port_status);
          v2 = set_port_status v1 port_no port_status
      in if \<not> port_no_valid (dp v2) port_no then Inr (v2, None)
         else case map_of (ports (dp v2)) port_no of
           None \<Rightarrow> Inl KeyError
         | Some prt \<Rightarrow>
            if \<not> opstatus_reconf prt then Inr (v2, None)
            else if reason \<notin> {OFPPR_ADD, OFPPR_DELETE, OFPPR_MODIFY} then Inr (v2, None)
            else
              (let new_port_status =
                     (reason = OFPPR_ADD \<or> (reason = OFPPR_MODIFY \<and> port_status))
               in if new_port_status
                  then
                    (case (if dyn_phys_up prt then port_delete vp v2 port_no else Inr (v2, [])) of
                       Inl e \<Rightarrow> Inl e
                     | Inr (v3, ofmsgs1) \<Rightarrow>
                        (case port_add vp v3 port_no of
                           Inl e \<Rightarrow> Inl e
                         | Inr (v4, ofmsgs2) \<Rightarrow> Inr (v4, Some (ofmsgs1 @ ofmsgs2))))
                  else
                    (case port_delete vp v2 port_no of
                       Inl e \<Rightarrow> Inl e
                     | Inr (v3, ofmsgs1) \<Rightarrow> Inr (v3, Some ofmsgs1))))"

subsection \<open>Relations used in the proofs\<close>

text \<open>
  \<open>same_config p q\<close>: the port records \<open>p\<close> and \<open>q\<close> differ in their dynamic state
  only. \<open>ports_updated v v'\<close>: the Valve \<open>v'\<close> is \<open>v\<close> with the dynamic state of some
  ports changed. \<open>keyed_by_number d\<close>: every port of the DP is stored under its own
  number.
\<close>

definition same_config :: "port \<Rightarrow> port \<Rightarrow> bool" where
  "same_config p q =
     (number q = number p
      \<and> enabled q = enabled p
      \<and> opstatus_reconf q = opstatus_reconf p
      \<and> output_only q = output_only p
      \<and> receive_lldp q = receive_lldp p
      \<and> coprocessor q = coprocessor p
      \<and> dot1x q = dot1x p
      \<and> lacp q = lacp p
      \<and> lacp_active q = lacp_active p
      \<and> lacp_passthrough q = lacp_passthrough p
      \<and> lacp_resp_interval q = lacp_resp_interval p
      \<and> stack q = stack p
      \<and> max_lldp_lost q = max_lldp_lost p
      \<and> tagged_vlans q = tagged_vlans p
      \<and> native_vlan q = native_vlan p
      \<and> mirror_actions q = mirror_actions p
      \<and> loop_protect_external q = loop_protect_external p)"

definition ports_updated :: "valve \<Rightarrow> valve \<Rightarrow> bool" where
  "ports_updated v v' =
     (v' = v\<lparr>dp := (dp v)\<lparr>ports := ports (dp v')\<rparr>\<rparr>
      \<and> (\<forall>n. case map_of (ports (dp v)) n of
                None \<Rightarrow> map_of (ports (dp v')) n = None
              | Some p \<Rightarrow> (\<exists>q. map_of (ports (dp v')) n = Some q \<and> same_config p q)))"

definition keyed_by_number :: "dp \<Rightarrow> bool" where
  "keyed_by_number d = (\<forall>n p. map_of (ports d) n = Some p \<longrightarrow> number p = n)"

text \<open>\<open>ports_changed_only v v'\<close>: the Valves \<open>v\<close> and \<open>v'\<close> differ in \<open>dp.ports\<close> only.\<close>

definition ports_changed_only :: "valve \<Rightarrow> valve \<Rightarrow> bool" where
  "ports_changed_only v v' = (v' = v\<lparr>dp := (dp v)\<lparr>ports := ports (dp v')\<rparr>\<rparr>)"

subsection \<open>State expiry\<close>

text \<open>
  Modelled from the spec: \<open>DP.lags_up()\<close> is missing. It maps each LAG that has a
  member port with LACP up to its member ports that have LACP up (``every port of an
  up LACP bundle'').
\<close>

definition lags_up :: "dp \<Rightarrow> (nat \<times> port list) list" where
  "lags_up d =
     (let lacp_ports = filter (\<lambda>p. lacp p \<noteq> 0) (map snd (ports d))
      in filter (\<lambda>(lag, ports_up). ports_up \<noteq> [])
           (map (\<lambda>lag. (lag, filter (\<lambda>p. lacp p = lag \<and> dyn_lacp_up p) lacp_ports))
              (remdups (map lacp lacp_ports))))"

text \<open>
  \<open>ofmsgs_by_valve[self].extend(ofmsgs)\<close> on a \<open>defaultdict(list)\<close>, whose entry for
  this Valve is \<open>None\<close> as long as it was never touched.
\<close>

definition extend_self :: "ofmsg list option \<Rightarrow> ofmsg list \<Rightarrow> ofmsg list option" where
  "extend_self ofmsgs_by_valve ofmsgs =
     Some ((case ofmsgs_by_valve of None \<Rightarrow> [] | Some ms \<Rightarrow> ms) @ ofmsgs)"

text \<open>
  The loops of \<open>Valve._lacp_state_expire\<close> over the ports of the LAGs that are up.
  \<open>now - port.dyn_lacp_updated_time\<close> raises \<open>TypeError\<close> when no update time is
  recorded.
\<close>

fun lacp_state_expire_loop ::
  "valve_packet \<Rightarrow> real \<Rightarrow> port list \<Rightarrow> valve \<Rightarrow> ofmsg list option
     \<Rightarrow> py_error + (valve \<times> ofmsg list option)" where
  "lacp_state_expire_loop vp now [] v ofmsgs_by_valve = Inr (v, ofmsgs_by_valve)"
| "lacp_state_expire_loop vp now (prt # ports_up) v ofmsgs_by_valve =
     (case dyn_lacp_updated_time prt of
        None \<Rightarrow> Inl TypeError
      | Some t \<Rightarrow>
         (let lacp_age = now - t in
          if lacp_age > lacp_timeout (dp v)
          then (case lacp_down vp v prt False of
                  (v1, prt1, ofmsgs) \<Rightarrow>
                    lacp_state_expire_loop vp now ports_up v1
                      (extend_self ofmsgs_by_valve ofmsgs))
          else lacp_state_expire_loop vp now ports_up v ofmsgs_by_valve))"

definition lacp_state_expire ::
  "valve_packet \<Rightarrow> valve \<Rightarrow> real \<Rightarrow> py_error + (valve \<times> ofmsg list option)" where
  "lacp_state_expire vp v now =
     lacp_state_expire_loop vp now (concat (map snd (lags_up (dp v)))) v None"

text \<open>
  The body of the loop of \<open>Valve.state_expire\<close> over the VLANs. An expired host is
  the pair of its \<open>eth_src\<close> and the number of its port.
\<close>

definition state_expire_vlan ::
  "real \<Rightarrow> vlan \<Rightarrow> valve \<times> ofmsg list option \<Rightarrow> valve \<times> ofmsg list option" where
  "state_expire_vlan now vl s =
     (case s of (v, ofmsgs_by_valve) \<Rightarrow>
        (let expired_hosts = expire_hosts_from_vlan (host_manager v) vl now;
             ofmsgs1 = (if \<not> idle_dst (dp v)
                        then fold (\<lambda>(entry_eth_src, entry_port_no) acc.
                                     extend_self acc
                                       (delete_host_from_vlan (host_manager v) entry_eth_src vl))
                               expired_hosts ofmsgs_by_valve
                        else ofmsgs_by_valve);
             v1 = fold (\<lambda>(entry_eth_src, entry_port_no) w.
                          notify w (L2_EXPIRE entry_port_no (vid vl) entry_eth_src))
                    expired_hosts v;
             ofmsgs2 = fold (\<lambda>(ipv, route_manager) acc.
                               extend_self acc (resolve_expire_hosts route_manager vl now))
                         (route_manager_by_ipv v1) ofmsgs1
         in (v1, ofmsgs2)))"

text \<open>\<open>Valve.state_expire\<close>\<close>

definition state_expire ::
  "valve_packet \<Rightarrow> valve \<Rightarrow> real \<Rightarrow> py_error + (valve \<times> ofmsg list option)" where
  "state_expire vp v now =
     (if dyn_running (dp v)
      then (case lacp_state_expire vp v now of
              Inl e \<Rightarrow> Inl e
            | Inr (v1, ofmsgs_by_valve) \<Rightarrow>
               Inr (fold (state_expire_vlan now) (map snd (vlans (dp v1)))
                      (v1, ofmsgs_by_valve)))
      else Inr (v, None))"

subsection \<open>Configuration reload\<close>

text \<open>
  The classes that \<open>dp_init\<close> instantiates, each as the manager it builds for a DP;
  \<open>Valve._pipeline_flows\<close> of the hardware class (the empty list for \<open>Valve\<close>, one
  table-features message for \<open>TfmValve\<close>, a message given by the strings \<open>str(x)\<close>
  of its body); and \<open>DP.get_config_changes\<close>. All are missing from the sources and
  are parameters of the model.
\<close>

type_synonym changes = "nat list \<times> nat list \<times> nat list \<times> nat list \<times> nat list \<times> bool"

record valve_classes =
  ValvePipeline :: "dp \<Rightarrow> manager"
  ValveIPv4RouteManager :: "dp \<Rightarrow> manager"
  ValveIPv6RouteManager :: "dp \<Rightarrow> manager"
  ValveFloodManager :: "dp \<Rightarrow> manager"
  ValveFloodStackManagerNoReflection :: "dp \<Rightarrow> manager"
  ValveFloodStackManagerReflection :: "dp \<Rightarrow> manager"
  ValveHostManager :: "dp \<Rightarrow> manager"
  ValveHostFlowRemovedManager :: "dp \<Rightarrow> manager"
  ValveAclManager :: "dp \<Rightarrow> manager"
  pipeline_flows :: "dp \<Rightarrow> string list list"
  get_config_changes :: "dp \<Rightarrow> dp \<Rightarrow> changes"

text \<open>
  Modelled from the spec: \<open>DP.clone_dyn_state\<close> is missing. The dynamic sub-state of
  a DP (the set of up port numbers, the running flag and the last cold-start time) is
  cloned from the outgoing DP into the new one.
\<close>

definition clone_dyn_state :: "dp \<Rightarrow> dp \<Rightarrow> dp" where
  "clone_dyn_state new_dp prev_dp =
     new_dp\<lparr>dyn_running := dyn_running prev_dp,
            dyn_up_port_nos := dyn_up_port_nos prev_dp,
            dyn_last_coldstart_time := dyn_last_coldstart_time prev_dp\<rparr>"

text \<open>
  \<open>Valve.dp_init\<close>: swap in the new DP, when one is given, reset the per-second
  counters and build the managers for the DP.
\<close>

definition dp_init :: "valve_classes \<Rightarrow> valve \<Rightarrow> dp option \<Rightarrow> valve" where
  "dp_init cl v new_dp =
     (let d = (case new_dp of None \<Rightarrow> dp v | Some nd \<Rightarrow> clone_dyn_state nd (dp v)) in
      v\<lparr>dp := d,
        packet_in_count_sec := 0, last_packet_in_sec := 0,
        last_advertise_sec := 0, last_fast_advertise_sec := 0,
        port_highwater := map (\<lambda>(vlan_vid, vl). (vlan_vid, map (\<lambda>(n, p). (n, 0)) (ports d)))
                            (vlans d),
        pipeline := ValvePipeline cl d,
        route_manager_by_ipv :=
          (if ''ipv4_fib'' \<in> set (tables d) then [(4, ValveIPv4RouteManager cl d)] else [])
          @ (if ''ipv6_fib'' \<in> set (tables d) then [(6, ValveIPv6RouteManager cl d)] else []),
        flood_manager :=
          (if dp_stack d \<noteq> None
           then (if stack_root_flood_reflection d
                 then ValveFloodStackManagerReflection cl d
                 else ValveFloodStackManagerNoReflection cl d)
           else ValveFloodManager cl d),
        host_manager :=
          (if use_idle_timeout d then ValveHostFlowRemovedManager cl d
           else ValveHostManager cl d),
        acl_manager := (if has_acls d then Some (ValveAclManager cl d) else None)\<rparr>)"

text \<open>
  \<open>Valve._pipeline_change\<close>. \<open>self._pipeline_flows()[0]\<close> raises \<open>IndexError\<close> when
  the hardware class has no pipeline flows.
\<close>

definition pipeline_change :: "valve_classes \<Rightarrow> valve \<Rightarrow> py_error + bool" where
  "pipeline_change cl v =
     (case last_pipeline_flows v of
        [] \<Rightarrow> Inr False
      | last_tfm # rest \<Rightarrow>
         (case pipeline_flows cl (dp v) of
            [] \<Rightarrow> Inl IndexError
          | tfm # rest' \<Rightarrow> Inr (set last_tfm \<noteq> set tfm)))"

text \<open>\<open>Valve._add_vlan\<close>, \<open>Valve._add_vlans\<close>, \<open>Valve._del_vlan\<close>, \<open>Valve._del_vlans\<close>\<close>

definition valve_add_vlan :: "valve \<Rightarrow> vlan \<Rightarrow> ofmsg list" where
  "valve_add_vlan v vl = concat (map (\<lambda>m. add_vlan m vl) (get_managers v))"

definition add_vlans :: "valve \<Rightarrow> vlan list \<Rightarrow> ofmsg list" where
  "add_vlans v vls = concat (map (valve_add_vlan v) vls)"

definition del_vlan :: "vlan \<Rightarrow> ofmsg list" where
  "del_vlan vl =
     [FlowDel wildcard_table (match_all\<lparr>match_vlan := Some (OFVLAN (vid vl))\<rparr>) None False]"

definition del_vlans :: "vlan list \<Rightarrow> ofmsg list" where
  "del_vlans vls = concat (map del_vlan vls)"

text \<open>\<open>[d[k] for k in ks]\<close>, which raises \<open>KeyError\<close> at the first key that is missing.\<close>

fun lookup_all :: "(nat \<times> 'a) list \<Rightarrow> nat list \<Rightarrow> py_error + 'a list" where
  "lookup_all d [] = Inr []"
| "lookup_all d (k # ks) =
     (case map_of d k of
        None \<Rightarrow> Inl KeyError
      | Some x \<Rightarrow> (case lookup_all d ks of Inl e \<Rightarrow> Inl e | Inr xs \<Rightarrow> Inr (x # xs)))"

text \<open>
  \<open>Valve._apply_config_changes\<close>. The sets of the tuple \<open>changes\<close> are lists, in
  the order in which the source iterates them.
\<close>

definition apply_config_changes ::
  "valve_classes \<Rightarrow> valve_packet \<Rightarrow> valve \<Rightarrow> dp \<Rightarrow> changes
     \<Rightarrow> py_error + (valve \<times> bool \<times> ofmsg list)" where
  "apply_config_changes cl vp v new_dp chg =
     (case chg of
        (deleted_ports, changed_ports, changed_acl_ports, deleted_vids, changed_vids,
         all_ports_changed) \<Rightarrow>
        (case pipeline_change cl v of
           Inl e \<Rightarrow> Inl e
         | Inr pipeline_changed \<Rightarrow>
            if pipeline_changed then Inr (dp_init cl v (Some new_dp), True, [])
            else if all_ports_changed then Inr (dp_init cl v (Some new_dp), True, [])
            else
              (let all_up_port_nos =
                     filter (\<lambda>p. p \<in> dyn_up_port_nos (dp v)) changed_ports
               in case (if deleted_ports \<noteq> [] then ports_delete vp v deleted_ports
                        else Inr (v, [])) of
                    Inl e \<Rightarrow> Inl e
                  | Inr (v1, ofmsgs1) \<Rightarrow>
                (case (if deleted_vids \<noteq> []
                       then (case lookup_all (vlans (dp v1)) deleted_vids of
                               Inl e \<Rightarrow> Inl e
                             | Inr deleted_vlans \<Rightarrow> Inr (del_vlans deleted_vlans))
                       else Inr []) of
                    Inl e \<Rightarrow> Inl e
                  | Inr ofmsgs2 \<Rightarrow>
                (case (if changed_ports \<noteq> [] then ports_delete vp v1 changed_ports
                       else Inr (v1, [])) of
                    Inl e \<Rightarrow> Inl e
                  | Inr (v2, ofmsgs3) \<Rightarrow>
                (let v3 = dp_init cl v2 (Some new_dp)
                 in case (if changed_vids \<noteq> []
                          then (case lookup_all (vlans (dp v3)) changed_vids of
                                  Inl e \<Rightarrow> Inl e
                                | Inr changed_vlans \<Rightarrow>
                                   Inr (del_vlans changed_vlans @ add_vlans v3 changed_vlans))
                          else Inr []) of
                    Inl e \<Rightarrow> Inl e
                  | Inr ofmsgs4 \<Rightarrow>
                (case (if changed_ports \<noteq> [] then ports_add vp v3 all_up_port_nos False
                       else Inr (v3, [])) of
                    Inl e \<Rightarrow> Inl e
                  | Inr (v4, ofmsgs5) \<Rightarrow>
                (case (case acl_manager v4 of
                         None \<Rightarrow> Inr []
                       | Some acl \<Rightarrow>
                          if changed_acl_ports \<noteq> []
                          then (case lookup_all (ports (dp v4)) changed_acl_ports of
                                  Inl e \<Rightarrow> Inl e
                                | Inr acl_ports \<Rightarrow>
                                   Inr (concat (map (cold_start_port acl) acl_ports)))
                          else Inr []) of
                    Inl e \<Rightarrow> Inl e
                  | Inr ofmsgs6 \<Rightarrow>
                     Inr (v4, False,
                          ofmsgs1 @ ofmsgs2 @ ofmsgs3 @ ofmsgs4 @ ofmsgs5 @ ofmsgs6)))))))))"

text \<open>
  \<open>Valve.reload_config\<close>. The second component of the result is the returned
  \<open>ofmsgs\<close>, which is \<open>None\<close> when the source returns \<open>None\<close>.
\<close>

definition reload_config ::
  "valve_classes \<Rightarrow> valve_packet \<Rightarrow> valve \<Rightarrow> dp \<Rightarrow> py_error + (valve \<times> ofmsg list option)" where
  "reload_config cl vp v new_dp =
     (case apply_config_changes cl vp v new_dp (get_config_changes cl (dp v) new_dp) of
        Inl e \<Rightarrow> Inl e
      | Inr (v1, cold_start, ofmsgs) \<Rightarrow>
         (let (restart_type, ofmsgs1) =
                (if cold_start
                 then (Some ''cold'', if dyn_running (dp v1) then None else Some ofmsgs)
                 else if dyn_running (dp v1) \<and> ofmsgs \<noteq> []
                 then (Some ''warm'', Some ofmsgs)
                 else (None, Some []));
              v2 = (case restart_type of
                      None \<Rightarrow> v1
                    | Some rt \<Rightarrow> inc_var v1 (''faucet_config_reload_'' @ rt))
          in Inr (notify v2 (CONFIG_CHANGE restart_type), ofmsgs1)))"


subsection \<open>An example datapath\<close>

text \<open>
  A small configuration on which the theorems below are instantiated: VLANs 256 and
  512, an access port 1, a LACP port 2, a stack port 3 and a trunk port 4.
\<close>

definition example_vlan :: "nat \<Rightarrow> vlan" where
  "example_vlan n = \<lparr>vid = n, faucet_mac = ''0e:00:00:00:00:01'', acls_in = False\<rparr>"

definition example_port :: "nat \<Rightarrow> port" where
  "example_port n = \<lparr>number = n, enabled = True, opstatus_reconf = True, output_only = False,
     receive_lldp = False, coprocessor = None, dot1x = False, lacp = 0, lacp_active = False,
     lacp_passthrough = [], lacp_resp_interval = 1, stack = None, max_lldp_lost = 3,
     tagged_vlans = [], native_vlan = Some (example_vlan 256), mirror_actions = [],
     loop_protect_external = False, dyn_phys_up = False, dyn_dot1x_native_vlan = None,
     dyn_lacp_up = False, dyn_last_lacp_pkt = None, dyn_lacp_updated_time = None,
     dyn_lacp_last_resp_time = None, dyn_stack_current_state = STACK_STATE_INIT,
     dyn_stack_probe_info = \<lparr>last_seen_lldp_time = None, stack_correct = None\<rparr>\<rparr>"

definition example_remote_dp :: remote_dp where
  "example_remote_dp = \<lparr>lldp_beacon_send_interval = Some 5, DEFAULT_LLDP_SEND_INTERVAL = 5\<rparr>"

definition example_lacp_port :: port where
  "example_lacp_port = (example_port 2)\<lparr>lacp := 1\<rparr>"

definition example_stack_port :: port where
  "example_stack_port = (example_port 3)\<lparr>stack := Some example_remote_dp, native_vlan := None\<rparr>"

definition example_trunk_port :: port where
  "example_trunk_port = (example_port 4)\<lparr>native_vlan := None, tagged_vlans := [example_vlan 512]\<rparr>"

definition example_dp :: dp where
  "example_dp = \<lparr>ports = [(1, example_port 1), (2, example_lacp_port), (3, example_stack_port),
        (4, example_trunk_port)],
     vlans = [(256, example_vlan 256), (512, example_vlan 512)],
     tables = [''vlan'', ''eth_src'', ''eth_dst'', ''flood''],
     in_port_tables = [''vlan'', ''eth_src''],
     dp_stack = Some ''root'', is_stack_root = True, stack_root_flood_reflection = False,
     use_idle_timeout = False, classification_table = ''eth_src'', dp_dot1x = None, dp_acls = False, has_acls = False,
     has_externals = False, idle_dst = True, cookie = 1524372928, strict_packet_in_cookie = True,
     global_vlan = 0, ignore_learn_ins = 10, lacp_timeout = 5, lowest_priority = 0,
     low_priority = 9000, high_priority = 9001, highest_priority = 9099,
     dyn_running = True, dyn_up_port_nos = {1, 2, 3}, dyn_last_coldstart_time = None\<rparr>"

definition example_manager :: "string \<Rightarrow> manager" where
  "example_manager name = \<lparr>initialise_tables = [],
     add_port = (\<lambda>p. [OtherMsg (name @ ''.add_port'')]),
     del_port = (\<lambda>p. [OtherMsg (name @ ''.del_port'')]),
     add_vlan = (\<lambda>vl. [OtherMsg (name @ ''.add_vlan'')]),
     update_vlan = (\<lambda>vl. [OtherMsg (name @ ''.update_vlan'')]),
     expire_port_nexthops = (\<lambda>p. []),
     cold_start_port = (\<lambda>p. [OtherMsg (name @ ''.cold_start_port'')]),
     expire_hosts_from_vlan = (\<lambda>vl now. []),
     delete_host_from_vlan = (\<lambda>m vl. []),
     resolve_expire_hosts = (\<lambda>vl now. []),
     accept_to_classification = [Goto (Table ''eth_src'')]\<rparr>"

definition example_valve :: valve where
  "example_valve = \<lparr>dp = example_dp,
     dot1x_mgr = \<lparr>nfv_sw_port_up = (\<lambda>p. []), port_up = (\<lambda>p q. []),
       port_down = (\<lambda>p q. [])\<rparr>,
     pipeline = example_manager ''pipeline'',
     host_manager = example_manager ''host'', route_manager_by_ipv = [],
     flood_manager = example_manager ''flood'', acl_manager = None,
     last_pipeline_flows = [], packet_in_count_sec = 0, last_packet_in_sec = 0,
     last_advertise_sec = 0, last_fast_advertise_sec = 0, port_highwater = [],
     notifications = [], counters = (\<lambda>var. 0)\<rparr>"

text \<open>
  A packet library for the example: a frame is parsed from its first three bytes
  (source MAC selector, VLAN VID high and low byte); source selector 1 is a multicast
  address and 0 the all-zero address.
\<close>

definition example_mac :: "nat \<Rightarrow> mac" where
  "example_mac n = (if n = 0 then ''00:00:00:00:00:00''
     else if n = 1 then ''01:80:c2:00:00:02'' else ''0e:00:00:00:00:02'')"

definition example_valve_packet :: valve_packet where
  "example_valve_packet = \<lparr>
     parse_packet_in_pkt = (\<lambda>dat max_len.
        case dat of
          s # hi # lo # rest \<Rightarrow>
            (Some dat, Some \<lparr>src = example_mac s, dst = ''ff:ff:ff:ff:ff:ff''\<rparr>, Some 2048,
             Some dat, Some (hi * 256 + lo))
        | _ \<Rightarrow> (None, None, None, None, None)),
     mac_addr_is_unicast = (\<lambda>m. m \<noteq> ''01:80:c2:00:00:02''),
     mac_addr_all_zeros = (\<lambda>m. m = ''00:00:00:00:00:00''),
     int_from_mac = (\<lambda>m. 0),
     reparse_all = (\<lambda>dat. dat),
     parse_lacp_pkt = (\<lambda>p. case p of
          [] \<Rightarrow> None
        | b # rest \<Rightarrow> Some \<lparr>actor_system = ''0e:00:00:00:00:02'', actor_key = 1, actor_port = 1,
            actor_state_synchronization = (b \<noteq> 0), actor_state_collecting = (b \<noteq> 0),
            actor_state_distributing = (b \<noteq> 0)\<rparr>),
     lacp_actor_up = (\<lambda>l. actor_state_synchronization l \<and> actor_state_collecting l
        \<and> actor_state_distributing l),
     lacp_str = (\<lambda>l. actor_system l @ (if actor_state_synchronization l then ''1'' else ''0'')),
     lacp_reqreply = (\<lambda>lag port_no activity collecting distributing l. [lag, port_no]),
     port_status_from_state = (\<lambda>state. state mod 2 = 0),
     SLOW_PROTOCOL_MULTICAST = ''01:80:c2:00:00:02'',
     LLDP_MAC_NEAREST_BRIDGE = ''01:80:c2:00:00:0e'',
     BRIDGE_GROUP_MASK = ''ff:ff:ff:ff:ff:f0'',
     LACP_SIZE = 124, ETH_VLAN_HEADER_SIZE = 18, MAX_PACKET_IN_BYTES = 128\<rparr>"

definition example_packet_in :: "nat \<Rightarrow> bytes \<Rightarrow> packet_in" where
  "example_packet_in in_port dat = \<lparr>msg_cookie = 1524372928, msg_reason = OFPR_ACTION,
     msg_match = Some [''in_port'' \<mapsto> in_port], msg_data = Some dat,
     msg_total_len = length dat\<rparr>"

text \<open>
  A LACP frame for the example packet library: the first byte of the data is the
  actor's synchronisation state. \<open>example_passthrough_valve\<close> adds a LACP port 5
  whose LACP state is down and makes it the passthrough peer of port 2.
\<close>

definition example_lacp_pkt_meta :: "port \<Rightarrow> bytes \<Rightarrow> packet_meta" where
  "example_lacp_pkt_meta prt dat = \<lparr>data = dat, orig_len = length dat, pkt = dat,
     eth_pkt = \<lparr>src = ''0e:00:00:00:00:02'', dst = ''01:80:c2:00:00:02''\<rparr>,
     vlan_pkt = None, port = prt, vlan = None, eth_src = ''0e:00:00:00:00:02'',
     eth_dst = ''01:80:c2:00:00:02'', eth_type = Some ETH_TYPE_SLOW\<rparr>"

definition example_passthrough_port :: port where
  "example_passthrough_port = example_lacp_port\<lparr>lacp_passthrough := [5]\<rparr>"

definition example_passthrough_valve :: valve where
  "example_passthrough_valve = example_valve\<lparr>dp := example_dp\<lparr>ports :=
     [(1, example_port 1), (2, example_passthrough_port), (3, example_stack_port),
      (4, example_trunk_port), (5, (example_port 5)\<lparr>lacp := 2\<rparr>)]\<rparr>\<rparr>"

text \<open>The example Valve with port 1 physically up.\<close>

definition example_valve_port1_up :: valve where
  "example_valve_port1_up = example_valve\<lparr>dp := example_dp\<lparr>ports :=
     [(1, (example_port 1)\<lparr>dyn_phys_up := True\<rparr>), (2, example_lacp_port),
      (3, example_stack_port), (4, example_trunk_port)]\<rparr>\<rparr>"

text \<open>The example Valve with LACP up on port 2, last updated at time 1.\<close>

definition example_lacp_port_up :: port where
  "example_lacp_port_up = example_lacp_port\<lparr>dyn_phys_up := True, dyn_lacp_up := True,
     dyn_lacp_updated_time := Some 1\<rparr>"

definition example_valve_lacp_up :: valve where
  "example_valve_lacp_up = example_valve\<lparr>dp := example_dp\<lparr>ports :=
     [(1, example_port 1), (2, example_lacp_port_up), (3, example_stack_port),
      (4, example_trunk_port)]\<rparr>\<rparr>"


text \<open>
  A reload of the example: the new DP drops port 4 and VLAN 512, adds VLAN 768, moves
  port 1 to VLAN 768 as its native VLAN and has ACLs, with a changed ACL on port 2.
  \<open>example_classes\<close> builds each manager as the example manager of its name, has
  the pipeline flows of the \<open>Valve\<close> class (none) and is given the configuration
  changes that the DP reports.
\<close>

definition example_new_dp :: dp where
  "example_new_dp = example_dp\<lparr>ports :=
       [(1, (example_port 1)\<lparr>native_vlan := Some (example_vlan 768)\<rparr>),
        (2, example_lacp_port), (3, example_stack_port)],
     vlans := [(256, example_vlan 256), (768, example_vlan 768)],
     has_acls := True, dyn_running := False, dyn_up_port_nos := {}\<rparr>"

definition example_changes :: changes where
  "example_changes = ([4], [1], [2], [512], [768], False)"

definition example_classes :: "changes \<Rightarrow> valve_classes" where
  "example_classes chg = \<lparr>
     ValvePipeline = (\<lambda>d. example_manager ''pipeline''),
     ValveIPv4RouteManager = (\<lambda>d. example_manager ''route4''),
     ValveIPv6RouteManager = (\<lambda>d. example_manager ''route6''),
     ValveFloodManager = (\<lambda>d. example_manager ''flood''),
     ValveFloodStackManagerNoReflection = (\<lambda>d. example_manager ''flood''),
     ValveFloodStackManagerReflection = (\<lambda>d. example_manager ''flood''),
     ValveHostManager = (\<lambda>d. example_manager ''host''),
     ValveHostFlowRemovedManager = (\<lambda>d. example_manager ''host''),
     ValveAclManager = (\<lambda>d. example_manager ''acl''),
     pipeline_flows = (\<lambda>d. []),
     get_config_changes = (\<lambda>d new_dp. chg)\<rparr>"

text \<open>The messages of the example reload, in the order in which they are emitted.\<close>

definition example_warm_ofmsgs :: "ofmsg list" where
  "example_warm_ofmsgs =
     [FlowDel wildcard_table (match_all\<lparr>match_in_port := Some 4\<rparr>) None False,
      OtherMsg ''pipeline.del_port'', OtherMsg ''host.del_port'',
      OtherMsg ''flood.del_port'', OtherMsg ''flood.update_vlan'',
      FlowDel wildcard_table (match_all\<lparr>match_vlan := Some (OFVLAN 512)\<rparr>) None False,
      FlowDel wildcard_table (match_all\<lparr>match_in_port := Some 1\<rparr>) None False,
      OtherMsg ''pipeline.del_port'', OtherMsg ''host.del_port'',
      OtherMsg ''flood.del_port'', OtherMsg ''flood.update_vlan'',
      FlowDel wildcard_table (match_all\<lparr>match_vlan := Some (OFVLAN 768)\<rparr>) None False,
      OtherMsg ''pipeline.add_vlan'', OtherMsg ''host.add_vlan'',
      OtherMsg ''flood.add_vlan'', OtherMsg ''acl.add_vlan'',
      OtherMsg ''pipeline.add_port'', OtherMsg ''host.add_port'',
      OtherMsg ''flood.add_port'', OtherMsg ''acl.add_port'',
      FlowMod (Table ''vlan'')
        (match_all\<lparr>match_in_port := Some 1, match_vlan := Some NullVLAN\<rparr>)
        9000 [ApplyActions [PushVlanAct 768], Goto (Table ''eth_src'')],
      OtherMsg ''flood.add_vlan'', OtherMsg ''acl.cold_start_port'']"

section \<open>Properties\<close>

subsection \<open>Packet-in rate limiting\<close>

text \<open>
  C9. \<open>rate_limit_packet_ins(now)\<close> resets the per-second counter when \<open>now\<close> differs
  from the last recorded second, increments it on every call, and returns \<open>True\<close>
  exactly when \<open>ignore_learn_ins\<close> is positive and the incremented counter is
  congruent to 0 modulo \<open>ignore_learn_ins\<close>.
\<close>

theorem rate_limit_packet_ins_every_nth:
  "(let count0 = (if last_packet_in_sec v \<noteq> now then 0 else packet_in_count_sec v);
        (v', ignored) = rate_limit_packet_ins v now
    in last_packet_in_sec v' = now
       \<and> packet_in_count_sec v' = count0 + 1
       \<and> (ignored \<longleftrightarrow> 0 < ignore_learn_ins (dp v)
                      \<and> (count0 + 1) mod ignore_learn_ins (dp v) = 0))"
  by (simp add: rate_limit_packet_ins_def inc_var_def Let_def)

theorem rate_limit_packet_ins_every_nth_witness:
  "snd (rate_limit_packet_ins (example_valve\<lparr>packet_in_count_sec := 9, last_packet_in_sec := 7\<rparr>) 7)
   \<and> \<not> snd (rate_limit_packet_ins (example_valve\<lparr>packet_in_count_sec := 9, last_packet_in_sec := 7\<rparr>) 8)"
  using rate_limit_packet_ins_every_nth
          [of "example_valve\<lparr>packet_in_count_sec := 9, last_packet_in_sec := 7\<rparr>" 7]
        rate_limit_packet_ins_every_nth
          [of "example_valve\<lparr>packet_in_count_sec := 9, last_packet_in_sec := 7\<rparr>" 8]
  by (simp add: example_valve_def example_dp_def Let_def split: prod.splits)

subsection \<open>Stack link state\<close>

text \<open>
  C1. For a stack port that is not admin-down, at every time \<open>now\<close>, the next stack
  link state follows the table: INIT when no probe was ever seen and the port is DOWN;
  DOWN when \<open>stack_correct\<close> is false and the port is not DOWN; DOWN when a probe was
  seen, \<open>(now - last_seen) / send_interval \<ge> max_lldp_lost\<close> and the port is not
  DOWN; UP when a probe was seen, \<open>(now - last_seen) / send_interval < max_lldp_lost\<close>,
  \<open>stack_correct\<close> is true and the port is not UP; no change when none of these rows
  applies; and the resulting state is one of INIT, UP and DOWN. The port has a stack
  peer whose send interval is not zero (the table divides by it), \<open>max_lldp_lost\<close> is
  at least 1, and the probe information holds \<open>stack_correct\<close> exactly when it holds
  \<open>last_seen_lldp_time\<close> (\<open>_verify_stack_lldp\<close> writes both together).
\<close>

theorem next_stack_link_state_table:
  assumes "\<not> is_stack_admin_down prt"
    and "stack prt = Some remote"
    and "send_interval remote \<noteq> 0"
    and "1 \<le> max_lldp_lost prt"
    and "(last_seen_lldp_time (dyn_stack_probe_info prt) = None)
           = (stack_correct (dyn_stack_probe_info prt) = None)"
  shows "(last_seen_lldp_time (dyn_stack_probe_info prt) = None \<and> is_stack_down prt \<longrightarrow>
            next_stack_link_state prt now = Inr (Some STACK_STATE_INIT))
       \<and> (stack_correct (dyn_stack_probe_info prt) = Some False \<and> \<not> is_stack_down prt \<longrightarrow>
            next_stack_link_state prt now = Inr (Some STACK_STATE_DOWN))
       \<and> (\<forall>t. last_seen_lldp_time (dyn_stack_probe_info prt) = Some t
              \<and> (now - t) / send_interval remote \<ge> real (max_lldp_lost prt)
              \<and> \<not> is_stack_down prt \<longrightarrow>
            next_stack_link_state prt now = Inr (Some STACK_STATE_DOWN))
       \<and> (\<forall>t. last_seen_lldp_time (dyn_stack_probe_info prt) = Some t
              \<and> (now - t) / send_interval remote < real (max_lldp_lost prt)
              \<and> stack_correct (dyn_stack_probe_info prt) = Some True
              \<and> \<not> is_stack_up prt \<longrightarrow>
            next_stack_link_state prt now = Inr (Some STACK_STATE_UP))
       \<and> (\<not> (last_seen_lldp_time (dyn_stack_probe_info prt) = None \<and> is_stack_down prt)
          \<and> \<not> (stack_correct (dyn_stack_probe_info prt) = Some False \<and> \<not> is_stack_down prt)
          \<and> (\<forall>t. last_seen_lldp_time (dyn_stack_probe_info prt) = Some t \<longrightarrow>
                \<not> ((now - t) / send_interval remote \<ge> real (max_lldp_lost prt)
                    \<and> \<not> is_stack_down prt)
              \<and> \<not> ((now - t) / send_interval remote < real (max_lldp_lost prt)
                    \<and> stack_correct (dyn_stack_probe_info prt) = Some True
                    \<and> \<not> is_stack_up prt)) \<longrightarrow>
            next_stack_link_state prt now = Inr None)
       \<and> (\<exists>next_state. next_stack_link_state prt now = Inr next_state
            \<and> dyn_stack_current_state (apply_next_state prt next_state)
                \<in> {STACK_STATE_INIT, STACK_STATE_UP, STACK_STATE_DOWN})"
proof -
  have state: "dyn_stack_current_state prt
                 \<in> {STACK_STATE_INIT, STACK_STATE_UP, STACK_STATE_DOWN}"
    using assms(1) by (cases "dyn_stack_current_state prt") (simp_all add: is_stack_admin_down_def)
  show ?thesis
  proof (cases "last_seen_lldp_time (dyn_stack_probe_info prt)")
    case None
    with assms state show ?thesis
      by (simp add: next_stack_link_state_def apply_next_state_def)
  next
    case (Some t)
    with assms(5) obtain c where c: "stack_correct (dyn_stack_probe_info prt) = Some c"
      by auto
    have nz: "now - t \<noteq> 0" if "(now - t) / send_interval remote \<ge> real (max_lldp_lost prt)"
    proof
      assume "now - t = 0"
      with that have "real (max_lldp_lost prt) \<le> 0" by simp
      with assms(4) show False by simp
    qed
    show ?thesis
    proof (cases c)
      case True
      with Some c assms(1-3) state nz show ?thesis
        by (auto simp add: next_stack_link_state_def apply_next_state_def Let_def not_less)
    next
      case False
      with Some c assms(1-3) state show ?thesis
        by (auto simp add: next_stack_link_state_def apply_next_state_def Let_def not_less)
    qed
  qed
qed

theorem next_stack_link_state_table_witness:
  "next_stack_link_state
     (example_stack_port\<lparr>dyn_stack_current_state := STACK_STATE_DOWN\<rparr>) 12
     = Inr (Some STACK_STATE_INIT)
   \<and> next_stack_link_state
     (example_stack_port\<lparr>dyn_stack_probe_info :=
        \<lparr>last_seen_lldp_time = Some 10, stack_correct = Some False\<rparr>\<rparr>) 12
     = Inr (Some STACK_STATE_DOWN)
   \<and> next_stack_link_state
     (example_stack_port\<lparr>dyn_stack_current_state := STACK_STATE_UP, dyn_stack_probe_info :=
        \<lparr>last_seen_lldp_time = Some 10, stack_correct = Some True\<rparr>\<rparr>) 25
     = Inr (Some STACK_STATE_DOWN)
   \<and> next_stack_link_state
     (example_stack_port\<lparr>dyn_stack_probe_info :=
        \<lparr>last_seen_lldp_time = Some 10, stack_correct = Some True\<rparr>\<rparr>) 12
     = Inr (Some STACK_STATE_UP)
   \<and> next_stack_link_state
     (example_stack_port\<lparr>dyn_stack_current_state := STACK_STATE_UP, dyn_stack_probe_info :=
        \<lparr>last_seen_lldp_time = Some 10, stack_correct = Some True\<rparr>\<rparr>) 12
     = Inr None"
proof -
  note defs = example_stack_port_def example_port_def example_remote_dp_def
    send_interval_def is_stack_admin_down_def is_stack_down_def is_stack_up_def
  let ?seen = "\<lambda>c. \<lparr>last_seen_lldp_time = Some 10, stack_correct = Some c\<rparr>"
  let ?p1 = "example_stack_port\<lparr>dyn_stack_current_state := STACK_STATE_DOWN\<rparr>"
  let ?p2 = "example_stack_port\<lparr>dyn_stack_probe_info := ?seen False\<rparr>"
  let ?p3 = "example_stack_port\<lparr>dyn_stack_current_state := STACK_STATE_UP,
               dyn_stack_probe_info := ?seen True\<rparr>"
  let ?p4 = "example_stack_port\<lparr>dyn_stack_probe_info := ?seen True\<rparr>"
  have r1: "next_stack_link_state ?p1 12 = Inr (Some STACK_STATE_INIT)"
    using next_stack_link_state_table [of ?p1 example_remote_dp 12]
    by (simp add: defs)
  have r2: "next_stack_link_state ?p2 12 = Inr (Some STACK_STATE_DOWN)"
    using next_stack_link_state_table [of ?p2 example_remote_dp 12]
    by (simp add: defs)
  have r3: "next_stack_link_state ?p3 25 = Inr (Some STACK_STATE_DOWN)"
    using next_stack_link_state_table [of ?p3 example_remote_dp 25]
    by (simp add: defs)
  have r4: "next_stack_link_state ?p4 12 = Inr (Some STACK_STATE_UP)"
    using next_stack_link_state_table [of ?p4 example_remote_dp 12]
    by (simp add: defs)
  have r5: "next_stack_link_state ?p3 12 = Inr None"
    using next_stack_link_state_table [of ?p3 example_remote_dp 12]
    by (simp add: defs)
  from r1 r2 r3 r4 r5 show ?thesis by (intro conjI)
qed

subsection \<open>Packet-in validation\<close>

text \<open>
  C10. A packet-in that arrives while the datapath is not marked running is rejected:
  \<open>parse_pkt_meta\<close> returns \<open>None\<close> whenever \<open>dyn_running\<close> is false, and
  \<open>datapath_disconnect\<close> leaves \<open>dyn_running\<close> false, so every packet-in after a
  disconnect is rejected until the datapath connects again.
\<close>

theorem parse_pkt_meta_not_running:
  "(\<not> dyn_running (dp v) \<longrightarrow> parse_pkt_meta vp v msg = Inr None)
   \<and> \<not> dyn_running (dp (datapath_disconnect v))
   \<and> parse_pkt_meta vp (datapath_disconnect v) msg = Inr None"
  by (simp add: parse_pkt_meta_def datapath_disconnect_def inc_var_def notify_def Let_def)

theorem parse_pkt_meta_not_running_witness:
  "parse_pkt_meta example_valve_packet (example_valve\<lparr>dp := example_dp\<lparr>dyn_running := False\<rparr>\<rparr>)
      (example_packet_in 1 [2, 1, 0]) = Inr None
   \<and> parse_pkt_meta example_valve_packet (datapath_disconnect example_valve)
      (example_packet_in 1 [2, 1, 0]) = Inr None
   \<and> parse_pkt_meta example_valve_packet example_valve (example_packet_in 1 [2, 1, 0]) \<noteq> Inr None"
  using parse_pkt_meta_not_running
          [of "example_valve\<lparr>dp := example_dp\<lparr>dyn_running := False\<rparr>\<rparr>" example_valve_packet
              "example_packet_in 1 [2, 1, 0]"]
        parse_pkt_meta_not_running
          [of example_valve example_valve_packet "example_packet_in 1 [2, 1, 0]"]
  by (simp add: parse_pkt_meta_def parse_rcv_packet_def example_valve_def example_dp_def
        example_packet_in_def example_valve_packet_def example_port_def example_vlan_def
        example_mac_def port_no_valid_def OFPR_ACTION_def Let_def)

text \<open>Helper facts on \<open>parse_rcv_packet\<close> and on the order of the checks.\<close>


lemma parse_rcv_packet_eth_src: "eth_src pkt_meta = src eth"
    if "parse_rcv_packet vp v in_port vlan_vid et dat olen p eth vl = Inr pkt_meta"
    using that
    by (auto simp add: parse_rcv_packet_def Let_def split: option.splits if_splits)

lemma parse_rcv_packet_no_raise: "\<exists>pkt_meta. parse_rcv_packet vp v in_port vlan_vid et dat olen p eth vl
                      = Inr pkt_meta"
      if "port_no_valid (dp v) in_port" 
      using that
      by (auto simp add: parse_rcv_packet_def port_no_valid_def Let_def split: option.splits)

lemma parse_pkt_meta_late_checks:
  assumes h: "msg_match msg = Some m" "m ''in_port'' = Some in_port" "msg_data msg = Some d"
      "parse_packet_in_pkt vp (take (MAX_PACKET_IN_BYTES vp) d) (ETH_VLAN_HEADER_SIZE vp)
         = (p_opt, eth_opt, et, vl, vlan_vid)"
   and ok: "dyn_running (dp v)" "\<not> (strict_packet_in_cookie (dp v) \<and> cookie (dp v) \<noteq> msg_cookie msg)"
     "msg_reason msg = OFPR_ACTION" "in_port \<noteq> 0" "port_no_valid (dp v) in_port" "d \<noteq> []"
     "p_opt = Some p" "eth_opt = Some eth"
     "\<not> (case vlan_vid of None \<Rightarrow> False
                                 | Some vd \<Rightarrow> map_of (vlans (dp v)) vd = None
                                              \<and> vd \<noteq> global_vlan (dp v))"
     "parse_rcv_packet vp v in_port vlan_vid et (take (MAX_PACKET_IN_BYTES vp) d) (msg_total_len msg) p eth vl = Inr pkt_meta"
  shows "parse_pkt_meta vp v msg = (if \<not> mac_addr_is_unicast vp (eth_src pkt_meta) then Inr None
                                   else if mac_addr_all_zeros vp (eth_src pkt_meta) then Inr None
                                   else if dp_stack (dp v) \<noteq> None
                                        \<and> stack (port pkt_meta) = None
                                        \<and> (case vlan pkt_meta of None \<Rightarrow> False
                                            | Some vl0 \<Rightarrow>
                                               vl0 \<notin> set (tagged_vlans (port pkt_meta))
                                               \<and> Some vl0 \<noteq> native_vlan (port pkt_meta))
                                   then Inr None
                                   else Inr (Some pkt_meta))"
proof -
  have c: "(strict_packet_in_cookie (dp v) \<and> cookie (dp v) \<noteq> msg_cookie msg) = False"
    and vv: "(case vlan_vid of None \<Rightarrow> False
                                 | Some vd \<Rightarrow> map_of (vlans (dp v)) vd = None
                                              \<and> vd \<noteq> global_vlan (dp v)) = False"
    using ok by simp_all
  show ?thesis
    unfolding parse_pkt_meta_def
    using h ok(1,3-8,10) by (simp add: Let_def c vv split del: if_split)
qed

lemma parse_pkt_meta_early_reject:
  assumes h: "msg_match msg = Some m" "m ''in_port'' = Some in_port" "msg_data msg = Some d"
      "parse_packet_in_pkt vp (take (MAX_PACKET_IN_BYTES vp) d) (ETH_VLAN_HEADER_SIZE vp)
         = (p_opt, eth_opt, et, vl, vlan_vid)"
   and bad: "\<not> dyn_running (dp v) \<or> (strict_packet_in_cookie (dp v) \<and> cookie (dp v) \<noteq> msg_cookie msg)
     \<or> msg_reason msg \<noteq> OFPR_ACTION \<or> in_port = 0 \<or> \<not> port_no_valid (dp v) in_port \<or> d = []
     \<or> p_opt = None \<or> eth_opt = None \<or>
     (case vlan_vid of None \<Rightarrow> False
                                 | Some vd \<Rightarrow> map_of (vlans (dp v)) vd = None
                                              \<and> vd \<noteq> global_vlan (dp v))"
  shows "parse_pkt_meta vp v msg = Inr None"
  using h bad unfolding parse_pkt_meta_def
  by (auto simp add: Let_def split: option.splits)


text \<open>
  The rejections of \<open>parse_pkt_meta\<close>. It returns \<open>None\<close> for: a cookie other than
  the DP's under strict cookie checking; a reason other than ACTION; an absent match;
  an in-port that is 0 (\<open>not in_port\<close>) or not in the configuration; absent or empty
  packet data;
  data that does not parse to a packet with an Ethernet header; a VLAN VID that is
  neither a configured VLAN nor the global VLAN; a source MAC that is not unicast; an
  all-zero source MAC; and, on a stacked DP, a packet from a non-stack port for a VLAN
  that the port is not a member of. In the cases that come after the in-port test the
  match carries an \<open>in_port\<close> field (\<open>msg.match['in_port']\<close> raises \<open>KeyError\<close>
  otherwise).
\<close>

theorem parse_pkt_meta_rejects:
  "(strict_packet_in_cookie (dp v) \<and> cookie (dp v) \<noteq> msg_cookie msg \<longrightarrow>
      parse_pkt_meta vp v msg = Inr None)
   \<and> (msg_reason msg \<noteq> OFPR_ACTION \<longrightarrow> parse_pkt_meta vp v msg = Inr None)
   \<and> (msg_match msg = None \<longrightarrow> parse_pkt_meta vp v msg = Inr None)
   \<and> (msg_match msg = Some m \<and> m ''in_port'' = Some in_port
        \<and> (in_port = 0 \<or> \<not> port_no_valid (dp v) in_port) \<longrightarrow>
      parse_pkt_meta vp v msg = Inr None)
   \<and> (msg_match msg = Some m \<and> m ''in_port'' = Some in_port
        \<and> (msg_data msg = None \<or> msg_data msg = Some []) \<longrightarrow>
      parse_pkt_meta vp v msg = Inr None)
   \<and> (msg_match msg = Some m \<and> m ''in_port'' = Some in_port \<and> msg_data msg = Some d
        \<and> parse_packet_in_pkt vp (take (MAX_PACKET_IN_BYTES vp) d) (ETH_VLAN_HEADER_SIZE vp)
            = (p_opt, eth_opt, et, vl, vlan_vid) \<longrightarrow>
        (p_opt = None \<or> eth_opt = None \<longrightarrow> parse_pkt_meta vp v msg = Inr None)
      \<and> (\<forall>vd. vlan_vid = Some vd \<and> map_of (vlans (dp v)) vd = None
               \<and> vd \<noteq> global_vlan (dp v) \<longrightarrow>
             parse_pkt_meta vp v msg = Inr None)
      \<and> (\<forall>eth. eth_opt = Some eth \<and> \<not> mac_addr_is_unicast vp (src eth) \<longrightarrow>
             parse_pkt_meta vp v msg = Inr None)
      \<and> (\<forall>eth. eth_opt = Some eth \<and> mac_addr_all_zeros vp (src eth) \<longrightarrow>
             parse_pkt_meta vp v msg = Inr None)
      \<and> (\<forall>p eth pkt_meta vl0.
             p_opt = Some p \<and> eth_opt = Some eth
             \<and> parse_rcv_packet vp v in_port vlan_vid et (take (MAX_PACKET_IN_BYTES vp) d)
                  (msg_total_len msg) p eth vl = Inr pkt_meta
             \<and> dp_stack (dp v) \<noteq> None \<and> stack (port pkt_meta) = None
             \<and> vlan pkt_meta = Some vl0
             \<and> vl0 \<notin> set (tagged_vlans (port pkt_meta))
             \<and> native_vlan (port pkt_meta) \<noteq> Some vl0 \<longrightarrow>
             parse_pkt_meta vp v msg = Inr None))"
  (is "?cookie \<and> ?reason \<and> ?nomatch \<and> ?in_port \<and> ?nodata \<and> (?h \<longrightarrow> ?parsed)")
proof -
  have first: "?cookie \<and> ?reason \<and> ?nomatch"
    by (simp add: parse_pkt_meta_def)
  have second: "?in_port \<and> ?nodata"
    by (auto simp add: parse_pkt_meta_def)
  have third: ?parsed if h: ?h
  proof (cases "\<not> dyn_running (dp v)
     \<or> (strict_packet_in_cookie (dp v) \<and> cookie (dp v) \<noteq> msg_cookie msg)
     \<or> msg_reason msg \<noteq> OFPR_ACTION \<or> in_port = 0 \<or> \<not> port_no_valid (dp v) in_port \<or> d = []
     \<or> p_opt = None \<or> eth_opt = None
     \<or> (case vlan_vid of None \<Rightarrow> False
          | Some vd \<Rightarrow> map_of (vlans (dp v)) vd = None \<and> vd \<noteq> global_vlan (dp v))")
    case True
    with h have "parse_pkt_meta vp v msg = Inr None"
      using parse_pkt_meta_early_reject [of msg m in_port d vp p_opt eth_opt et vl vlan_vid v]
      by blast
    then show ?thesis by simp
  next
    case False
    then obtain p eth where pe: "p_opt = Some p" "eth_opt = Some eth"
      by auto
    from False obtain pkt_meta where
      pm: "parse_rcv_packet vp v in_port vlan_vid et (take (MAX_PACKET_IN_BYTES vp) d)
             (msg_total_len msg) p eth vl = Inr pkt_meta"
      using parse_rcv_packet_no_raise by blast
    have src: "eth_src pkt_meta = src eth"
      using pm by (rule parse_rcv_packet_eth_src)
    have eq: "parse_pkt_meta vp v msg
        = (if \<not> mac_addr_is_unicast vp (eth_src pkt_meta) then Inr None
           else if mac_addr_all_zeros vp (eth_src pkt_meta) then Inr None
           else if dp_stack (dp v) \<noteq> None \<and> stack (port pkt_meta) = None
                   \<and> (case vlan pkt_meta of None \<Rightarrow> False
                       | Some vl0 \<Rightarrow> vl0 \<notin> set (tagged_vlans (port pkt_meta))
                                     \<and> Some vl0 \<noteq> native_vlan (port pkt_meta))
           then Inr None else Inr (Some pkt_meta))"
      using h False pe pm
      by (intro parse_pkt_meta_late_checks [where m = m and d = d and p_opt = p_opt
            and eth_opt = eth_opt and p = p and eth = eth]) auto
    show ?thesis
      using False pe pm src by (auto simp add: eq)
  qed
  from first second third show ?thesis
    by blast
qed


theorem parse_pkt_meta_rejects_witness:
  "parse_pkt_meta example_valve_packet example_valve
     ((example_packet_in 1 [2, 1, 0])\<lparr>msg_cookie := 0\<rparr>) = Inr None
   \<and> parse_pkt_meta example_valve_packet example_valve
     ((example_packet_in 1 [2, 1, 0])\<lparr>msg_reason := 0\<rparr>) = Inr None
   \<and> parse_pkt_meta example_valve_packet example_valve
     ((example_packet_in 1 [2, 1, 0])\<lparr>msg_match := None\<rparr>) = Inr None
   \<and> parse_pkt_meta example_valve_packet example_valve (example_packet_in 0 [2, 1, 0]) = Inr None
   \<and> parse_pkt_meta example_valve_packet example_valve (example_packet_in 9 [2, 1, 0]) = Inr None
   \<and> parse_pkt_meta example_valve_packet example_valve
     ((example_packet_in 1 [2, 1, 0])\<lparr>msg_data := None\<rparr>) = Inr None
   \<and> parse_pkt_meta example_valve_packet example_valve (example_packet_in 1 [2]) = Inr None
   \<and> parse_pkt_meta example_valve_packet example_valve (example_packet_in 1 [2, 3, 0]) = Inr None
   \<and> parse_pkt_meta example_valve_packet example_valve (example_packet_in 1 [1, 1, 0]) = Inr None
   \<and> parse_pkt_meta example_valve_packet example_valve (example_packet_in 1 [0, 1, 0]) = Inr None
   \<and> parse_pkt_meta example_valve_packet example_valve (example_packet_in 1 [2, 2, 0]) = Inr None
   \<and> parse_pkt_meta example_valve_packet example_valve (example_packet_in 4 [2, 2, 0]) \<noteq> Inr None"
proof -
  note defs = example_valve_def example_dp_def example_packet_in_def example_valve_packet_def
    example_port_def example_vlan_def example_mac_def example_trunk_port_def
    example_lacp_port_def example_stack_port_def port_no_valid_def OFPR_ACTION_def
    parse_rcv_packet_def Let_def
  have cookie: "parse_pkt_meta example_valve_packet example_valve
      ((example_packet_in 1 [2, 1, 0])\<lparr>msg_cookie := 0\<rparr>) = Inr None"
  proof -
    have c: "strict_packet_in_cookie (dp example_valve)
        \<and> cookie (dp example_valve) \<noteq> msg_cookie ((example_packet_in 1 [2, 1, 0])\<lparr>msg_cookie := 0\<rparr>)"
      by (simp add: defs)
    from parse_pkt_meta_rejects
      [where v = example_valve and vp = example_valve_packet
         and msg = "(example_packet_in 1 [2, 1, 0])\<lparr>msg_cookie := 0\<rparr>",
       THEN conjunct1, THEN mp, OF c]
    show ?thesis .
  qed
  have reason: "parse_pkt_meta example_valve_packet example_valve
      ((example_packet_in 1 [2, 1, 0])\<lparr>msg_reason := 0\<rparr>) = Inr None"
  proof -
    have c: "msg_reason ((example_packet_in 1 [2, 1, 0])\<lparr>msg_reason := 0\<rparr>) \<noteq> OFPR_ACTION"
      by (simp add: defs)
    from parse_pkt_meta_rejects
      [where v = example_valve and vp = example_valve_packet
         and msg = "(example_packet_in 1 [2, 1, 0])\<lparr>msg_reason := 0\<rparr>",
       THEN conjunct2, THEN conjunct1, THEN mp, OF c]
    show ?thesis .
  qed
  have nomatch: "parse_pkt_meta example_valve_packet example_valve
      ((example_packet_in 1 [2, 1, 0])\<lparr>msg_match := None\<rparr>) = Inr None"
  proof -
    have c: "msg_match ((example_packet_in 1 [2, 1, 0])\<lparr>msg_match := None\<rparr>) = None"
      by (simp add: defs)
    from parse_pkt_meta_rejects
      [where v = example_valve and vp = example_valve_packet
         and msg = "(example_packet_in 1 [2, 1, 0])\<lparr>msg_match := None\<rparr>",
       THEN conjunct2, THEN conjunct2, THEN conjunct1, THEN mp, OF c]
    show ?thesis .
  qed
  have port0: "parse_pkt_meta example_valve_packet example_valve
      (example_packet_in 0 [2, 1, 0]) = Inr None"
  proof -
    have c: "msg_match (example_packet_in 0 [2, 1, 0]) = Some [''in_port'' \<mapsto> 0]
        \<and> [''in_port'' \<mapsto> 0::nat] ''in_port'' = Some 0
        \<and> (0 = (0::nat) \<or> \<not> port_no_valid (dp example_valve) 0)"
      by (simp add: defs)
    from parse_pkt_meta_rejects
      [where v = example_valve and vp = example_valve_packet
         and msg = "example_packet_in 0 [2, 1, 0]",
       THEN conjunct2, THEN conjunct2, THEN conjunct2, THEN conjunct1, THEN mp, OF c]
    show ?thesis .
  qed
  have port9: "parse_pkt_meta example_valve_packet example_valve
      (example_packet_in 9 [2, 1, 0]) = Inr None"
  proof -
    have c: "msg_match (example_packet_in 9 [2, 1, 0]) = Some [''in_port'' \<mapsto> 9]
        \<and> [''in_port'' \<mapsto> 9::nat] ''in_port'' = Some 9
        \<and> (9 = (0::nat) \<or> \<not> port_no_valid (dp example_valve) 9)"
      by (simp add: defs)
    from parse_pkt_meta_rejects
      [where v = example_valve and vp = example_valve_packet
         and msg = "example_packet_in 9 [2, 1, 0]",
       THEN conjunct2, THEN conjunct2, THEN conjunct2, THEN conjunct1, THEN mp, OF c]
    show ?thesis .
  qed
  have nodata: "parse_pkt_meta example_valve_packet example_valve
      ((example_packet_in 1 [2, 1, 0])\<lparr>msg_data := None\<rparr>) = Inr None"
  proof -
    have c: "msg_match ((example_packet_in 1 [2, 1, 0])\<lparr>msg_data := None\<rparr>) = Some [''in_port'' \<mapsto> 1]
        \<and> [''in_port'' \<mapsto> 1::nat] ''in_port'' = Some 1
        \<and> (msg_data ((example_packet_in 1 [2, 1, 0])\<lparr>msg_data := None\<rparr>) = None \<or> msg_data ((example_packet_in 1 [2, 1, 0])\<lparr>msg_data := None\<rparr>) = Some [])"
      by (simp add: defs)
    from parse_pkt_meta_rejects
      [where v = example_valve and vp = example_valve_packet
         and msg = "(example_packet_in 1 [2, 1, 0])\<lparr>msg_data := None\<rparr>",
       THEN conjunct2, THEN conjunct2, THEN conjunct2, THEN conjunct2, THEN conjunct1, THEN mp, OF c]
    show ?thesis .
  qed
  have unparseable: "parse_pkt_meta example_valve_packet example_valve
      (example_packet_in 1 [2]) = Inr None"
  proof -
    have h: "msg_match (example_packet_in 1 [2]) = Some [''in_port'' \<mapsto> 1]
        \<and> [''in_port'' \<mapsto> 1::nat] ''in_port'' = Some 1
        \<and> msg_data (example_packet_in 1 [2]) = Some [2]
        \<and> parse_packet_in_pkt example_valve_packet
             (take (MAX_PACKET_IN_BYTES example_valve_packet) [2])
             (ETH_VLAN_HEADER_SIZE example_valve_packet)
            = (None, None, None, None, None)"
      by (simp add: defs)
    have c: "(None::packet option) = None \<or> (None::ethernet option) = None"
      by (simp add: defs)
    note parsed = parse_pkt_meta_rejects
      [where v = example_valve and vp = example_valve_packet and msg = "example_packet_in 1 [2]",
       THEN conjunct2, THEN conjunct2, THEN conjunct2, THEN conjunct2, THEN conjunct2,
       THEN mp, OF h]
    from parsed [THEN conjunct1, THEN mp, OF c]
    show ?thesis .
  qed
  have unknown_vlan: "parse_pkt_meta example_valve_packet example_valve
      (example_packet_in 1 [2, 3, 0]) = Inr None"
  proof -
    have h: "msg_match (example_packet_in 1 [2, 3, 0]) = Some [''in_port'' \<mapsto> 1]
        \<and> [''in_port'' \<mapsto> 1::nat] ''in_port'' = Some 1
        \<and> msg_data (example_packet_in 1 [2, 3, 0]) = Some [2, 3, 0]
        \<and> parse_packet_in_pkt example_valve_packet
             (take (MAX_PACKET_IN_BYTES example_valve_packet) [2, 3, 0])
             (ETH_VLAN_HEADER_SIZE example_valve_packet)
            = (Some [2, 3, 0], Some \<lparr>src = example_mac 2, dst = ''ff:ff:ff:ff:ff:ff''\<rparr>, Some 2048,
               Some [2, 3, 0], Some 768)"
      by (simp add: defs)
    have c: "Some 768 = Some (768::nat) \<and> map_of (vlans (dp example_valve)) 768 = None
        \<and> 768 \<noteq> global_vlan (dp example_valve)"
      by (simp add: defs)
    note parsed = parse_pkt_meta_rejects
      [where v = example_valve and vp = example_valve_packet and msg = "example_packet_in 1 [2, 3, 0]",
       THEN conjunct2, THEN conjunct2, THEN conjunct2, THEN conjunct2, THEN conjunct2,
       THEN mp, OF h]
    from parsed [THEN conjunct2, THEN conjunct1, THEN spec, THEN mp, OF c]
    show ?thesis .
  qed
  have multicast: "parse_pkt_meta example_valve_packet example_valve
      (example_packet_in 1 [1, 1, 0]) = Inr None"
  proof -
    have h: "msg_match (example_packet_in 1 [1, 1, 0]) = Some [''in_port'' \<mapsto> 1]
        \<and> [''in_port'' \<mapsto> 1::nat] ''in_port'' = Some 1
        \<and> msg_data (example_packet_in 1 [1, 1, 0]) = Some [1, 1, 0]
        \<and> parse_packet_in_pkt example_valve_packet
             (take (MAX_PACKET_IN_BYTES example_valve_packet) [1, 1, 0])
             (ETH_VLAN_HEADER_SIZE example_valve_packet)
            = (Some [1, 1, 0], Some \<lparr>src = example_mac 1, dst = ''ff:ff:ff:ff:ff:ff''\<rparr>, Some 2048,
               Some [1, 1, 0], Some 256)"
      by (simp add: defs)
    have c: "Some \<lparr>src = example_mac 1, dst = ''ff:ff:ff:ff:ff:ff''\<rparr> = Some \<lparr>src = example_mac 1, dst = ''ff:ff:ff:ff:ff:ff''\<rparr>
        \<and> \<not> mac_addr_is_unicast example_valve_packet (src \<lparr>src = example_mac 1, dst = ''ff:ff:ff:ff:ff:ff''\<rparr>)"
      by (simp add: defs)
    note parsed = parse_pkt_meta_rejects
      [where v = example_valve and vp = example_valve_packet and msg = "example_packet_in 1 [1, 1, 0]",
       THEN conjunct2, THEN conjunct2, THEN conjunct2, THEN conjunct2, THEN conjunct2,
       THEN mp, OF h]
    from parsed [THEN conjunct2, THEN conjunct2, THEN conjunct1, THEN spec, THEN mp, OF c]
    show ?thesis .
  qed
  have zeros: "parse_pkt_meta example_valve_packet example_valve
      (example_packet_in 1 [0, 1, 0]) = Inr None"
  proof -
    have h: "msg_match (example_packet_in 1 [0, 1, 0]) = Some [''in_port'' \<mapsto> 1]
        \<and> [''in_port'' \<mapsto> 1::nat] ''in_port'' = Some 1
        \<and> msg_data (example_packet_in 1 [0, 1, 0]) = Some [0, 1, 0]
        \<and> parse_packet_in_pkt example_valve_packet
             (take (MAX_PACKET_IN_BYTES example_valve_packet) [0, 1, 0])
             (ETH_VLAN_HEADER_SIZE example_valve_packet)
            = (Some [0, 1, 0], Some \<lparr>src = example_mac 0, dst = ''ff:ff:ff:ff:ff:ff''\<rparr>, Some 2048,
               Some [0, 1, 0], Some 256)"
      by (simp add: defs)
    have c: "Some \<lparr>src = example_mac 0, dst = ''ff:ff:ff:ff:ff:ff''\<rparr> = Some \<lparr>src = example_mac 0, dst = ''ff:ff:ff:ff:ff:ff''\<rparr>
        \<and> mac_addr_all_zeros example_valve_packet (src \<lparr>src = example_mac 0, dst = ''ff:ff:ff:ff:ff:ff''\<rparr>)"
      by (simp add: defs)
    note parsed = parse_pkt_meta_rejects
      [where v = example_valve and vp = example_valve_packet and msg = "example_packet_in 1 [0, 1, 0]",
       THEN conjunct2, THEN conjunct2, THEN conjunct2, THEN conjunct2, THEN conjunct2,
       THEN mp, OF h]
    from parsed [THEN conjunct2, THEN conjunct2, THEN conjunct2, THEN conjunct1, THEN spec, THEN mp, OF c]
    show ?thesis .
  qed
  have not_member: "parse_pkt_meta example_valve_packet example_valve
      (example_packet_in 1 [2, 2, 0]) = Inr None"
  proof -
    have h: "msg_match (example_packet_in 1 [2, 2, 0]) = Some [''in_port'' \<mapsto> 1]
        \<and> [''in_port'' \<mapsto> 1::nat] ''in_port'' = Some 1
        \<and> msg_data (example_packet_in 1 [2, 2, 0]) = Some [2, 2, 0]
        \<and> parse_packet_in_pkt example_valve_packet
             (take (MAX_PACKET_IN_BYTES example_valve_packet) [2, 2, 0])
             (ETH_VLAN_HEADER_SIZE example_valve_packet)
            = (Some [2, 2, 0], Some \<lparr>src = example_mac 2, dst = ''ff:ff:ff:ff:ff:ff''\<rparr>, Some 2048,
               Some [2, 2, 0], Some 512)"
      by (simp add: defs)
    define pm where "pm = \<lparr>data = [2, 2, 0], orig_len = 3, pkt = [2, 2, 0],
         eth_pkt = \<lparr>src = example_mac 2, dst = ''ff:ff:ff:ff:ff:ff''\<rparr>,
         vlan_pkt = Some [2, 2, 0], port = example_port 1, vlan = Some (example_vlan 512),
         eth_src = example_mac 2, eth_dst = ''ff:ff:ff:ff:ff:ff'', eth_type = Some 2048\<rparr>"
    have c: "Some [2, 2, 0] = Some [2, 2, 0::nat]
        \<and> Some \<lparr>src = example_mac 2, dst = ''ff:ff:ff:ff:ff:ff''\<rparr>
           = Some \<lparr>src = example_mac 2, dst = ''ff:ff:ff:ff:ff:ff''\<rparr>
        \<and> parse_rcv_packet example_valve_packet example_valve 1 (Some 512) (Some 2048)
             (take (MAX_PACKET_IN_BYTES example_valve_packet) [2, 2, 0])
             (msg_total_len (example_packet_in 1 [2, 2, 0])) [2, 2, 0]
             \<lparr>src = example_mac 2, dst = ''ff:ff:ff:ff:ff:ff''\<rparr> (Some [2, 2, 0])
            = Inr pm
        \<and> dp_stack (dp example_valve) \<noteq> None \<and> stack (port pm) = None
        \<and> vlan pm = Some (example_vlan 512)
        \<and> example_vlan 512 \<notin> set (tagged_vlans (port pm))
        \<and> native_vlan (port pm) \<noteq> Some (example_vlan 512)"
      by (simp add: defs pm_def)
    note parsed = parse_pkt_meta_rejects
      [where v = example_valve and vp = example_valve_packet and msg = "example_packet_in 1 [2, 2, 0]",
       THEN conjunct2, THEN conjunct2, THEN conjunct2, THEN conjunct2, THEN conjunct2,
       THEN mp, OF h]
    from parsed [THEN conjunct2, THEN conjunct2, THEN conjunct2, THEN conjunct2,
       THEN spec, THEN spec, THEN spec, THEN spec, THEN mp, OF c]
    show ?thesis .
  qed
  have member: "parse_pkt_meta example_valve_packet example_valve
      (example_packet_in 4 [2, 2, 0]) \<noteq> Inr None"
    by (simp add: parse_pkt_meta_def defs)
  from cookie reason nomatch port0 port9 nodata unparseable unknown_vlan multicast zeros
    not_member member
  show ?thesis by (intro conjI)
qed

text \<open>
  C5. \<open>parse_pkt_meta\<close> is to return \<open>None\<close> for a packet-in whose match has no
  \<open>in_port\<close> field. On the running example datapath, for a packet-in with the DP's
  cookie, reason ACTION, parseable data and a match that carries only a \<open>vlan_vid\<close>
  field, \<open>msg.match['in_port']\<close> raises \<open>KeyError\<close> before the test \<open>not in_port\<close>
  is reached, and the result is not \<open>None\<close>.
\<close>

theorem parse_pkt_meta_missing_in_port:
  "msg_match ((example_packet_in 1 [2, 1, 0])\<lparr>msg_match := Some [''vlan_vid'' \<mapsto> 256]\<rparr>)
     = Some [''vlan_vid'' \<mapsto> 256]
   \<and> [''vlan_vid'' \<mapsto> 256] ''in_port'' = None
   \<and> parse_pkt_meta example_valve_packet example_valve
        ((example_packet_in 1 [2, 1, 0])\<lparr>msg_match := Some [''vlan_vid'' \<mapsto> 256]\<rparr>)
      = Inl KeyError
   \<and> parse_pkt_meta example_valve_packet example_valve
        ((example_packet_in 1 [2, 1, 0])\<lparr>msg_match := Some [''vlan_vid'' \<mapsto> 256]\<rparr>)
      \<noteq> Inr None"
  by (simp add: parse_pkt_meta_def example_valve_def example_dp_def example_packet_in_def
        OFPR_ACTION_def)

subsection \<open>LACP\<close>

text \<open>Storing a port back changes the entry of that port and nothing else.\<close>


lemma map_of_set_port:
  "map_of (ports (dp (set_port v prt))) n
     = (if n = number prt \<and> map_of (ports (dp v)) n \<noteq> None then Some prt
        else map_of (ports (dp v)) n)"
proof -
  have "map_of (map (\<lambda>(k, p). if k = number prt then (k, prt) else (k, p)) ps) n
          = (if n = number prt \<and> map_of ps n \<noteq> None then Some prt else map_of ps n)" for ps
    by (induction ps) auto
  then show ?thesis by (simp add: set_port_def)
qed

lemma set_port_fields [simp]:
  "high_priority (dp (set_port v prt)) = high_priority (dp v)"
  "highest_priority (dp (set_port v prt)) = highest_priority (dp v)"
  "low_priority (dp (set_port v prt)) = low_priority (dp v)"
  "dp_stack (dp (set_port v prt)) = dp_stack (dp v)"
  "is_stack_root (dp (set_port v prt)) = is_stack_root (dp v)"
  "vlans (dp (set_port v prt)) = vlans (dp v)"
  "dp_dot1x (dp (set_port v prt)) = dp_dot1x (dp v)"
  "dyn_running (dp (set_port v prt)) = dyn_running (dp v)"
  "dyn_up_port_nos (dp (set_port v prt)) = dyn_up_port_nos (dp v)"
  "lacp_timeout (dp (set_port v prt)) = lacp_timeout (dp v)"
  "host_manager (set_port v prt) = host_manager v"
  "flood_manager (set_port v prt) = flood_manager v"
  "pipeline (set_port v prt) = pipeline v"
  "acl_manager (set_port v prt) = acl_manager v"
  "route_manager_by_ipv (set_port v prt) = route_manager_by_ipv v"
  "dot1x_mgr (set_port v prt) = dot1x_mgr v"
  by (simp_all add: set_port_def)

lemma lacp_forwarding_set_port [simp]:
  "lacp_forwarding (dp (set_port v prt)) p = lacp_forwarding (dp v) p"
  by (simp add: lacp_forwarding_def)

lemma lacp_passthrough_up_set_port:
  "number prt \<notin> set peers \<Longrightarrow>
   lacp_passthrough_up (dp (set_port v prt)) peers = lacp_passthrough_up (dp v) peers"
  by (induction peers) (auto simp add: map_of_set_port split: option.splits)

lemma lacp_up_port:
  "lacp_up v prt = (v1, prt1, ms) \<Longrightarrow>
     v1 = set_port v prt1 \<and> prt1 = prt\<lparr>dyn_lacp_up := True\<rparr>"
  by (auto simp add: lacp_up_def Let_def)

lemma lacp_down_port:
  "lacp_down vp v prt cs = (v1, prt1, ms) \<Longrightarrow>
     v1 = set_port v prt1
     \<and> prt1 = prt\<lparr>dyn_lacp_up := False, dyn_last_lacp_pkt := None,
                   dyn_lacp_updated_time := None, dyn_lacp_last_resp_time := None\<rparr>"
  by (auto simp add: lacp_down_def Let_def)


text \<open>
  C2 as the claim states it fails: a reply PDU is not emitted whenever the PDU differs
  from the last one recorded. On a port with \<open>lacp_passthrough\<close> whose peer port has
  LACP down, \<open>_lacp_actions\<close> suppresses the reply. Here port 2 has no PDU recorded,
  the PDU reports the actor up, and the messages are those of \<open>lacp_up\<close> only.
\<close>

theorem lacp_handler_reply_counterexample:
  "dyn_last_lacp_pkt example_passthrough_port = None
   \<and> lacp example_passthrough_port \<noteq> 0
   \<and> parse_lacp_pkt example_valve_packet
        (reparse_all example_valve_packet (take (LACP_SIZE example_valve_packet) [1])) \<noteq> None
   \<and> map_sum id snd
        (lacp_handler example_valve_packet example_passthrough_valve 10
           (example_lacp_pkt_meta example_passthrough_port [1]))
       = Inr (Some [FlowDel (Table ''vlan'') (match_all\<lparr>match_in_port := Some 2\<rparr>) (Some 9001) True,
                    OtherMsg ''flood.add_vlan''])"
  by (simp add: lacp_handler_def lacp_up_def lacp_actions_def lacp_forwarding_def set_port_def
        port_vlans_def example_passthrough_valve_def example_passthrough_port_def
        example_lacp_port_def example_lacp_pkt_meta_def example_valve_def example_dp_def
        example_port_def example_vlan_def example_valve_packet_def example_manager_def
        example_stack_port_def example_trunk_port_def ETH_TYPE_SLOW_def Let_def)

text \<open>
  C2, amended. On a valid LACP PDU on a LACP-configured port of the DP, the port's LACP
  state goes to UP exactly when the PDU classifies the actor as up and the port is
  DOWN, and to DOWN exactly when the actor is not up and the port is UP; the messages
  are those of the transition, followed by one reply PDU exactly when the PDU content
  differs from the last PDU recorded on the port (or none is recorded) or a last
  response time is recorded, is not zero and lies more than \<open>lacp_resp_interval\<close>
  back, and, in either case, every \<open>lacp_passthrough\<close> peer of the port has LACP up.
  The passthrough peers are ports of the DP other than the port itself.
\<close>

theorem lacp_handler_transitions_and_reply:
  assumes valid: "eth_dst pkt_meta = SLOW_PROTOCOL_MULTICAST vp"
      "eth_type pkt_meta = Some ETH_TYPE_SLOW" "lacp (port pkt_meta) \<noteq> 0"
      "parse_lacp_pkt vp (reparse_all vp (take (LACP_SIZE vp) (data pkt_meta))) = Some lacp_pkt"
    and known: "map_of (ports (dp v)) (number (port pkt_meta)) = Some (port pkt_meta)"
    and peers: "lacp_passthrough_up (dp v) (lacp_passthrough (port pkt_meta)) = Inr peers_up"
      "number (port pkt_meta) \<notin> set (lacp_passthrough (port pkt_meta))"
  shows "\<exists>v' msgs prt'.
      lacp_handler vp v now pkt_meta = Inr (v', msgs)
      \<and> map_of (ports (dp v')) (number (port pkt_meta)) = Some prt'
      \<and> (let prt = port pkt_meta;
              actor_up = lacp_actor_up vp lacp_pkt;
              pkt_change = (\<forall>last_pkt. dyn_last_lacp_pkt prt = Some last_pkt
                              \<longrightarrow> lacp_str vp lacp_pkt \<noteq> lacp_str vp last_pkt);
              interval_elapsed = (\<exists>t. dyn_lacp_last_resp_time prt = Some t \<and> t \<noteq> 0
                                    \<and> now - t > lacp_resp_interval prt);
              transition = (if \<not> dyn_lacp_up prt \<and> actor_up
                            then snd (snd (lacp_up v prt))
                            else if dyn_lacp_up prt \<and> \<not> actor_up
                            then snd (snd (lacp_down vp v prt False))
                            else []);
              reply = PacketOut (number prt)
                        (lacp_reqreply vp (lacp prt) (number prt) (lacp_active prt)
                           (lacp_forwarding (dp v) prt) (lacp_forwarding (dp v) prt)
                           (Some lacp_pkt))
          in ((\<not> dyn_lacp_up prt \<and> dyn_lacp_up prt') \<longleftrightarrow> (actor_up \<and> \<not> dyn_lacp_up prt))
           \<and> ((dyn_lacp_up prt \<and> \<not> dyn_lacp_up prt') \<longleftrightarrow> (\<not> actor_up \<and> dyn_lacp_up prt))
           \<and> (case msgs of None \<Rightarrow> [] | Some ms \<Rightarrow> ms)
               = transition @ (if (pkt_change \<or> interval_elapsed) \<and> peers_up then [reply] else []))"
proof -
  let ?prt = "port pkt_meta"
  let ?up = "lacp_actor_up vp lacp_pkt"
  obtain v1 prt1 ofmsgs1 where t:
    "(if dyn_lacp_up ?prt \<noteq> ?up
      then (if ?up then (case lacp_up v ?prt of (v', p', ms) \<Rightarrow> (v', p', Some ms))
            else (case lacp_down vp v ?prt False of (v', p', ms) \<Rightarrow> (v', p', Some ms)))
      else (v, ?prt, None)) = (v1, prt1, ofmsgs1)"
    by (cases "(if dyn_lacp_up ?prt \<noteq> ?up
      then (if ?up then (case lacp_up v ?prt of (v', p', ms) \<Rightarrow> (v', p', Some ms))
            else (case lacp_down vp v ?prt False of (v', p', ms) \<Rightarrow> (v', p', Some ms)))
      else (v, ?prt, None))") auto
  have v1: "v1 = (if dyn_lacp_up ?prt \<noteq> ?up then set_port v prt1 else v)"
    and prt1_up: "dyn_lacp_up prt1 = ?up"
    and prt1_cfg: "number prt1 = number ?prt" "lacp_passthrough prt1 = lacp_passthrough ?prt"
      "lacp prt1 = lacp ?prt" "lacp_active prt1 = lacp_active ?prt"
    and msgs1: "(case ofmsgs1 of None \<Rightarrow> [] | Some ms \<Rightarrow> ms)
        = (if \<not> dyn_lacp_up ?prt \<and> ?up then snd (snd (lacp_up v ?prt))
           else if dyn_lacp_up ?prt \<and> \<not> ?up then snd (snd (lacp_down vp v ?prt False))
           else [])"
    using t
    by (auto simp add: lacp_up_def lacp_down_def Let_def split: if_splits prod.splits)
  have peers1: "lacp_passthrough_up (dp v1) (lacp_passthrough prt1) = Inr peers_up"
    using peers v1 prt1_cfg by (simp add: lacp_passthrough_up_set_port)
  have fwd1: "lacp_forwarding (dp v1) prt1 = lacp_forwarding (dp v) ?prt"
    using v1 by (simp add: lacp_forwarding_def)
  have known1: "map_of (ports (dp v1)) (number ?prt) \<noteq> None"
    using known v1 prt1_cfg by (auto simp add: map_of_set_port)
  show ?thesis
    using valid t prt1_up prt1_cfg msgs1 peers1 fwd1 known1
    by (auto simp add: lacp_handler_def Let_def lacp_actions_def map_of_set_port
          split: option.splits)
qed


theorem lacp_handler_transitions_and_reply_witness:
  "(\<exists>v' msgs prt'.
      lacp_handler example_valve_packet example_valve 10
        (example_lacp_pkt_meta example_lacp_port [1]) = Inr (v', msgs)
      \<and> map_of (ports (dp v')) 2 = Some prt'
      \<and> dyn_lacp_up prt'
      \<and> (case msgs of None \<Rightarrow> [] | Some ms \<Rightarrow> ms)
          = snd (snd (lacp_up example_valve example_lacp_port)) @ [PacketOut 2 [1, 2]])
   \<and> map_sum id snd
        (lacp_handler example_valve_packet example_valve 10
           (example_lacp_pkt_meta example_lacp_port [1]))
       = Inr (Some [FlowDel (Table ''vlan'') (match_all\<lparr>match_in_port := Some 2\<rparr>) (Some 9001) True,
                    OtherMsg ''flood.add_vlan'', PacketOut 2 [1, 2]])"
proof -
  note defs = example_lacp_port_def example_lacp_pkt_meta_def example_valve_def example_dp_def
    example_port_def example_vlan_def example_valve_packet_def example_manager_def
    example_stack_port_def example_trunk_port_def ETH_TYPE_SLOW_def Let_def
  define lacp_pkt where "lacp_pkt = \<lparr>actor_system = ''0e:00:00:00:00:02'', actor_key = 1,
    actor_port = 1, actor_state_synchronization = True, actor_state_collecting = True,
    actor_state_distributing = True\<rparr>"
  have valid: "eth_dst (example_lacp_pkt_meta example_lacp_port [1])
        = SLOW_PROTOCOL_MULTICAST example_valve_packet"
      "eth_type (example_lacp_pkt_meta example_lacp_port [1]) = Some ETH_TYPE_SLOW"
      "lacp (port (example_lacp_pkt_meta example_lacp_port [1])) \<noteq> 0"
      "parse_lacp_pkt example_valve_packet
         (reparse_all example_valve_packet (take (LACP_SIZE example_valve_packet)
            (data (example_lacp_pkt_meta example_lacp_port [1])))) = Some lacp_pkt"
      "map_of (ports (dp example_valve))
         (number (port (example_lacp_pkt_meta example_lacp_port [1])))
        = Some (port (example_lacp_pkt_meta example_lacp_port [1]))"
      "lacp_passthrough_up (dp example_valve)
         (lacp_passthrough (port (example_lacp_pkt_meta example_lacp_port [1]))) = Inr True"
      "number (port (example_lacp_pkt_meta example_lacp_port [1]))
         \<notin> set (lacp_passthrough (port (example_lacp_pkt_meta example_lacp_port [1])))"
    by (simp_all add: defs lacp_pkt_def)
  have eval: "map_sum id snd
        (lacp_handler example_valve_packet example_valve 10
           (example_lacp_pkt_meta example_lacp_port [1]))
       = Inr (Some [FlowDel (Table ''vlan'') (match_all\<lparr>match_in_port := Some 2\<rparr>) (Some 9001) True,
                    OtherMsg ''flood.add_vlan'', PacketOut 2 [1, 2]])"
    by (simp add: lacp_handler_def lacp_up_def lacp_actions_def lacp_forwarding_def
          set_port_def port_vlans_def defs)
  have pm_port: "port (example_lacp_pkt_meta p d) = p" for p d
    by (simp add: example_lacp_pkt_meta_def)
  have facts: "number example_lacp_port = 2" "\<not> dyn_lacp_up example_lacp_port"
      "lacp_actor_up example_valve_packet lacp_pkt"
      "dyn_last_lacp_pkt example_lacp_port = None"
      "lacp_reqreply example_valve_packet (lacp example_lacp_port) 2
         (lacp_active example_lacp_port) (lacp_forwarding (dp example_valve) example_lacp_port)
         (lacp_forwarding (dp example_valve) example_lacp_port) (Some lacp_pkt) = [1, 2]"
    by (simp_all add: defs lacp_pkt_def)
  from lacp_handler_transitions_and_reply [OF valid, of 10]
  obtain v' msgs prt' where
    h: "lacp_handler example_valve_packet example_valve 10
          (example_lacp_pkt_meta example_lacp_port [1]) = Inr (v', msgs)"
      "map_of (ports (dp v')) (number (port (example_lacp_pkt_meta example_lacp_port [1])))
         = Some prt'"
      "(let prt = port (example_lacp_pkt_meta example_lacp_port [1]);
              actor_up = lacp_actor_up example_valve_packet lacp_pkt;
              pkt_change = (\<forall>last_pkt. dyn_last_lacp_pkt prt = Some last_pkt
                              \<longrightarrow> lacp_str example_valve_packet lacp_pkt
                                    \<noteq> lacp_str example_valve_packet last_pkt);
              interval_elapsed = (\<exists>t. dyn_lacp_last_resp_time prt = Some t \<and> t \<noteq> 0
                                    \<and> 10 - t > lacp_resp_interval prt);
              transition = (if \<not> dyn_lacp_up prt \<and> actor_up
                            then snd (snd (lacp_up example_valve prt))
                            else if dyn_lacp_up prt \<and> \<not> actor_up
                            then snd (snd (lacp_down example_valve_packet example_valve prt False))
                            else []);
              reply = PacketOut (number prt)
                        (lacp_reqreply example_valve_packet (lacp prt) (number prt)
                           (lacp_active prt) (lacp_forwarding (dp example_valve) prt)
                           (lacp_forwarding (dp example_valve) prt) (Some lacp_pkt))
          in ((\<not> dyn_lacp_up prt \<and> dyn_lacp_up prt') \<longleftrightarrow> (actor_up \<and> \<not> dyn_lacp_up prt))
           \<and> ((dyn_lacp_up prt \<and> \<not> dyn_lacp_up prt') \<longleftrightarrow> (\<not> actor_up \<and> dyn_lacp_up prt))
           \<and> (case msgs of None \<Rightarrow> [] | Some ms \<Rightarrow> ms)
               = transition @ (if (pkt_change \<or> interval_elapsed) \<and> True then [reply] else []))"
    by blast
  from h(2) have h2: "map_of (ports (dp v')) 2 = Some prt'"
    by (simp add: pm_port facts)
  from h(3) have h3: "dyn_lacp_up prt'
      \<and> (case msgs of None \<Rightarrow> [] | Some ms \<Rightarrow> ms)
          = snd (snd (lacp_up example_valve example_lacp_port)) @ [PacketOut 2 [1, 2]]"
    by (simp add: Let_def pm_port facts)
  from h(1) h2 h3 have "\<exists>v' msgs prt'.
      lacp_handler example_valve_packet example_valve 10
        (example_lacp_pkt_meta example_lacp_port [1]) = Inr (v', msgs)
      \<and> map_of (ports (dp v')) 2 = Some prt'
      \<and> dyn_lacp_up prt'
      \<and> (case msgs of None \<Rightarrow> [] | Some ms \<Rightarrow> ms)
          = snd (snd (lacp_up example_valve example_lacp_port)) @ [PacketOut 2 [1, 2]]"
    by blast
  with eval show ?thesis by (rule conjI [rotated])
qed

subsection \<open>Port updates\<close>

text \<open>
  The methods that add and delete ports change the Valve only in the dynamic state of
  its ports: configuration, priorities and managers stay as they are.
\<close>


lemma same_config_refl [simp]: "same_config p p"
  by (simp add: same_config_def)

lemma same_config_trans: "same_config p q \<Longrightarrow> same_config q r \<Longrightarrow> same_config p r"
  by (simp add: same_config_def)

lemma same_config_dyn [simp]:
  "same_config p (q\<lparr>dyn_phys_up := a\<rparr>) = same_config p q"
  "same_config p (q\<lparr>dyn_lacp_up := b\<rparr>) = same_config p q"
  "same_config p (q\<lparr>dyn_last_lacp_pkt := c\<rparr>) = same_config p q"
  "same_config p (q\<lparr>dyn_lacp_updated_time := d\<rparr>) = same_config p q"
  "same_config p (q\<lparr>dyn_lacp_last_resp_time := e\<rparr>) = same_config p q"
  by (simp_all add: same_config_def)

lemma ports_updated_refl [simp]: "ports_updated v v"
  by (simp add: ports_updated_def split: option.splits)

lemma ports_updated_at:
  assumes "ports_updated v v'"
  shows "case map_of (ports (dp v)) n of
           None \<Rightarrow> map_of (ports (dp v')) n = None
         | Some p \<Rightarrow> (\<exists>q. map_of (ports (dp v')) n = Some q \<and> same_config p q)"
  using assms unfolding ports_updated_def by blast

lemma ports_updated_port:
  assumes "ports_updated v v'" and "map_of (ports (dp v)) n = Some p"
  shows "\<exists>q. map_of (ports (dp v')) n = Some q \<and> same_config p q"
  using ports_updated_at [OF assms(1), of n] assms(2) by simp

lemma ports_updated_none:
  assumes "ports_updated v v'" and "map_of (ports (dp v)) n = None"
  shows "map_of (ports (dp v')) n = None"
  using ports_updated_at [OF assms(1), of n] assms(2) by simp

lemma ports_updated_trans:
  assumes "ports_updated v v1" and "ports_updated v1 v2"
  shows "ports_updated v v2"
proof -
  have eq: "v2 = v\<lparr>dp := (dp v)\<lparr>ports := ports (dp v2)\<rparr>\<rparr>"
  proof -
    from assms(1) have a: "v1 = v\<lparr>dp := (dp v)\<lparr>ports := ports (dp v1)\<rparr>\<rparr>"
      by (simp add: ports_updated_def)
    from assms(2) have b: "v2 = v1\<lparr>dp := (dp v1)\<lparr>ports := ports (dp v2)\<rparr>\<rparr>"
      by (simp add: ports_updated_def)
    show ?thesis by (subst b, subst (1 2) a) simp
  qed
  have "case map_of (ports (dp v)) n of
                None \<Rightarrow> map_of (ports (dp v2)) n = None
              | Some p \<Rightarrow> (\<exists>q. map_of (ports (dp v2)) n = Some q \<and> same_config p q)" for n
  proof (cases "map_of (ports (dp v)) n")
    case None
    with assms(1) have "map_of (ports (dp v1)) n = None"
      by (rule ports_updated_none)
    with assms(2) have "map_of (ports (dp v2)) n = None"
      by (rule ports_updated_none)
    with None show ?thesis by simp
  next
    case (Some p)
    with assms(1) obtain q where q: "map_of (ports (dp v1)) n = Some q" "same_config p q"
      using ports_updated_port by blast
    with assms(2) obtain r where r: "map_of (ports (dp v2)) n = Some r" "same_config q r"
      using ports_updated_port by blast
    from q r Some show ?thesis by (auto intro: same_config_trans)
  qed
  with eq show ?thesis by (simp add: ports_updated_def)
qed

lemma ports_updated_set_port:
  assumes "map_of (ports (dp v)) (number prt) = Some p" and "same_config p prt"
  shows "ports_updated v (set_port v prt)"
proof -
  have "set_port v prt = v\<lparr>dp := (dp v)\<lparr>ports := ports (dp (set_port v prt))\<rparr>\<rparr>"
    by (simp add: set_port_def)
  moreover have "case map_of (ports (dp v)) n of
                None \<Rightarrow> map_of (ports (dp (set_port v prt))) n = None
              | Some p \<Rightarrow> (\<exists>q. map_of (ports (dp (set_port v prt))) n = Some q
                              \<and> same_config p q)" for n
    using assms by (auto simp add: map_of_set_port split: option.splits)
  ultimately show ?thesis by (simp add: ports_updated_def)
qed

lemma ports_updatedD:
  assumes "ports_updated v v'"
  shows "low_priority (dp v') = low_priority (dp v)"
    and "high_priority (dp v') = high_priority (dp v)"
    and "highest_priority (dp v') = highest_priority (dp v)"
    and "pipeline v' = pipeline v"
    and "host_manager v' = host_manager v"
    and "flood_manager v' = flood_manager v"
    and "acl_manager v' = acl_manager v"
    and "route_manager_by_ipv v' = route_manager_by_ipv v"
    and "vlans (dp v') = vlans (dp v)"
    and "dyn_running (dp v') = dyn_running (dp v)"
    and "dyn_up_port_nos (dp v') = dyn_up_port_nos (dp v)"
    and "lacp_timeout (dp v') = lacp_timeout (dp v)"
    and "notifications v' = notifications v"
    and "port_no_valid (dp v') n = port_no_valid (dp v) n"
proof -
  from assms have eq: "v' = v\<lparr>dp := (dp v)\<lparr>ports := ports (dp v')\<rparr>\<rparr>"
    by (simp add: ports_updated_def)
  show "low_priority (dp v') = low_priority (dp v)" by (subst eq) simp
  show "high_priority (dp v') = high_priority (dp v)" by (subst eq) simp
  show "highest_priority (dp v') = highest_priority (dp v)" by (subst eq) simp
  show "pipeline v' = pipeline v" by (subst eq) simp
  show "host_manager v' = host_manager v" by (subst eq) simp
  show "flood_manager v' = flood_manager v" by (subst eq) simp
  show "acl_manager v' = acl_manager v" by (subst eq) simp
  show "route_manager_by_ipv v' = route_manager_by_ipv v" by (subst eq) simp
  show "vlans (dp v') = vlans (dp v)" by (subst eq) simp
  show "dyn_running (dp v') = dyn_running (dp v)" by (subst eq) simp
  show "dyn_up_port_nos (dp v') = dyn_up_port_nos (dp v)" by (subst eq) simp
  show "lacp_timeout (dp v') = lacp_timeout (dp v)" by (subst eq) simp
  show "notifications v' = notifications v" by (subst eq) simp
  from ports_updated_at [OF assms, of n]
  show "port_no_valid (dp v') n = port_no_valid (dp v) n"
    by (auto simp add: port_no_valid_def split: option.splits)
qed

lemma keyed_by_number_updated:
  assumes "ports_updated v v'" and "keyed_by_number (dp v)"
  shows "keyed_by_number (dp v')"
  unfolding keyed_by_number_def
proof (intro allI impI)
  fix n q assume q: "map_of (ports (dp v')) n = Some q"
  show "number q = n"
  proof (cases "map_of (ports (dp v)) n")
    case None
    with assms(1) q show ?thesis
      using ports_updated_none by fastforce
  next
    case (Some p)
    with assms(1) q have "same_config p q"
      using ports_updated_port by fastforce
    moreover from Some assms(2) have "number p = n"
      by (simp add: keyed_by_number_def)
    ultimately show ?thesis by (simp add: same_config_def)
  qed
qed


lemma lacp_down_updated:
  assumes "map_of (ports (dp v)) (number prt) = Some p0" and "same_config p0 prt"
    and "lacp_down vp v prt cs = (v1, prt1, ms)"
  shows "ports_updated v v1" and "same_config prt prt1"
    and "map_of (ports (dp v1)) (number prt) = Some prt1"
proof -
  from assms(3) have v1: "v1 = set_port v prt1"
    and prt1: "prt1 = prt\<lparr>dyn_lacp_up := False, dyn_last_lacp_pkt := None,
                   dyn_lacp_updated_time := None, dyn_lacp_last_resp_time := None\<rparr>"
    using lacp_down_port by blast+
  from prt1 show c: "same_config prt prt1" by simp
  from prt1 have n: "number prt1 = number prt" by simp
  from assms(1,2) c n show "ports_updated v v1"
    unfolding v1 by (intro ports_updated_set_port [where p = p0]) (auto intro: same_config_trans)
  from assms(1) n show "map_of (ports (dp v1)) (number prt) = Some prt1"
    unfolding v1 by (simp add: map_of_set_port)
qed

lemma lacp_up_updated:
  assumes "map_of (ports (dp v)) (number prt) = Some p0" and "same_config p0 prt"
    and "lacp_up v prt = (v1, prt1, ms)"
  shows "ports_updated v v1" and "same_config prt prt1"
    and "map_of (ports (dp v1)) (number prt) = Some prt1"
proof -
  from assms(3) have v1: "v1 = set_port v prt1" and prt1: "prt1 = prt\<lparr>dyn_lacp_up := True\<rparr>"
    using lacp_up_port by blast+
  from prt1 show c: "same_config prt prt1" by simp
  from prt1 have n: "number prt1 = number prt" by simp
  from assms(1,2) c n show "ports_updated v v1"
    unfolding v1 by (intro ports_updated_set_port [where p = p0]) (auto intro: same_config_trans)
  from assms(1) n show "map_of (ports (dp v1)) (number prt) = Some prt1"
    unfolding v1 by (simp add: map_of_set_port)
qed


subsection \<open>Adding ports\<close>
lemma ports_add_lacp_updated:
  assumes "map_of (ports (dp v)) (number prt) = Some p0" and "same_config p0 prt"
    and "ports_add_lacp vp v prt cs = Inr (v1, prt1, ms)"
  shows "ports_updated v v1" and "same_config prt prt1"
proof -
  show "ports_updated v v1"
  proof (cases "lacp prt = 0")
    case True
    with assms(3) show ?thesis by (simp add: ports_add_lacp_def)
  next
    case False
    obtain v2 prt2 ms2 where d: "lacp_down vp v prt cs = (v2, prt2, ms2)"
      by (cases "lacp_down vp v prt cs") auto
    with False assms(3) have "v1 = v2"
      by (auto simp add: ports_add_lacp_def split: if_splits sum.splits)
    with lacp_down_updated(1) [OF assms(1,2) d] show ?thesis by simp
  qed
  show "same_config prt prt1"
  proof (cases "lacp prt = 0")
    case True
    with assms(3) show ?thesis by (simp add: ports_add_lacp_def)
  next
    case False
    obtain v2 prt2 ms2 where d: "lacp_down vp v prt cs = (v2, prt2, ms2)"
      by (cases "lacp_down vp v prt cs") auto
    with False assms(3) have "prt1 = prt2"
      by (auto simp add: ports_add_lacp_def split: if_splits sum.splits)
    with lacp_down_updated(2) [OF assms(1,2) d] show ?thesis by simp
  qed
qed

lemma set_port_phys_updated:
  assumes "keyed_by_number (dp v)" and "map_of (ports (dp v)) n = Some port0"
  shows "ports_updated v (set_port v (port0\<lparr>dyn_phys_up := b\<rparr>))"
    and "map_of (ports (dp (set_port v (port0\<lparr>dyn_phys_up := b\<rparr>))))
           (number (port0\<lparr>dyn_phys_up := b\<rparr>)) = Some (port0\<lparr>dyn_phys_up := b\<rparr>)"
proof -
  from assms have n: "number port0 = n" by (simp add: keyed_by_number_def)
  with assms(2) show "ports_updated v (set_port v (port0\<lparr>dyn_phys_up := b\<rparr>))"
    by (intro ports_updated_set_port [where p = port0]) simp_all
  from n assms(2) show "map_of (ports (dp (set_port v (port0\<lparr>dyn_phys_up := b\<rparr>))))
           (number (port0\<lparr>dyn_phys_up := b\<rparr>)) = Some (port0\<lparr>dyn_phys_up := b\<rparr>)"
    by (simp add: map_of_set_port)
qed

lemma ports_add_port_updated:
  assumes "keyed_by_number (dp v)" and "ports_add_port vp v cs n = Inr (v1, ms, pvs)"
  shows "ports_updated v v1"
proof (cases "map_of (ports (dp v)) n")
  case None
  with assms(2) show ?thesis by (simp add: ports_add_port_def port_no_valid_def)
next
  case (Some port0)
  let ?prt = "port0\<lparr>dyn_phys_up := True\<rparr>"
  let ?v1 = "set_port v ?prt"
  note u = set_port_phys_updated [OF assms(1) Some, of True]
  show ?thesis
  proof (cases "ports_add_lacp vp ?v1 ?prt cs")
    case (Inl e)
    with assms(2) Some u(1) show ?thesis
      by (auto simp add: ports_add_port_def port_no_valid_def Let_def
            split: if_splits option.splits sum.splits)
  next
    case (Inr r)
    obtain v2 prt2 ms2 where r: "r = (v2, prt2, ms2)" by (cases r) auto
    from Inr r have l: "ports_add_lacp vp ?v1 ?prt cs = Inr (v2, prt2, ms2)" by simp
    have "ports_updated ?v1 v2"
      by (rule ports_add_lacp_updated(1) [OF u(2) _ l]) simp
    with u(1) have "ports_updated v v2" by (rule ports_updated_trans)
    with assms(2) Some u(1) l show ?thesis
      by (auto simp add: ports_add_port_def port_no_valid_def Let_def
            split: if_splits option.splits sum.splits)
  qed
qed

lemma ports_add_loop_updated:
  "keyed_by_number (dp v) \<Longrightarrow> ports_add_loop vp cs ns v acc vs = Inr (v', ms, vs')
     \<Longrightarrow> ports_updated v v'"
proof (induction ns arbitrary: v acc vs)
  case Nil
  then show ?case by simp
next
  case (Cons n ns)
  from Cons.prems(2) obtain v1 ms1 pvs where
    b: "ports_add_port vp v cs n = Inr (v1, ms1, pvs)"
    and l: "ports_add_loop vp cs ns v1 (acc @ ms1) (set_update vs pvs) = Inr (v', ms, vs')"
    by (auto split: sum.splits)
  from Cons.prems(1) b have u: "ports_updated v v1" by (rule ports_add_port_updated)
  from u Cons.prems(1) have "keyed_by_number (dp v1)" by (rule keyed_by_number_updated)
  from Cons.IH [OF this l] u show ?case by (blast intro: ports_updated_trans)
qed

lemma ports_add_loop_acc:
  "ports_add_loop vp cs ns v acc vs = Inr (v', ms, vs') \<Longrightarrow> set acc \<subseteq> set ms"
proof (induction ns arbitrary: v acc vs)
  case Nil
  then show ?case by simp
next
  case (Cons n ns)
  from Cons.prems obtain v1 ms1 pvs where
    l: "ports_add_loop vp cs ns v1 (acc @ ms1) (set_update vs pvs) = Inr (v', ms, vs')"
    by (auto split: sum.splits)
  from Cons.IH [OF l] show ?case by simp
qed

lemma ports_add_port_stack:
  assumes wf: "keyed_by_number (dp v)"
    and p: "map_of (ports (dp v)) n = Some port0"
    and cfg: "stack port0 \<noteq> None" "enabled port0" "coprocessor port0 = None"
      "\<not> output_only port0"
    and r: "ports_add_port vp v cs n = Inr (v1, ms, pvs)"
  shows "FlowDrop (Table ''vlan'')
           (match_all\<lparr>match_in_port := Some n, match_vlan := Some NullVLAN\<rparr>)
           (low_priority (dp v) + 1) \<in> set ms
       \<and> FlowMod (Table ''vlan'') (match_all\<lparr>match_in_port := Some n\<rparr>)
           (low_priority (dp v)) (accept_to_classification (pipeline v)) \<in> set ms"
proof -
  let ?prt = "port0\<lparr>dyn_phys_up := True\<rparr>"
  let ?v1 = "set_port v ?prt"
  note u = set_port_phys_updated [OF wf p, of True]
  from r p cfg obtain v2 prt2 ms2 where
    l: "ports_add_lacp vp ?v1 ?prt cs = Inr (v2, prt2, ms2)"
    by (auto simp add: ports_add_port_def port_no_valid_def running_def Let_def
          split: sum.splits)
  have u2: "ports_updated ?v1 v2" and c2: "same_config ?prt prt2"
    by (rule ports_add_lacp_updated [OF u(2) _ l], simp)+
  from u(1) u2 have "ports_updated v v2" by (rule ports_updated_trans)
  then have lp: "low_priority (dp v2) = low_priority (dp v)" and pl: "pipeline v2 = pipeline v"
    by (simp_all add: ports_updatedD)
  from c2 cfg have s2: "stack prt2 \<noteq> None" by (simp add: same_config_def)
  from r p cfg l s2 lp pl show ?thesis
    by (auto simp add: ports_add_port_def port_no_valid_def running_def Let_def
          split: sum.splits)
qed

lemma ports_add_loop_stack:
  "keyed_by_number (dp v) \<Longrightarrow> n \<in> set ns \<Longrightarrow> map_of (ports (dp v)) n = Some port0
     \<Longrightarrow> stack port0 \<noteq> None \<Longrightarrow> enabled port0 \<Longrightarrow> coprocessor port0 = None
     \<Longrightarrow> \<not> output_only port0
     \<Longrightarrow> ports_add_loop vp cs ns v acc vs = Inr (v', ms, vs')
     \<Longrightarrow> FlowDrop (Table ''vlan'')
           (match_all\<lparr>match_in_port := Some n, match_vlan := Some NullVLAN\<rparr>)
           (low_priority (dp v) + 1) \<in> set ms
       \<and> FlowMod (Table ''vlan'') (match_all\<lparr>match_in_port := Some n\<rparr>)
           (low_priority (dp v)) (accept_to_classification (pipeline v)) \<in> set ms"
proof (induction ns arbitrary: v acc vs port0)
  case Nil
  then show ?case by simp
next
  case (Cons m ns)
  from Cons.prems(8) obtain v1 ms1 pvs where
    b: "ports_add_port vp v cs m = Inr (v1, ms1, pvs)"
    and l: "ports_add_loop vp cs ns v1 (acc @ ms1) (set_update vs pvs) = Inr (v', ms, vs')"
    by (auto split: sum.splits)
  from Cons.prems(1) b have u: "ports_updated v v1" by (rule ports_add_port_updated)
  show ?case
  proof (cases "m = n")
    case True
    from ports_add_port_stack [OF Cons.prems(1,3,4,5,6,7) b [unfolded True]]
      ports_add_loop_acc [OF l]
    show ?thesis by auto
  next
    case False
    with Cons.prems(2) have n: "n \<in> set ns" by simp
    from u Cons.prems(1) have wf1: "keyed_by_number (dp v1)" by (rule keyed_by_number_updated)
    from ports_updated_port [OF u Cons.prems(3)] obtain q where
      q: "map_of (ports (dp v1)) n = Some q" "same_config port0 q" by blast
    from q(2) Cons.prems(4,5,6,7) have cfg: "stack q \<noteq> None" "enabled q"
      "coprocessor q = None" "\<not> output_only q"
      by (simp_all add: same_config_def)
    from Cons.IH [OF wf1 n q(1) cfg l] u show ?thesis
      by (simp add: ports_updatedD)
  qed
qed


text \<open>
  C8. For every stack port that \<open>ports_add\<close> processes (a declared port passed in
  \<open>port_nums\<close> that runs and is neither a coprocessor nor an output-only port, so
  that none of the \<open>continue\<close> statements skips it), the returned flows include a drop
  rule matching untagged (NullVLAN) traffic on that port at priority
  \<open>low_priority + 1\<close>, strictly above the rule at \<open>low_priority\<close> that accepts the
  rest of the port's traffic into classification.
\<close>

theorem ports_add_stack_port_drops_untagged:
  assumes "keyed_by_number (dp v)"
    and "port_num \<in> set port_nums"
    and "map_of (ports (dp v)) port_num = Some prt"
    and "stack prt \<noteq> None" and "enabled prt" and "coprocessor prt = None"
    and "\<not> output_only prt"
    and "ports_add vp v port_nums cold_start = Inr (v', ofmsgs)"
  shows "FlowDrop (Table ''vlan'')
           (match_all\<lparr>match_in_port := Some port_num, match_vlan := Some NullVLAN\<rparr>)
           (low_priority (dp v) + 1) \<in> set ofmsgs
       \<and> FlowMod (Table ''vlan'') (match_all\<lparr>match_in_port := Some port_num\<rparr>)
           (low_priority (dp v)) (accept_to_classification (pipeline v)) \<in> set ofmsgs
       \<and> low_priority (dp v) < low_priority (dp v) + 1"
proof -
  from assms(8) obtain v1 ms vs where
    l: "ports_add_loop vp cold_start port_nums v [] [] = Inr (v1, ms, vs)"
    and sub: "set ms \<subseteq> set ofmsgs"
    by (auto simp add: ports_add_def split: sum.splits if_splits)
  from ports_add_loop_stack [OF assms(1-7) l] sub show ?thesis by auto
qed


theorem ports_add_stack_port_drops_untagged_witness:
  "(\<exists>v' ofmsgs. ports_add example_valve_packet example_valve [3] False = Inr (v', ofmsgs)
      \<and> FlowDrop (Table ''vlan'')
           (match_all\<lparr>match_in_port := Some 3, match_vlan := Some NullVLAN\<rparr>) 9001 \<in> set ofmsgs
      \<and> FlowMod (Table ''vlan'') (match_all\<lparr>match_in_port := Some 3\<rparr>) 9000
           [Goto (Table ''eth_src'')] \<in> set ofmsgs)
   \<and> map_sum id snd (ports_add example_valve_packet example_valve [3] False)
     = Inr [OtherMsg ''pipeline.add_port'', OtherMsg ''host.add_port'',
            OtherMsg ''flood.add_port'',
            FlowDrop (Table ''vlan'')
              (match_all\<lparr>match_in_port := Some 3, match_vlan := Some NullVLAN\<rparr>) 9001,
            FlowMod (Table ''vlan'') (match_all\<lparr>match_in_port := Some 3\<rparr>) 9000
              [Goto (Table ''eth_src'')],
            OtherMsg ''flood.add_vlan'', OtherMsg ''flood.add_vlan'']"
proof -
  note defs = example_lacp_port_def example_valve_def example_dp_def example_port_def
    example_vlan_def example_valve_packet_def example_manager_def example_stack_port_def
    example_trunk_port_def example_remote_dp_def Let_def
  have eval: "map_sum id snd (ports_add example_valve_packet example_valve [3] False)
     = Inr [OtherMsg ''pipeline.add_port'', OtherMsg ''host.add_port'',
            OtherMsg ''flood.add_port'',
            FlowDrop (Table ''vlan'')
              (match_all\<lparr>match_in_port := Some 3, match_vlan := Some NullVLAN\<rparr>) 9001,
            FlowMod (Table ''vlan'') (match_all\<lparr>match_in_port := Some 3\<rparr>) 9000
              [Goto (Table ''eth_src'')],
            OtherMsg ''flood.add_vlan'', OtherMsg ''flood.add_vlan'']"
    by (simp add: ports_add_def ports_add_port_def ports_add_lacp_def ports_add_dot1x_def
          port_no_valid_def running_def get_managers_def set_port_def set_update_def defs)
  then obtain v' ofmsgs where
    r: "ports_add example_valve_packet example_valve [3] False = Inr (v', ofmsgs)"
    by (cases "ports_add example_valve_packet example_valve [3] False") auto
  have wf: "keyed_by_number (dp example_valve)"
    by (simp add: keyed_by_number_def defs)
  have p: "(3::nat) \<in> set [3]" "map_of (ports (dp example_valve)) 3 = Some example_stack_port"
    "stack example_stack_port \<noteq> None" "enabled example_stack_port"
    "coprocessor example_stack_port = None" "\<not> output_only example_stack_port"
    by (simp_all add: defs)
  have vals: "low_priority (dp example_valve) = 9000"
    "accept_to_classification (pipeline example_valve) = [Goto (Table ''eth_src'')]"
    by (simp_all add: defs)
  from ports_add_stack_port_drops_untagged [OF wf p r]
  have "FlowDrop (Table ''vlan'')
           (match_all\<lparr>match_in_port := Some 3, match_vlan := Some NullVLAN\<rparr>) 9001 \<in> set ofmsgs
      \<and> FlowMod (Table ''vlan'') (match_all\<lparr>match_in_port := Some 3\<rparr>) 9000
           [Goto (Table ''eth_src'')] \<in> set ofmsgs"
    by (simp add: vals)
  with r eval show ?thesis by blast
qed

subsection \<open>Port status\<close>

text \<open>
  C6. For \<open>port_status_handler\<close> with reason MODIFY and an up state, on a configured
  port with \<open>opstatus_reconf\<close> that is already physically up, the message list
  returned for this Valve is the list of \<open>port_delete\<close> followed by the list of
  \<open>port_add\<close> (run on the Valve that \<open>port_delete\<close> leaves); an exception of either
  is passed on.
\<close>


theorem port_status_handler_flap:
  assumes "reason = OFPPR_MODIFY" and "port_status_from_state vp state"
    and "map_of (ports (dp v)) port_no = Some prt"
    and "opstatus_reconf prt" and "dyn_phys_up prt"
  shows "port_status_handler vp v port_no reason state =
     (let v2 = set_port_status
                 (notify v (PORT_CHANGE port_no ''MODIFY'' state True)) port_no True
      in case port_delete vp v2 port_no of
           Inl e \<Rightarrow> Inl e
         | Inr (v3, delete_ofmsgs) \<Rightarrow>
            (case port_add vp v3 port_no of
               Inl e \<Rightarrow> Inl e
             | Inr (v4, add_ofmsgs) \<Rightarrow> Inr (v4, Some (delete_ofmsgs @ add_ofmsgs))))"
  using assms
  by (simp add: port_status_handler_def Let_def notify_def set_port_status_def
        decode_port_status_def port_no_valid_def OFPPR_MODIFY_def OFPPR_ADD_def
        OFPPR_DELETE_def)


theorem port_status_handler_flap_witness:
  "port_status_handler example_valve_packet example_valve_port1_up 1 OFPPR_MODIFY 0 =
     (let v2 = set_port_status
                 (notify example_valve_port1_up (PORT_CHANGE 1 ''MODIFY'' 0 True)) 1 True
      in case port_delete example_valve_packet v2 1 of
           Inl e \<Rightarrow> Inl e
         | Inr (v3, delete_ofmsgs) \<Rightarrow>
            (case port_add example_valve_packet v3 1 of
               Inl e \<Rightarrow> Inl e
             | Inr (v4, add_ofmsgs) \<Rightarrow> Inr (v4, Some (delete_ofmsgs @ add_ofmsgs))))
   \<and> map_sum id snd
        (port_delete example_valve_packet
           (set_port_status
              (notify example_valve_port1_up (PORT_CHANGE 1 ''MODIFY'' 0 True)) 1 True) 1)
       = Inr [FlowDel wildcard_table (match_all\<lparr>match_in_port := Some 1\<rparr>) None False,
              OtherMsg ''pipeline.del_port'', OtherMsg ''host.del_port'',
              OtherMsg ''flood.del_port'', OtherMsg ''flood.update_vlan'']
   \<and> map_sum id snd
        (port_status_handler example_valve_packet example_valve_port1_up 1 OFPPR_MODIFY 0)
       = Inr (Some ([FlowDel wildcard_table (match_all\<lparr>match_in_port := Some 1\<rparr>) None False,
                     OtherMsg ''pipeline.del_port'', OtherMsg ''host.del_port'',
                     OtherMsg ''flood.del_port'', OtherMsg ''flood.update_vlan'']
                    @ [OtherMsg ''pipeline.add_port'', OtherMsg ''host.add_port'',
                       OtherMsg ''flood.add_port'',
                       FlowMod (Table ''vlan'')
                         (match_all\<lparr>match_in_port := Some 1, match_vlan := Some NullVLAN\<rparr>)
                         9000 [ApplyActions [PushVlanAct 256], Goto (Table ''eth_src'')],
                       OtherMsg ''flood.add_vlan'']))"
proof -
  note defs = example_valve_port1_up_def example_lacp_port_def example_valve_def example_dp_def
    example_port_def example_vlan_def example_valve_packet_def example_manager_def
    example_stack_port_def example_trunk_port_def example_remote_dp_def Let_def
  note code = port_delete_def ports_delete_def ports_delete_port_def
    port_delete_flows_state_def delete_all_port_match_flows_def port_delete_manager_state_def
    port_add_def ports_add_def ports_add_port_def ports_add_lacp_def ports_add_dot1x_def
    port_add_vlans_def port_add_vlan_rules_def find_forwarding_table_def port_vlans_def
    port_no_valid_def running_def get_managers_def set_port_def set_update_def
    notify_def set_port_status_def decode_port_status_def OFPPR_MODIFY_def OFPPR_ADD_def
    OFPPR_DELETE_def
  have h: "OFPPR_MODIFY = OFPPR_MODIFY" "port_status_from_state example_valve_packet 0"
    "map_of (ports (dp example_valve_port1_up)) 1 = Some ((example_port 1)\<lparr>dyn_phys_up := True\<rparr>)"
    "opstatus_reconf ((example_port 1)\<lparr>dyn_phys_up := True\<rparr>)"
    "dyn_phys_up ((example_port 1)\<lparr>dyn_phys_up := True\<rparr>)"
    by (simp_all add: defs)
  have del: "map_sum id snd
        (port_delete example_valve_packet
           (set_port_status
              (notify example_valve_port1_up (PORT_CHANGE 1 ''MODIFY'' 0 True)) 1 True) 1)
       = Inr [FlowDel wildcard_table (match_all\<lparr>match_in_port := Some 1\<rparr>) None False,
              OtherMsg ''pipeline.del_port'', OtherMsg ''host.del_port'',
              OtherMsg ''flood.del_port'', OtherMsg ''flood.update_vlan'']"
    by (simp add: code defs)
  have all: "map_sum id snd
        (port_status_handler example_valve_packet example_valve_port1_up 1 OFPPR_MODIFY 0)
       = Inr (Some ([FlowDel wildcard_table (match_all\<lparr>match_in_port := Some 1\<rparr>) None False,
                     OtherMsg ''pipeline.del_port'', OtherMsg ''host.del_port'',
                     OtherMsg ''flood.del_port'', OtherMsg ''flood.update_vlan'']
                    @ [OtherMsg ''pipeline.add_port'', OtherMsg ''host.add_port'',
                       OtherMsg ''flood.add_port'',
                       FlowMod (Table ''vlan'')
                         (match_all\<lparr>match_in_port := Some 1, match_vlan := Some NullVLAN\<rparr>)
                         9000 [ApplyActions [PushVlanAct 256], Goto (Table ''eth_src'')],
                       OtherMsg ''flood.add_vlan'']))"
    by (simp add: port_status_handler_def code defs)
  from port_status_handler_flap [OF h] del all show ?thesis
    by (intro conjI)
qed

subsection \<open>State expiry\<close>


lemma lacp_down_ofmsgs:
  "lacp_down vp v prt False =
     (set_port v (prt\<lparr>dyn_lacp_up := False, dyn_last_lacp_pkt := None,
                   dyn_lacp_updated_time := None, dyn_lacp_last_resp_time := None\<rparr>),
      prt\<lparr>dyn_lacp_up := False, dyn_last_lacp_pkt := None,
                   dyn_lacp_updated_time := None, dyn_lacp_last_resp_time := None\<rparr>,
      del_port (host_manager v)
        (prt\<lparr>dyn_lacp_up := False, dyn_last_lacp_pkt := None,
                   dyn_lacp_updated_time := None, dyn_lacp_last_resp_time := None\<rparr>)
      @ concat (map (add_vlan (flood_manager v)) (port_vlans prt))
      @ [FlowDrop (Table ''vlan'') (match_all\<lparr>match_in_port := Some (number prt)\<rparr>)
           (high_priority (dp v)),
         FlowController (Table ''vlan'')
           (match_all\<lparr>match_in_port := Some (number prt),
               match_eth_type := Some ETH_TYPE_SLOW,
               match_eth_dst := Some (SLOW_PROTOCOL_MULTICAST vp)\<rparr>)
           (highest_priority (dp v)) (LACP_SIZE vp)])"
  by (simp add: lacp_down_def Let_def port_vlans_def split: option.splits)

lemma lacp_down_ofmsgs_updated:
  assumes "ports_updated v v'"
  shows "snd (snd (lacp_down vp v' prt False)) = snd (snd (lacp_down vp v prt False))"
  by (simp add: lacp_down_ofmsgs ports_updatedD [OF assms])

lemma extend_self_mono:
  "\<exists>ms'. extend_self acc ms = Some ms' \<and> set ms \<subseteq> set ms'
     \<and> (\<forall>a. acc = Some a \<longrightarrow> set a \<subseteq> set ms')"
  by (cases acc) (simp_all add: extend_self_def)

lemma lacp_state_expire_loop_mono:
  "lacp_state_expire_loop vp now ps v acc = Inr (v', acc') \<Longrightarrow> acc = Some a
     \<Longrightarrow> \<exists>a'. acc' = Some a' \<and> set a \<subseteq> set a'"
proof (induction ps arbitrary: v acc a)
  case Nil
  then show ?case by auto
next
  case (Cons p ps)
  from Cons.prems(1) obtain t where t: "dyn_lacp_updated_time p = Some t"
    by (auto split: option.splits)
  show ?case
  proof (cases "now - t > lacp_timeout (dp v)")
    case True
    obtain v1 p1 ms where d: "lacp_down vp v p False = (v1, p1, ms)"
      by (cases "lacp_down vp v p False") auto
    with Cons.prems(1) t True have
      l: "lacp_state_expire_loop vp now ps v1 (extend_self acc ms) = Inr (v', acc')"
      by simp
    from extend_self_mono [of acc ms] Cons.prems(2) obtain b where
      b: "extend_self acc ms = Some b" "set a \<subseteq> set b" by auto
    from Cons.IH [OF l b(1)] b(2) show ?thesis by auto
  next
    case False
    with Cons.prems(1) t have
      l: "lacp_state_expire_loop vp now ps v acc = Inr (v', acc')" by simp
    from Cons.IH [OF l Cons.prems(2)] show ?thesis .
  qed
qed

lemma lacp_state_expire_loop_expired:
  assumes "lacp_state_expire_loop vp now ps v acc = Inr (v', acc')"
    and "distinct (map number ps)"
    and "\<forall>q \<in> set ps. map_of (ports (dp v)) (number q) = Some q"
  shows "ports_updated v v'
    \<and> (\<forall>n. n \<notin> number ` set ps \<longrightarrow> map_of (ports (dp v')) n = map_of (ports (dp v)) n)
    \<and> (\<forall>p \<in> set ps. \<forall>t. dyn_lacp_updated_time p = Some t \<longrightarrow>
           now - t > lacp_timeout (dp v) \<longrightarrow>
             (\<exists>q. map_of (ports (dp v')) (number p) = Some q \<and> \<not> dyn_lacp_up q)
             \<and> (\<exists>ms. acc' = Some ms \<and> set (snd (snd (lacp_down vp v p False))) \<subseteq> set ms))"
  using assms
proof (induction ps arbitrary: v acc)
  case Nil
  then show ?case by simp
next
  case (Cons p ps)
  from Cons.prems(1) obtain t where t: "dyn_lacp_updated_time p = Some t"
    by (auto split: option.splits)
  from Cons.prems(2) have dist: "distinct (map number ps)" and notin: "number p \<notin> number ` set ps"
    by auto
  from Cons.prems(3) have cur: "map_of (ports (dp v)) (number p) = Some p"
    and rest: "\<forall>q \<in> set ps. map_of (ports (dp v)) (number q) = Some q"
    by auto
  show ?case
  proof (cases "now - t > lacp_timeout (dp v)")
    case True
    obtain v1 p1 ms where d: "lacp_down vp v p False = (v1, p1, ms)"
      by (cases "lacp_down vp v p False") auto
    with Cons.prems(1) t True have
      l: "lacp_state_expire_loop vp now ps v1 (extend_self acc ms) = Inr (v', acc')"
      by simp
    from lacp_down_updated [OF cur _ d] have
      u: "ports_updated v v1" and c: "same_config p p1"
      and p1: "map_of (ports (dp v1)) (number p) = Some p1"
      by simp_all
    from d have v1: "v1 = set_port v p1" and p1_def: "\<not> dyn_lacp_up p1" "number p1 = number p"
      by (auto simp add: lacp_down_ofmsgs)
    have other: "map_of (ports (dp v1)) n = map_of (ports (dp v)) n" if "n \<noteq> number p" for n
      using that p1_def unfolding v1 by (simp add: map_of_set_port)
    have rest1: "\<forall>q \<in> set ps. map_of (ports (dp v1)) (number q) = Some q"
    proof
      fix q assume q: "q \<in> set ps"
      with notin have "number q \<noteq> number p" by (metis imageI)
      from other [OF this] rest q show "map_of (ports (dp v1)) (number q) = Some q" by simp
    qed
    note IH = Cons.IH [OF l dist rest1]
    note ih1 = IH [THEN conjunct1]
    note ih2 = IH [THEN conjunct2, THEN conjunct1, rule_format]
    note ih3 = IH [THEN conjunct2, THEN conjunct2, rule_format]
    from u ih1 have upd: "ports_updated v v'" by (rule ports_updated_trans)
    have unch: "map_of (ports (dp v')) n = map_of (ports (dp v)) n"
      if "n \<notin> number ` set (p # ps)" for n
      using that ih2 [of n] other [of n] by simp
    from ih2 [OF notin] p1 have p_final: "map_of (ports (dp v')) (number p) = Some p1"
      by simp
    from extend_self_mono [of acc ms] obtain b where
      b: "extend_self acc ms = Some b" "set ms \<subseteq> set b" by auto
    from lacp_state_expire_loop_mono [OF l b(1)] b(2) d obtain a' where
      a': "acc' = Some a'" "set (snd (snd (lacp_down vp v p False))) \<subseteq> set a'"
      by auto
    have tl: "(\<exists>r. map_of (ports (dp v')) (number q) = Some r \<and> \<not> dyn_lacp_up r)
             \<and> (\<exists>ms. acc' = Some ms \<and> set (snd (snd (lacp_down vp v q False))) \<subseteq> set ms)"
      if "q \<in> set ps" "dyn_lacp_updated_time q = Some t'" "now - t' > lacp_timeout (dp v)"
      for q t'
      using ih3 [of q t'] that
      by (simp add: ports_updatedD [OF u] lacp_down_ofmsgs_updated [OF u])
    have hd: "(\<exists>r. map_of (ports (dp v')) (number p) = Some r \<and> \<not> dyn_lacp_up r)
             \<and> (\<exists>ms. acc' = Some ms \<and> set (snd (snd (lacp_down vp v p False))) \<subseteq> set ms)"
      using p_final p1_def(1) a' by simp
    from upd unch hd tl show ?thesis
      by (intro conjI allI impI ballI) auto
  next
    case False
    with Cons.prems(1) t have
      l: "lacp_state_expire_loop vp now ps v acc = Inr (v', acc')" by simp
    note IH = Cons.IH [OF l dist rest]
    note ih1 = IH [THEN conjunct1]
    note ih2 = IH [THEN conjunct2, THEN conjunct1, rule_format]
    note ih3 = IH [THEN conjunct2, THEN conjunct2, rule_format]
    have unch: "map_of (ports (dp v')) n = map_of (ports (dp v)) n"
      if "n \<notin> number ` set (p # ps)" for n
      using that ih2 [of n] by simp
    have tl: "(\<exists>r. map_of (ports (dp v')) (number q) = Some r \<and> \<not> dyn_lacp_up r)
             \<and> (\<exists>ms. acc' = Some ms \<and> set (snd (snd (lacp_down vp v q False))) \<subseteq> set ms)"
      if "q \<in> set (p # ps)" "dyn_lacp_updated_time q = Some t'"
        "now - t' > lacp_timeout (dp v)" for q t'
    proof (cases "q = p")
      case True
      with that t False show ?thesis by simp
    next
      case False
      with that ih3 [of q t'] show ?thesis by simp
    qed
    from ih1 unch tl show ?thesis
      by (intro conjI allI impI ballI) auto
  qed
qed


lemma fold_extend_self:
  assumes "\<And>x a. \<exists>a'. g x (Some a) = Some a' \<and> set a \<subseteq> set a'"
  shows "\<exists>a'. fold g xs (Some a) = Some a' \<and> set a \<subseteq> set a'"
proof (induction xs arbitrary: a)
  case Nil
  show ?case by simp
next
  case (Cons x xs)
  from assms [of x a] obtain b where b: "g x (Some a) = Some b" "set a \<subseteq> set b" by blast
  from Cons.IH [of b] obtain a' where "fold g xs (Some b) = Some a'" "set b \<subseteq> set a'"
    by blast
  with b show ?case by auto
qed

lemma fold_notify_dp:
  "dp (fold (\<lambda>(entry_eth_src, entry_port_no) w. notify w (f entry_eth_src entry_port_no)) xs v)
     = dp v"
  by (induction xs arbitrary: v) (auto simp add: notify_def)

lemma state_expire_vlan_mono:
  assumes "state_expire_vlan now vl (v, Some a) = (v', acc')"
  shows "dp v' = dp v \<and> (\<exists>a'. acc' = Some a' \<and> set a \<subseteq> set a')"
proof -
  let ?hosts = "expire_hosts_from_vlan (host_manager v) vl now"
  let ?g1 = "\<lambda>(entry_eth_src, entry_port_no) acc.
               extend_self acc (delete_host_from_vlan (host_manager v) entry_eth_src vl)"
  let ?v1 = "fold (\<lambda>(entry_eth_src, entry_port_no) w.
                     notify w (L2_EXPIRE entry_port_no (vid vl) entry_eth_src)) ?hosts v"
  let ?g2 = "\<lambda>(ipv, route_manager) acc.
               extend_self acc (resolve_expire_hosts route_manager vl now)"
  have g1: "\<exists>a'. ?g1 x (Some a) = Some a' \<and> set a \<subseteq> set a'"
    for x :: "mac \<times> nat" and a
    by (cases x) (simp add: extend_self_def)
  have g2: "\<exists>a'. ?g2 x (Some a) = Some a' \<and> set a \<subseteq> set a'"
    for x :: "nat \<times> manager" and a
    by (cases x) (simp add: extend_self_def)
  obtain b where b: "(if \<not> idle_dst (dp v) then fold ?g1 ?hosts (Some a) else Some a) = Some b"
    "set a \<subseteq> set b"
    using fold_extend_self [where g = ?g1 and a = a and xs = ?hosts, OF g1]
    by (cases "idle_dst (dp v)") auto
  obtain c where c: "fold ?g2 (route_manager_by_ipv ?v1) (Some b) = Some c" "set b \<subseteq> set c"
    using fold_extend_self [where g = ?g2 and a = b and xs = "route_manager_by_ipv ?v1", OF g2]
    by blast
  have dpv: "dp ?v1 = dp v"
    using fold_notify_dp [of "\<lambda>e n. L2_EXPIRE n (vid vl) e" ?hosts v] by simp
  have eq: "state_expire_vlan now vl (v, Some a)
      = (?v1, fold ?g2 (route_manager_by_ipv ?v1)
                (if \<not> idle_dst (dp v) then fold ?g1 ?hosts (Some a) else Some a))"
    by (simp add: state_expire_vlan_def Let_def)
  from assms have "v' = ?v1" "acc' = Some c"
    unfolding eq b(1) c(1) by simp_all
  with dpv b(2) c(2) show ?thesis by auto
qed

lemma fold_state_expire_vlan_mono:
  "fold (state_expire_vlan now) vls (v, Some a) = (v', acc')
     \<Longrightarrow> dp v' = dp v \<and> (\<exists>a'. acc' = Some a' \<and> set a \<subseteq> set a')"
proof (induction vls arbitrary: v a)
  case Nil
  then show ?case by auto
next
  case (Cons vl vls)
  obtain v1 acc1 where s: "state_expire_vlan now vl (v, Some a) = (v1, acc1)"
    by (cases "state_expire_vlan now vl (v, Some a)") auto
  from state_expire_vlan_mono [OF s] obtain b where
    b: "dp v1 = dp v" "acc1 = Some b" "set a \<subseteq> set b" by blast
  from Cons.prems s b have "fold (state_expire_vlan now) vls (v1, Some b) = (v', acc')"
    by simp
  from Cons.IH [OF this] b show ?case by auto
qed

lemma state_expire_vlan_dp:
  "state_expire_vlan now vl (v, acc) = (v', acc') \<Longrightarrow> dp v' = dp v"
  using fold_notify_dp
    [of "\<lambda>e n. L2_EXPIRE n (vid vl) e" "expire_hosts_from_vlan (host_manager v) vl now" v]
  by (auto simp add: state_expire_vlan_def Let_def)

lemma fold_state_expire_vlan_dp:
  "fold (state_expire_vlan now) vls (v, acc) = (v', acc') \<Longrightarrow> dp v' = dp v"
proof (induction vls arbitrary: v acc)
  case Nil
  then show ?case by auto
next
  case (Cons vl vls)
  obtain v1 acc1 where s: "state_expire_vlan now vl (v, acc) = (v1, acc1)"
    by (cases "state_expire_vlan now vl (v, acc)") auto
  with Cons.prems have "fold (state_expire_vlan now) vls (v1, acc1) = (v', acc')" by simp
  from Cons.IH [OF this] state_expire_vlan_dp [OF s] show ?case by simp
qed

lemma concat_lags_filter:
  "concat (map snd (filter (\<lambda>(lag, ports_up). ports_up \<noteq> []) xs)) = concat (map snd xs)"
  by (induction xs) auto

lemma distinct_number_groups:
  assumes "distinct (map number xs)" and "distinct lags"
  shows "distinct (map number
           (concat (map (\<lambda>lag. filter (\<lambda>p. lacp p = lag \<and> dyn_lacp_up p) xs) lags)))"
  using assms(2)
proof (induction lags)
  case Nil
  show ?case by simp
next
  case (Cons lag lags)
  have inj: "inj_on number (set xs)"
    using assms(1) by (simp add: distinct_map)
  have d1: "distinct (map number (filter (\<lambda>p. lacp p = lag \<and> dyn_lacp_up p) xs))"
    using assms(1) by (rule distinct_map_filter)
  have disj: "number x \<noteq> number y"
    if "x \<in> set (filter (\<lambda>p. lacp p = lag \<and> dyn_lacp_up p) xs)"
      "y \<in> set (concat (map (\<lambda>lag. filter (\<lambda>p. lacp p = lag \<and> dyn_lacp_up p) xs) lags))"
    for x y
  proof
    assume eq: "number x = number y"
    from that have "x \<in> set xs" "y \<in> set xs" by auto
    with inj eq have "x = y" by (auto dest: inj_onD)
    moreover from that(1) have "lacp x = lag" by simp
    moreover from that(2) have "lacp y \<in> set lags" by auto
    ultimately show False using Cons.prems by auto
  qed
  from Cons.IH Cons.prems d1 disj show ?case
    by (auto simp add: distinct_map)
qed

lemma lags_up_ports:
  assumes "keyed_by_number (dp v)" and "distinct (map fst (ports (dp v)))"
  shows "distinct (map number (concat (map snd (lags_up (dp v)))))"
    and "\<forall>q \<in> set (concat (map snd (lags_up (dp v)))).
           map_of (ports (dp v)) (number q) = Some q"
proof -
  let ?ps = "ports (dp v)"
  have key: "number q = n" "map_of ?ps n = Some q" if "(n, q) \<in> set ?ps" for n q
  proof -
    from that assms(2) show m: "map_of ?ps n = Some q" by simp
    with assms(1) show "number q = n" by (simp add: keyed_by_number_def)
  qed
  have num: "map number (map snd ?ps) = map fst ?ps"
    using key(1) by auto
  have d: "distinct (map number (map snd ?ps))"
    unfolding num by (rule assms(2))
  then have d': "distinct (map number (filter (\<lambda>p. lacp p \<noteq> 0) (map snd ?ps)))"
    by (rule distinct_map_filter)
  show "distinct (map number (concat (map snd (lags_up (dp v)))))"
    unfolding lags_up_def Let_def concat_lags_filter
    using distinct_number_groups [OF d' distinct_remdups]
    by (simp add: comp_def)
  show "\<forall>q \<in> set (concat (map snd (lags_up (dp v)))).
           map_of (ports (dp v)) (number q) = Some q"
  proof
    fix q assume "q \<in> set (concat (map snd (lags_up (dp v))))"
    then have "q \<in> snd ` set ?ps"
      unfolding lags_up_def Let_def concat_lags_filter by (auto simp add: comp_def)
    then obtain n where "(n, q) \<in> set ?ps" by auto
    with key [of n q] show "map_of (ports (dp v)) (number q) = Some q" by simp
  qed
qed

lemma lacp_state_expire_loop_returns:
  "\<forall>q \<in> set ps. dyn_lacp_updated_time q \<noteq> None
     \<Longrightarrow> \<exists>r. lacp_state_expire_loop vp now ps v acc = Inr r"
proof (induction ps arbitrary: v acc)
  case Nil
  show ?case by simp
next
  case (Cons p ps)
  from Cons.prems obtain t where t: "dyn_lacp_updated_time p = Some t" by auto
  from Cons.prems have rest: "\<forall>q \<in> set ps. dyn_lacp_updated_time q \<noteq> None" by simp
  show ?case
  proof (cases "now - t > lacp_timeout (dp v)")
    case True
    obtain v1 p1 ms where d: "lacp_down vp v p False = (v1, p1, ms)"
      by (cases "lacp_down vp v p False") auto
    from Cons.IH [OF rest, of v1 "extend_self acc ms"] t True d show ?thesis by simp
  next
    case False
    from Cons.IH [OF rest, of v acc] t False show ?thesis by simp
  qed
qed


text \<open>
  C7. During \<open>state_expire\<close> on a running datapath, every port of an up LACP bundle
  whose last LACP update lies more than \<open>lacp_timeout\<close> back is forced DOWN, and the
  returned messages include those of \<open>lacp_down\<close> for it: the messages of
  \<open>host_manager.del_port\<close> for the port and of \<open>flood_manager.add_vlan\<close> for each
  of its VLANs (the deletions of its host and flood state), an input drop flow at
  \<open>high_priority\<close> and a controller flow for SLOW-protocol multicast at
  \<open>highest_priority\<close> with \<open>max_len = LACP_SIZE\<close>. The ports of the DP are stored
  under their own, distinct numbers, and every port with LACP up has an update time
  (otherwise \<open>now - port.dyn_lacp_updated_time\<close> raises).
\<close>

theorem state_expire_lacp_timeout:
  assumes "dyn_running (dp v)"
    and "keyed_by_number (dp v)" and "distinct (map fst (ports (dp v)))"
    and "\<forall>q \<in> set (concat (map snd (lags_up (dp v)))). dyn_lacp_updated_time q \<noteq> None"
    and "(lag, ports_up) \<in> set (lags_up (dp v))" and "prt \<in> set ports_up"
    and "dyn_lacp_updated_time prt = Some t" and "now - t > lacp_timeout (dp v)"
  shows "\<exists>v' ofmsgs q.
      state_expire vp v now = Inr (v', Some ofmsgs)
      \<and> map_of (ports (dp v')) (number prt) = Some q \<and> \<not> dyn_lacp_up q
      \<and> set (snd (snd (lacp_down vp v prt False))) \<subseteq> set ofmsgs
      \<and> snd (snd (lacp_down vp v prt False)) =
          del_port (host_manager v)
            (prt\<lparr>dyn_lacp_up := False, dyn_last_lacp_pkt := None,
                 dyn_lacp_updated_time := None, dyn_lacp_last_resp_time := None\<rparr>)
          @ concat (map (add_vlan (flood_manager v)) (port_vlans prt))
          @ [FlowDrop (Table ''vlan'') (match_all\<lparr>match_in_port := Some (number prt)\<rparr>)
               (high_priority (dp v)),
             FlowController (Table ''vlan'')
               (match_all\<lparr>match_in_port := Some (number prt),
                   match_eth_type := Some ETH_TYPE_SLOW,
                   match_eth_dst := Some (SLOW_PROTOCOL_MULTICAST vp)\<rparr>)
               (highest_priority (dp v)) (LACP_SIZE vp)]"
proof -
  let ?L = "concat (map snd (lags_up (dp v)))"
  from assms(5,6) have mem: "prt \<in> set ?L" by force
  from lacp_state_expire_loop_returns [OF assms(4), of vp now v None] obtain v1 acc1 where
    l: "lacp_state_expire_loop vp now ?L v None = Inr (v1, acc1)"
    by force
  obtain v' acc' where
    f: "fold (state_expire_vlan now) (map snd (vlans (dp v1))) (v1, acc1) = (v', acc')"
    by (cases "fold (state_expire_vlan now) (map snd (vlans (dp v1))) (v1, acc1)") auto
  from assms(1) l f have r: "state_expire vp v now = Inr (v', acc')"
    by (simp add: state_expire_def lacp_state_expire_def)
  note e = lacp_state_expire_loop_expired [OF l lags_up_ports [OF assms(2,3)],
      THEN conjunct2, THEN conjunct2, rule_format, OF mem assms(7,8)]
  from e obtain q ms where q: "map_of (ports (dp v1)) (number prt) = Some q" "\<not> dyn_lacp_up q"
    and ms: "acc1 = Some ms" "set (snd (snd (lacp_down vp v prt False))) \<subseteq> set ms"
    by blast
  from fold_state_expire_vlan_mono [OF f [unfolded ms(1)]] obtain a' where
    a': "dp v' = dp v1" "acc' = Some a'" "set ms \<subseteq> set a'" by blast
  from r q a' ms show ?thesis
    by (auto simp add: lacp_down_ofmsgs)
qed


theorem state_expire_lacp_timeout_witness:
  "(\<exists>v' ofmsgs q.
      state_expire example_valve_packet example_valve_lacp_up 10 = Inr (v', Some ofmsgs)
      \<and> map_of (ports (dp v')) 2 = Some q \<and> \<not> dyn_lacp_up q
      \<and> set (snd (snd (lacp_down example_valve_packet example_valve_lacp_up
                         example_lacp_port_up False))) \<subseteq> set ofmsgs)
   \<and> map_sum id snd (state_expire example_valve_packet example_valve_lacp_up 10)
     = Inr (Some [OtherMsg ''host.del_port'', OtherMsg ''flood.add_vlan'',
                  FlowDrop (Table ''vlan'') (match_all\<lparr>match_in_port := Some 2\<rparr>) 9001,
                  FlowController (Table ''vlan'')
                    (match_all\<lparr>match_in_port := Some 2, match_eth_type := Some ETH_TYPE_SLOW,
                        match_eth_dst := Some ''01:80:c2:00:00:02''\<rparr>) 9099 124])"
proof -
  note defs = example_valve_lacp_up_def example_lacp_port_up_def example_lacp_port_def
    example_valve_def example_dp_def example_port_def example_vlan_def
    example_valve_packet_def example_manager_def example_stack_port_def
    example_trunk_port_def example_remote_dp_def Let_def
  have eval: "map_sum id snd (state_expire example_valve_packet example_valve_lacp_up 10)
     = Inr (Some [OtherMsg ''host.del_port'', OtherMsg ''flood.add_vlan'',
                  FlowDrop (Table ''vlan'') (match_all\<lparr>match_in_port := Some 2\<rparr>) 9001,
                  FlowController (Table ''vlan'')
                    (match_all\<lparr>match_in_port := Some 2, match_eth_type := Some ETH_TYPE_SLOW,
                        match_eth_dst := Some ''01:80:c2:00:00:02''\<rparr>) 9099 124])"
    by (simp add: state_expire_def lacp_state_expire_def lags_up_def lacp_down_def
          state_expire_vlan_def extend_self_def set_port_def port_vlans_def defs)
  have h: "dyn_running (dp example_valve_lacp_up)"
    "keyed_by_number (dp example_valve_lacp_up)"
    "distinct (map fst (ports (dp example_valve_lacp_up)))"
    "\<forall>q \<in> set (concat (map snd (lags_up (dp example_valve_lacp_up)))).
       dyn_lacp_updated_time q \<noteq> None"
    "(1, [example_lacp_port_up]) \<in> set (lags_up (dp example_valve_lacp_up))"
    "example_lacp_port_up \<in> set [example_lacp_port_up]"
    "dyn_lacp_updated_time example_lacp_port_up = Some 1"
    "10 - 1 > lacp_timeout (dp example_valve_lacp_up)"
    by (simp_all add: keyed_by_number_def lags_up_def defs)
  have n: "number example_lacp_port_up = 2"
    by (simp add: defs)
  from state_expire_lacp_timeout [OF h, of example_valve_packet]
  have "\<exists>v' ofmsgs q.
      state_expire example_valve_packet example_valve_lacp_up 10 = Inr (v', Some ofmsgs)
      \<and> map_of (ports (dp v')) 2 = Some q \<and> \<not> dyn_lacp_up q
      \<and> set (snd (snd (lacp_down example_valve_packet example_valve_lacp_up
                         example_lacp_port_up False))) \<subseteq> set ofmsgs"
    unfolding n by blast
  with eval show ?thesis by (rule conjI [rotated])
qed

subsection \<open>Configuration reload\<close>

text \<open>
  Port operations change the ports of the DP and nothing else of the Valve.
\<close>

lemma ports_changed_only_refl [simp]: "ports_changed_only v v"
  by (simp add: ports_changed_only_def)

lemma ports_changed_only_trans:
  assumes "ports_changed_only v v1" and "ports_changed_only v1 v2"
  shows "ports_changed_only v v2"
proof -
  from assms(1) have a: "v1 = v\<lparr>dp := (dp v)\<lparr>ports := ports (dp v1)\<rparr>\<rparr>"
    by (simp add: ports_changed_only_def)
  from assms(2) have b: "v2 = v1\<lparr>dp := (dp v1)\<lparr>ports := ports (dp v2)\<rparr>\<rparr>"
    by (simp add: ports_changed_only_def)
  have "v2 = v\<lparr>dp := (dp v)\<lparr>ports := ports (dp v2)\<rparr>\<rparr>"
    by (subst b, subst (1 2) a) simp
  then show ?thesis by (simp add: ports_changed_only_def)
qed

lemma ports_changed_only_set_port [simp]: "ports_changed_only v (set_port v prt)"
  by (simp add: ports_changed_only_def set_port_def)

lemma ports_changed_onlyD:
  assumes "ports_changed_only v v'"
  shows "dyn_running (dp v') = dyn_running (dp v)"
    and "dyn_up_port_nos (dp v') = dyn_up_port_nos (dp v)"
    and "vlans (dp v') = vlans (dp v)"
    and "notifications v' = notifications v"
    and "last_pipeline_flows v' = last_pipeline_flows v"
proof -
  from assms have eq: "v' = v\<lparr>dp := (dp v)\<lparr>ports := ports (dp v')\<rparr>\<rparr>"
    by (simp add: ports_changed_only_def)
  show "dyn_running (dp v') = dyn_running (dp v)" by (subst eq) simp
  show "dyn_up_port_nos (dp v') = dyn_up_port_nos (dp v)" by (subst eq) simp
  show "vlans (dp v') = vlans (dp v)" by (subst eq) simp
  show "notifications v' = notifications v" by (subst eq) simp
  show "last_pipeline_flows v' = last_pipeline_flows v" by (subst eq) simp
qed

lemma lacp_down_changed_only:
  "lacp_down vp v prt cs = (v1, prt1, ms) \<Longrightarrow> ports_changed_only v v1"
  using lacp_down_port [of vp v prt cs v1 prt1 ms] by simp

lemma ports_add_lacp_changed_only:
  assumes "ports_add_lacp vp v prt cs = Inr (v1, prt1, ms)"
  shows "ports_changed_only v v1"
proof (cases "lacp prt = 0")
  case True
  with assms show ?thesis by (simp add: ports_add_lacp_def)
next
  case False
  obtain v2 prt2 ms2 where d: "lacp_down vp v prt cs = (v2, prt2, ms2)"
    by (cases "lacp_down vp v prt cs") auto
  with False assms have "v1 = v2"
    by (auto simp add: ports_add_lacp_def split: if_splits sum.splits)
  with lacp_down_changed_only [OF d] show ?thesis by simp
qed

lemma ports_add_port_changed_only:
  assumes "ports_add_port vp v cs n = Inr (v1, ms, pvs)"
  shows "ports_changed_only v v1"
proof (cases "map_of (ports (dp v)) n")
  case None
  with assms show ?thesis by (simp add: ports_add_port_def port_no_valid_def)
next
  case (Some port0)
  let ?prt = "port0\<lparr>dyn_phys_up := True\<rparr>"
  let ?v1 = "set_port v ?prt"
  have u: "ports_changed_only v ?v1" by simp
  show ?thesis
  proof (cases "ports_add_lacp vp ?v1 ?prt cs")
    case (Inl e)
    with assms Some u show ?thesis
      by (auto simp add: ports_add_port_def port_no_valid_def Let_def
            split: if_splits option.splits sum.splits)
  next
    case (Inr r)
    obtain v2 prt2 ms2 where r: "r = (v2, prt2, ms2)" by (cases r) auto
    from Inr r have l: "ports_add_lacp vp ?v1 ?prt cs = Inr (v2, prt2, ms2)" by simp
    from u ports_add_lacp_changed_only [OF l] have "ports_changed_only v v2"
      by (rule ports_changed_only_trans)
    with assms Some u l show ?thesis
      by (auto simp add: ports_add_port_def port_no_valid_def Let_def
            split: if_splits option.splits sum.splits)
  qed
qed

lemma ports_add_loop_changed_only:
  "ports_add_loop vp cs ns v acc vs = Inr (v', ms, vs') \<Longrightarrow> ports_changed_only v v'"
proof (induction ns arbitrary: v acc vs)
  case Nil
  then show ?case by simp
next
  case (Cons n ns)
  from Cons.prems obtain v1 ms1 pvs where
    b: "ports_add_port vp v cs n = Inr (v1, ms1, pvs)"
    and l: "ports_add_loop vp cs ns v1 (acc @ ms1) (set_update vs pvs) = Inr (v', ms, vs')"
    by (auto split: sum.splits)
  from ports_add_port_changed_only [OF b] Cons.IH [OF l] show ?case
    by (rule ports_changed_only_trans)
qed

lemma ports_add_changed_only:
  "ports_add vp v ns cs = Inr (v', ms) \<Longrightarrow> ports_changed_only v v'"
  by (auto simp add: ports_add_def split: sum.splits if_splits
        dest: ports_add_loop_changed_only)

lemma ports_delete_port_changed_only:
  assumes "ports_delete_port vp v n = Inr (v1, ms, pvs)"
  shows "ports_changed_only v v1"
proof (cases "map_of (ports (dp v)) n")
  case None
  with assms show ?thesis by (simp add: ports_delete_port_def port_no_valid_def)
next
  case (Some port0)
  let ?prt = "port0\<lparr>dyn_phys_up := False\<rparr>"
  let ?v1 = "set_port v ?prt"
  have u: "ports_changed_only v ?v1" by simp
  obtain v2 prt2 ms2 where d: "lacp_down vp ?v1 ?prt False = (v2, prt2, ms2)"
    by (cases "lacp_down vp ?v1 ?prt False") auto
  from u lacp_down_changed_only [OF d] have "ports_changed_only v v2"
    by (rule ports_changed_only_trans)
  with assms Some u d show ?thesis
    by (auto simp add: ports_delete_port_def port_no_valid_def Let_def
          split: if_splits option.splits sum.splits)
qed

lemma ports_delete_loop_changed_only:
  "ports_delete_loop vp ns v acc vs = Inr (v', ms, vs') \<Longrightarrow> ports_changed_only v v'"
proof (induction ns arbitrary: v acc vs)
  case Nil
  then show ?case by simp
next
  case (Cons n ns)
  from Cons.prems obtain v1 ms1 pvs where
    b: "ports_delete_port vp v n = Inr (v1, ms1, pvs)"
    and l: "ports_delete_loop vp ns v1 (acc @ ms1) (set_update vs pvs) = Inr (v', ms, vs')"
    by (auto split: sum.splits)
  from ports_delete_port_changed_only [OF b] Cons.IH [OF l] show ?case
    by (rule ports_changed_only_trans)
qed

lemma ports_delete_changed_only:
  "ports_delete vp v ns = Inr (v', ms) \<Longrightarrow> ports_changed_only v v'"
  by (auto simp add: ports_delete_def split: sum.splits
        dest: ports_delete_loop_changed_only)

lemma ports_delete_Nil [simp]: "ports_delete vp v [] = Inr (v, [])"
  by (simp add: ports_delete_def)

lemma ports_add_Nil [simp]: "ports_add vp v [] cs = Inr (v, [])"
  by (simp add: ports_add_def)

lemma dp_init_dyn_running [simp]:
  "dyn_running (dp (dp_init cl v (Some new_dp))) = dyn_running (dp v)"
  "dyn_up_port_nos (dp (dp_init cl v (Some new_dp))) = dyn_up_port_nos (dp v)"
  "dp (dp_init cl v (Some new_dp)) = clone_dyn_state new_dp (dp v)"
  "notifications (dp_init cl v (Some new_dp)) = notifications v"
  by (simp_all add: dp_init_def clone_dyn_state_def Let_def)


lemma apply_config_changes_cold:
  assumes "pipeline_change cl v = Inr pipeline_changed"
    and "pipeline_changed \<or> all_ports_changed"
  shows "apply_config_changes cl vp v new_dp
           (deleted_ports, changed_ports, changed_acl_ports, deleted_vids, changed_vids,
            all_ports_changed)
         = Inr (dp_init cl v (Some new_dp), True, [])"
  using assms by (auto simp add: apply_config_changes_def)

lemma apply_config_changes_warm:
  assumes "pipeline_change cl v = Inr False"
  shows "apply_config_changes cl vp v new_dp
           (deleted_ports, changed_ports, changed_acl_ports, deleted_vids, changed_vids, False)
       = (case ports_delete vp v deleted_ports of
            Inl e \<Rightarrow> Inl e
          | Inr (v1, ofmsgs1) \<Rightarrow>
         (case lookup_all (vlans (dp v1)) deleted_vids of
            Inl e \<Rightarrow> Inl e
          | Inr deleted_vlans \<Rightarrow>
         (case ports_delete vp v1 changed_ports of
            Inl e \<Rightarrow> Inl e
          | Inr (v2, ofmsgs3) \<Rightarrow>
         (case lookup_all (vlans (dp (dp_init cl v2 (Some new_dp)))) changed_vids of
            Inl e \<Rightarrow> Inl e
          | Inr changed_vlans \<Rightarrow>
         (case ports_add vp (dp_init cl v2 (Some new_dp))
                 (filter (\<lambda>p. p \<in> dyn_up_port_nos (dp v)) changed_ports) False of
            Inl e \<Rightarrow> Inl e
          | Inr (v4, ofmsgs5) \<Rightarrow>
         (case (case acl_manager v4 of
                  None \<Rightarrow> Inr []
                | Some acl \<Rightarrow>
                   (case lookup_all (ports (dp v4)) changed_acl_ports of
                      Inl e \<Rightarrow> Inl e
                    | Inr acl_ports \<Rightarrow> Inr (concat (map (cold_start_port acl) acl_ports)))) of
            Inl e \<Rightarrow> Inl e
          | Inr ofmsgs6 \<Rightarrow>
             Inr (v4, False,
                  ofmsgs1 @ del_vlans deleted_vlans @ ofmsgs3
                  @ (del_vlans changed_vlans
                     @ add_vlans (dp_init cl v2 (Some new_dp)) changed_vlans)
                  @ ofmsgs5 @ ofmsgs6)))))))"
proof -
  have g1: "(if deleted_ports \<noteq> [] then ports_delete vp v deleted_ports else Inr (v, []))
      = ports_delete vp v deleted_ports"
    by (cases deleted_ports) simp_all
  have g2: "(if deleted_vids \<noteq> []
             then (case lookup_all (vlans (dp v1)) deleted_vids of
                     Inl e \<Rightarrow> Inl e
                   | Inr deleted_vlans \<Rightarrow> Inr (del_vlans deleted_vlans))
             else Inr [])
      = (case lookup_all (vlans (dp v1)) deleted_vids of
           Inl e \<Rightarrow> Inl e
         | Inr deleted_vlans \<Rightarrow> Inr (del_vlans deleted_vlans))" for v1 :: valve
    by (cases deleted_vids) (simp_all add: del_vlans_def)
  have g3: "(if changed_ports \<noteq> [] then ports_delete vp v1 changed_ports else Inr (v1, []))
      = ports_delete vp v1 changed_ports" for v1
    by (cases changed_ports) simp_all
  have g4: "(if changed_vids \<noteq> []
             then (case lookup_all (vlans (dp v3)) changed_vids of
                     Inl e \<Rightarrow> Inl e
                   | Inr changed_vlans \<Rightarrow>
                      Inr (del_vlans changed_vlans @ add_vlans v3 changed_vlans))
             else Inr [])
      = (case lookup_all (vlans (dp v3)) changed_vids of
           Inl e \<Rightarrow> Inl e
         | Inr changed_vlans \<Rightarrow> Inr (del_vlans changed_vlans @ add_vlans v3 changed_vlans))"
    for v3
    by (cases changed_vids) (simp_all add: del_vlans_def add_vlans_def)
  have g5: "(if changed_ports \<noteq> []
             then ports_add vp v3 (filter (\<lambda>p. p \<in> dyn_up_port_nos (dp v)) changed_ports) False
             else Inr (v3, []))
      = ports_add vp v3 (filter (\<lambda>p. p \<in> dyn_up_port_nos (dp v)) changed_ports) False" for v3
    by (cases changed_ports) simp_all
  have g6: "(if changed_acl_ports \<noteq> []
             then (case lookup_all (ports (dp v4)) changed_acl_ports of
                     Inl e \<Rightarrow> Inl e
                   | Inr acl_ports \<Rightarrow> Inr (concat (map (cold_start_port acl) acl_ports)))
             else Inr [])
      = (case lookup_all (ports (dp v4)) changed_acl_ports of
           Inl e \<Rightarrow> Inl e
         | Inr acl_ports \<Rightarrow> Inr (concat (map (cold_start_port acl) acl_ports)))" for v4 :: valve and acl :: manager
    by (cases changed_acl_ports) simp_all
  show ?thesis
    unfolding apply_config_changes_def
    using assms
    by (simp add: Let_def g1 g2 g3 g4 g5 g6 split: sum.splits prod.splits option.splits)
qed

lemma clone_dyn_state_simps [simp]:
  "dyn_running (clone_dyn_state nd d) = dyn_running d"
  "dyn_up_port_nos (clone_dyn_state nd d) = dyn_up_port_nos d"
  "vlans (clone_dyn_state nd d) = vlans nd"
  "ports (clone_dyn_state nd d) = ports nd"
  by (simp_all add: clone_dyn_state_def)

lemma apply_config_changes_warm_steps:
  assumes pc: "pipeline_change cl v = Inr False"
    and r: "apply_config_changes cl vp v new_dp
              (deleted_ports, changed_ports, changed_acl_ports, deleted_vids, changed_vids,
               False) = Inr (v', cold_start, ofmsgs)"
  shows "\<exists>v1 m1 deleted_vlans v2 m3 changed_vlans m5 m6.
      ports_delete vp v deleted_ports = Inr (v1, m1)
    \<and> lookup_all (vlans (dp v1)) deleted_vids = Inr deleted_vlans
    \<and> ports_delete vp v1 changed_ports = Inr (v2, m3)
    \<and> lookup_all (vlans (dp (dp_init cl v2 (Some new_dp)))) changed_vids = Inr changed_vlans
    \<and> ports_add vp (dp_init cl v2 (Some new_dp))
          (filter (\<lambda>p. p \<in> dyn_up_port_nos (dp v)) changed_ports) False = Inr (v', m5)
    \<and> (case acl_manager v' of
          None \<Rightarrow> m6 = []
        | Some acl \<Rightarrow>
            (\<exists>acl_ports. lookup_all (ports (dp v')) changed_acl_ports = Inr acl_ports
               \<and> m6 = concat (map (cold_start_port acl) acl_ports)))
    \<and> \<not> cold_start
    \<and> ofmsgs = m1 @ del_vlans deleted_vlans @ m3
               @ (del_vlans changed_vlans
                  @ add_vlans (dp_init cl v2 (Some new_dp)) changed_vlans)
               @ m5 @ m6"
proof -
  note w = r [unfolded apply_config_changes_warm [OF pc]]
  from w obtain v1 m1 where d1: "ports_delete vp v deleted_ports = Inr (v1, m1)"
    by (cases "ports_delete vp v deleted_ports") auto
  from w d1 obtain deleted_vlans where
    l1: "lookup_all (vlans (dp v1)) deleted_vids = Inr deleted_vlans"
    by (cases "lookup_all (vlans (dp v1)) deleted_vids") auto
  from w d1 l1 obtain v2 m3 where d2: "ports_delete vp v1 changed_ports = Inr (v2, m3)"
    by (cases "ports_delete vp v1 changed_ports") auto
  let ?v3 = "dp_init cl v2 (Some new_dp)"
  from w d1 l1 d2 obtain changed_vlans where
    l2: "lookup_all (vlans (dp ?v3)) changed_vids = Inr changed_vlans"
    by (cases "lookup_all (vlans (dp ?v3)) changed_vids") auto
  from w d1 l1 d2 l2 obtain v4 m5 where
    a: "ports_add vp ?v3 (filter (\<lambda>p. p \<in> dyn_up_port_nos (dp v)) changed_ports) False
          = Inr (v4, m5)"
    by (cases "ports_add vp ?v3 (filter (\<lambda>p. p \<in> dyn_up_port_nos (dp v)) changed_ports) False")
      auto
  show ?thesis
  proof (cases "acl_manager v4")
    case None
    with w d1 l1 d2 l2 a have "v' = v4" "\<not> cold_start"
      "ofmsgs = m1 @ del_vlans deleted_vlans @ m3
               @ (del_vlans changed_vlans @ add_vlans ?v3 changed_vlans) @ m5 @ []"
      by simp_all
    with None d1 l1 d2 l2 a show ?thesis
      apply -
      apply (rule exI [where x = v1], rule exI [where x = m1])
      apply (rule exI [where x = deleted_vlans], rule exI [where x = v2])
      apply (rule exI [where x = m3], rule exI [where x = changed_vlans])
      apply (rule exI [where x = m5], rule exI [where x = "[]"])
      apply simp
      done
  next
    case (Some acl)
    with w d1 l1 d2 l2 a obtain acl_ports where
      l3: "lookup_all (ports (dp v4)) changed_acl_ports = Inr acl_ports"
      by (cases "lookup_all (ports (dp v4)) changed_acl_ports") auto
    with Some w d1 l1 d2 l2 a have "v' = v4" "\<not> cold_start"
      "ofmsgs = m1 @ del_vlans deleted_vlans @ m3
               @ (del_vlans changed_vlans @ add_vlans ?v3 changed_vlans) @ m5
               @ concat (map (cold_start_port acl) acl_ports)"
      by simp_all
    with Some d1 l1 d2 l2 a l3 show ?thesis
      apply -
      apply (rule exI [where x = v1], rule exI [where x = m1])
      apply (rule exI [where x = deleted_vlans], rule exI [where x = v2])
      apply (rule exI [where x = m3], rule exI [where x = changed_vlans])
      apply (rule exI [where x = m5])
      apply (rule exI [where x = "concat (map (cold_start_port acl) acl_ports)"])
      apply simp
      done
  qed
qed


text \<open>
  C4. On a warm reload (no pipeline change, not all ports changed) that returns, the
  messages are, in this order: those of deleting the removed ports; the deletions of
  the removed VLANs (looked up in the outgoing DP); those of deleting the changed
  ports; then the new DP is swapped in, with the dynamic state of the outgoing DP
  cloned into it; the deletions and then the additions of the changed VLANs (looked up
  in the new DP); those of adding the changed ports that were up before the swap; and
  the ACL manager's messages for the changed-ACL ports, when the new DP has an ACL
  manager.
\<close>

theorem apply_config_changes_warm_order:
  assumes pc: "pipeline_change cl v = Inr False"
    and r: "apply_config_changes cl vp v new_dp
              (deleted_ports, changed_ports, changed_acl_ports, deleted_vids, changed_vids,
               False) = Inr (v', cold_start, ofmsgs)"
  shows "\<exists>v1 m1 deleted_vlans v2 m3 changed_vlans m5 m6.
      ports_delete vp v deleted_ports = Inr (v1, m1)
    \<and> lookup_all (vlans (dp v)) deleted_vids = Inr deleted_vlans
    \<and> ports_delete vp v1 changed_ports = Inr (v2, m3)
    \<and> dp (dp_init cl v2 (Some new_dp)) = clone_dyn_state new_dp (dp v2)
    \<and> lookup_all (vlans new_dp) changed_vids = Inr changed_vlans
    \<and> dyn_up_port_nos (dp v2) = dyn_up_port_nos (dp v)
    \<and> ports_add vp (dp_init cl v2 (Some new_dp))
          (filter (\<lambda>p. p \<in> dyn_up_port_nos (dp v2)) changed_ports) False = Inr (v', m5)
    \<and> (case acl_manager v' of
          None \<Rightarrow> m6 = []
        | Some acl \<Rightarrow>
            (\<exists>acl_ports. lookup_all (ports (dp v')) changed_acl_ports = Inr acl_ports
               \<and> m6 = concat (map (cold_start_port acl) acl_ports)))
    \<and> \<not> cold_start
    \<and> ofmsgs = m1 @ del_vlans deleted_vlans @ m3
               @ (del_vlans changed_vlans
                  @ add_vlans (dp_init cl v2 (Some new_dp)) changed_vlans)
               @ m5 @ m6"
proof -
  from apply_config_changes_warm_steps [OF pc r] obtain v1 m1 deleted_vlans v2 m3
      changed_vlans m5 m6 where
    d1: "ports_delete vp v deleted_ports = Inr (v1, m1)"
    and l1: "lookup_all (vlans (dp v1)) deleted_vids = Inr deleted_vlans"
    and d2: "ports_delete vp v1 changed_ports = Inr (v2, m3)"
    and l2: "lookup_all (vlans (dp (dp_init cl v2 (Some new_dp)))) changed_vids
              = Inr changed_vlans"
    and a: "ports_add vp (dp_init cl v2 (Some new_dp))
              (filter (\<lambda>p. p \<in> dyn_up_port_nos (dp v)) changed_ports) False = Inr (v', m5)"
    and rest: "(case acl_manager v' of
          None \<Rightarrow> m6 = []
        | Some acl \<Rightarrow>
            (\<exists>acl_ports. lookup_all (ports (dp v')) changed_acl_ports = Inr acl_ports
               \<and> m6 = concat (map (cold_start_port acl) acl_ports)))"
      "\<not> cold_start"
      "ofmsgs = m1 @ del_vlans deleted_vlans @ m3
               @ (del_vlans changed_vlans
                  @ add_vlans (dp_init cl v2 (Some new_dp)) changed_vlans)
               @ m5 @ m6"
    by blast
  note c1 = ports_changed_onlyD [OF ports_delete_changed_only [OF d1]]
  note c2 = ports_changed_onlyD [OF ports_delete_changed_only [OF d2]]
  have up: "dyn_up_port_nos (dp v2) = dyn_up_port_nos (dp v)"
    using c1(2) c2(2) by simp
  from l1 c1(3) have l1': "lookup_all (vlans (dp v)) deleted_vids = Inr deleted_vlans"
    by simp
  from l2 have l2': "lookup_all (vlans new_dp) changed_vids = Inr changed_vlans"
    by simp
  from a up have a': "ports_add vp (dp_init cl v2 (Some new_dp))
          (filter (\<lambda>p. p \<in> dyn_up_port_nos (dp v2)) changed_ports) False = Inr (v', m5)"
    by simp
  have s: "dp (dp_init cl v2 (Some new_dp)) = clone_dyn_state new_dp (dp v2)"
    by simp
  from d1 l1' d2 s l2' up a' rest show ?thesis
    apply -
    apply (rule exI [where x = v1], rule exI [where x = m1])
    apply (rule exI [where x = deleted_vlans], rule exI [where x = v2])
    apply (rule exI [where x = m3], rule exI [where x = changed_vlans])
    apply (rule exI [where x = m5], rule exI [where x = m6])
    apply (intro conjI)
    apply assumption+
    done
qed

lemma apply_config_changes_warm_running:
  assumes pc: "pipeline_change cl v = Inr False"
    and r: "apply_config_changes cl vp v new_dp
              (deleted_ports, changed_ports, changed_acl_ports, deleted_vids, changed_vids,
               False) = Inr (v', cold_start, ofmsgs)"
  shows "\<not> cold_start" and "dyn_running (dp v') = dyn_running (dp v)"
    and "notifications v' = notifications v"
proof -
  from apply_config_changes_warm_steps [OF pc r] obtain v1 m1 v2 m3 m5 where
    d1: "ports_delete vp v deleted_ports = Inr (v1, m1)"
    and d2: "ports_delete vp v1 changed_ports = Inr (v2, m3)"
    and a: "ports_add vp (dp_init cl v2 (Some new_dp))
              (filter (\<lambda>p. p \<in> dyn_up_port_nos (dp v)) changed_ports) False = Inr (v', m5)"
    and nc: "\<not> cold_start"
    by blast
  note c1 = ports_changed_onlyD [OF ports_delete_changed_only [OF d1]]
  note c2 = ports_changed_onlyD [OF ports_delete_changed_only [OF d2]]
  note c3 = ports_changed_onlyD [OF ports_add_changed_only [OF a]]
  from nc show "\<not> cold_start" .
  from c1(1) c2(1) c3(1) show "dyn_running (dp v') = dyn_running (dp v)" by simp
  from c1(4) c2(4) c3(4) show "notifications v' = notifications v" by simp
qed

text \<open>The example reload, evaluated.\<close>

lemma map_sum_snd_InrD:
  "map_sum id snd r = Inr (c, m) \<Longrightarrow> \<exists>v. r = Inr (v, c, m)"
  by (cases r) auto

lemma example_pipeline_change:
  "pipeline_change (example_classes chg) example_valve = Inr False"
  by (simp add: pipeline_change_def example_valve_def)

lemma example_apply_config_changes_warm:
  "\<exists>v'. apply_config_changes (example_classes example_changes) example_valve_packet
          example_valve example_new_dp ([4], [1], [2], [512], [768], False)
        = Inr (v', False, example_warm_ofmsgs)"
proof -
  note defs = example_valve_def example_dp_def example_lacp_port_def
    example_port_def example_vlan_def example_valve_packet_def example_manager_def
    example_stack_port_def example_trunk_port_def example_remote_dp_def Let_def
    example_new_dp_def example_changes_def example_classes_def example_warm_ofmsgs_def
  note code = ports_delete_def ports_delete_port_def
    port_delete_flows_state_def delete_all_port_match_flows_def port_delete_manager_state_def
    ports_add_def ports_add_port_def ports_add_lacp_def ports_add_dot1x_def
    port_add_vlans_def port_add_vlan_rules_def find_forwarding_table_def port_vlans_def
    port_no_valid_def running_def get_managers_def set_port_def set_update_def
    notify_def dp_init_def clone_dyn_state_def pipeline_change_def
    del_vlans_def del_vlan_def add_vlans_def valve_add_vlan_def apply_config_changes_def
  have "map_sum id snd
      (apply_config_changes (example_classes example_changes) example_valve_packet
         example_valve example_new_dp ([4], [1], [2], [512], [768], False))
      = Inr (False, example_warm_ofmsgs)"
    by (simp add: code defs)
  then show ?thesis by (rule map_sum_snd_InrD)
qed


theorem apply_config_changes_warm_order_witness:
  "pipeline_change (example_classes example_changes) example_valve = Inr False
   \<and> (\<exists>v'. apply_config_changes (example_classes example_changes) example_valve_packet
              example_valve example_new_dp ([4], [1], [2], [512], [768], False)
            = Inr (v', False, example_warm_ofmsgs)
          \<and> (\<exists>v1 m1 deleted_vlans v2 m3 changed_vlans m5 m6.
                ports_delete example_valve_packet example_valve [4] = Inr (v1, m1)
              \<and> lookup_all (vlans (dp example_valve)) [512] = Inr deleted_vlans
              \<and> ports_delete example_valve_packet v1 [1] = Inr (v2, m3)
              \<and> dp (dp_init (example_classes example_changes) v2 (Some example_new_dp))
                  = clone_dyn_state example_new_dp (dp v2)
              \<and> lookup_all (vlans example_new_dp) [768] = Inr changed_vlans
              \<and> dyn_up_port_nos (dp v2) = dyn_up_port_nos (dp example_valve)
              \<and> ports_add example_valve_packet
                    (dp_init (example_classes example_changes) v2 (Some example_new_dp))
                    (filter (\<lambda>p. p \<in> dyn_up_port_nos (dp v2)) [1]) False = Inr (v', m5)
              \<and> (case acl_manager v' of
                    None \<Rightarrow> m6 = []
                  | Some acl \<Rightarrow>
                      (\<exists>acl_ports. lookup_all (ports (dp v')) [2] = Inr acl_ports
                         \<and> m6 = concat (map (cold_start_port acl) acl_ports)))
              \<and> \<not> False
              \<and> example_warm_ofmsgs
                = m1 @ del_vlans deleted_vlans @ m3
                  @ (del_vlans changed_vlans
                     @ add_vlans (dp_init (example_classes example_changes) v2
                                    (Some example_new_dp)) changed_vlans)
                  @ m5 @ m6))"
proof -
  note pc = example_pipeline_change [of example_changes]
  from example_apply_config_changes_warm obtain v' where
    r: "apply_config_changes (example_classes example_changes) example_valve_packet
          example_valve example_new_dp ([4], [1], [2], [512], [768], False)
        = Inr (v', False, example_warm_ofmsgs)" ..
  note t = apply_config_changes_warm_order [OF pc r]
  show ?thesis
    apply (rule conjI [OF pc])
    apply (rule exI [where x = v'])
    apply (rule conjI [OF r t])
    done
qed

lemma reload_config_result:
  assumes "apply_config_changes cl vp v new_dp (get_config_changes cl (dp v) new_dp)
             = Inr (v1, cold_start, ofmsgs)"
  shows "reload_config cl vp v new_dp =
     Inr (if cold_start
          then (notify (inc_var v1 ''faucet_config_reload_cold'') (CONFIG_CHANGE (Some ''cold'')),
                if dyn_running (dp v1) then None else Some ofmsgs)
          else if dyn_running (dp v1) \<and> ofmsgs \<noteq> []
          then (notify (inc_var v1 ''faucet_config_reload_warm'') (CONFIG_CHANGE (Some ''warm'')),
                Some ofmsgs)
          else (notify v1 (CONFIG_CHANGE None), Some []))"
  using assms by (simp add: reload_config_def)

text \<open>
  C3 as the claim states it fails. The claim gives restart type null whenever the
  datapath is not running. When all ports changed and the datapath is not running,
  \<open>reload_config\<close> returns the empty message list, but it has cold started: the
  notification carries restart type cold.
\<close>

theorem reload_config_restart_type_counterexample:
  "\<not> dyn_running (dp (example_valve\<lparr>dp := example_dp\<lparr>dyn_running := False\<rparr>\<rparr>))
   \<and> map_sum id snd
       (reload_config (example_classes ([4], [1], [2], [512], [768], True))
          example_valve_packet (example_valve\<lparr>dp := example_dp\<lparr>dyn_running := False\<rparr>\<rparr>)
          example_new_dp)
     = Inr (Some [])
   \<and> map_sum id (notifications \<circ> fst)
       (reload_config (example_classes ([4], [1], [2], [512], [768], True))
          example_valve_packet (example_valve\<lparr>dp := example_dp\<lparr>dyn_running := False\<rparr>\<rparr>)
          example_new_dp)
     = Inr [CONFIG_CHANGE (Some ''cold'')]
   \<and> map_sum id (notifications \<circ> fst)
       (reload_config (example_classes ([4], [1], [2], [512], [768], True))
          example_valve_packet (example_valve\<lparr>dp := example_dp\<lparr>dyn_running := False\<rparr>\<rparr>)
          example_new_dp)
     \<noteq> Inr [CONFIG_CHANGE None]"
proof -
  let ?cl = "example_classes ([4], [1], [2], [512], [768], True)"
  let ?v = "example_valve\<lparr>dp := example_dp\<lparr>dyn_running := False\<rparr>\<rparr>"
  have pc: "pipeline_change ?cl ?v = Inr False"
    by (simp add: pipeline_change_def example_valve_def)
  have c: "False \<or> True" by simp
  have a: "apply_config_changes ?cl example_valve_packet ?v example_new_dp
      (get_config_changes ?cl (dp ?v) example_new_dp)
      = Inr (dp_init ?cl ?v (Some example_new_dp), True, [])"
    using apply_config_changes_cold [OF pc c, of example_valve_packet example_new_dp
        "[4]" "[1]" "[2]" "[512]" "[768]"]
    by (simp add: example_classes_def)
  have n: "notifications ?v = []" by (simp add: example_valve_def)
  from reload_config_result [OF a] n show ?thesis
    by (simp add: notify_def inc_var_def)
qed

text \<open>
  C3, amended. Given the outcome of the pipeline check and the changes that the DP
  reports: when the pipeline changed or all ports changed, \<open>reload_config\<close> cold
  starts (the new DP is swapped in, no message is computed, the counter and the
  notification are those of restart type cold) and returns \<open>None\<close> when the datapath
  is running, the empty list otherwise; when neither holds, every result of applying
  the changes is not a cold start, the new datapath is running exactly when the old
  one was, and \<open>reload_config\<close> returns the messages with restart type warm when the
  datapath is running and there are messages, the empty list with restart type null
  otherwise.
\<close>

theorem reload_config_restart_type:
  assumes pc: "pipeline_change cl v = Inr pipeline_changed"
    and ch: "get_config_changes cl (dp v) new_dp =
               (deleted_ports, changed_ports, changed_acl_ports, deleted_vids, changed_vids,
                all_ports_changed)"
  shows "(pipeline_changed \<or> all_ports_changed \<longrightarrow>
            apply_config_changes cl vp v new_dp (get_config_changes cl (dp v) new_dp)
              = Inr (dp_init cl v (Some new_dp), True, [])
          \<and> reload_config cl vp v new_dp =
              Inr (notify (inc_var (dp_init cl v (Some new_dp)) ''faucet_config_reload_cold'')
                     (CONFIG_CHANGE (Some ''cold'')),
                   if dyn_running (dp v) then None else Some []))
       \<and> (\<not> (pipeline_changed \<or> all_ports_changed) \<longrightarrow>
            (\<forall>v1 cold_start ofmsgs.
               apply_config_changes cl vp v new_dp (get_config_changes cl (dp v) new_dp)
                 = Inr (v1, cold_start, ofmsgs) \<longrightarrow>
               \<not> cold_start \<and> dyn_running (dp v1) = dyn_running (dp v)
               \<and> reload_config cl vp v new_dp =
                   Inr (if dyn_running (dp v) \<and> ofmsgs \<noteq> []
                        then (notify (inc_var v1 ''faucet_config_reload_warm'')
                                (CONFIG_CHANGE (Some ''warm'')), Some ofmsgs)
                        else (notify v1 (CONFIG_CHANGE None), Some []))))"
proof (intro conjI impI allI)
  assume c: "pipeline_changed \<or> all_ports_changed"
  from apply_config_changes_cold [OF pc c]
  show a: "apply_config_changes cl vp v new_dp (get_config_changes cl (dp v) new_dp)
              = Inr (dp_init cl v (Some new_dp), True, [])"
    by (simp add: ch)
  from reload_config_result [OF a]
  show "reload_config cl vp v new_dp =
              Inr (notify (inc_var (dp_init cl v (Some new_dp)) ''faucet_config_reload_cold'')
                     (CONFIG_CHANGE (Some ''cold'')),
                   if dyn_running (dp v) then None else Some [])"
    by simp
next
  fix v1 cold_start ofmsgs
  assume w: "\<not> (pipeline_changed \<or> all_ports_changed)"
    and r: "apply_config_changes cl vp v new_dp (get_config_changes cl (dp v) new_dp)
                 = Inr (v1, cold_start, ofmsgs)"
  from w pc have pc': "pipeline_change cl v = Inr False" by simp
  from w r have r': "apply_config_changes cl vp v new_dp
      (deleted_ports, changed_ports, changed_acl_ports, deleted_vids, changed_vids, False)
      = Inr (v1, cold_start, ofmsgs)"
    by (simp add: ch)
  note k = apply_config_changes_warm_running [OF pc' r']
  from k(1) show "\<not> cold_start" .
  from k(2) show "dyn_running (dp v1) = dyn_running (dp v)" .
  from reload_config_result [OF r] k
  show "reload_config cl vp v new_dp =
                   Inr (if dyn_running (dp v) \<and> ofmsgs \<noteq> []
                        then (notify (inc_var v1 ''faucet_config_reload_warm'')
                                (CONFIG_CHANGE (Some ''warm'')), Some ofmsgs)
                        else (notify v1 (CONFIG_CHANGE None), Some []))"
    by simp
qed


theorem reload_config_restart_type_witness:
  "map_sum id snd
     (reload_config (example_classes ([4], [1], [2], [512], [768], True))
        example_valve_packet example_valve example_new_dp) = Inr None
   \<and> map_sum id (notifications \<circ> fst)
       (reload_config (example_classes ([4], [1], [2], [512], [768], True))
          example_valve_packet example_valve example_new_dp)
     = Inr [CONFIG_CHANGE (Some ''cold'')]
   \<and> map_sum id snd
       (reload_config (example_classes example_changes)
          example_valve_packet example_valve example_new_dp)
     = Inr (Some example_warm_ofmsgs)
   \<and> map_sum id (notifications \<circ> fst)
       (reload_config (example_classes example_changes)
          example_valve_packet example_valve example_new_dp)
     = Inr [CONFIG_CHANGE (Some ''warm'')]
   \<and> map_sum id snd
       (reload_config (example_classes ([], [], [], [], [], False))
          example_valve_packet example_valve example_new_dp)
     = Inr (Some [])
   \<and> map_sum id (notifications \<circ> fst)
       (reload_config (example_classes ([], [], [], [], [], False))
          example_valve_packet example_valve example_new_dp)
     = Inr [CONFIG_CHANGE None]"
proof -
  let ?cold = "example_classes ([4], [1], [2], [512], [768], True)"
  let ?warm = "example_classes example_changes"
  let ?same = "example_classes ([], [], [], [], [], False)"
  have run: "dyn_running (dp example_valve)" "notifications example_valve = []"
    by (simp_all add: example_valve_def example_dp_def)
  have ne: "example_warm_ofmsgs \<noteq> []"
    by (simp add: example_warm_ofmsgs_def)
  have ch_cold: "get_config_changes ?cold (dp example_valve) example_new_dp
      = ([4], [1], [2], [512], [768], True)"
    by (simp add: example_classes_def)
  have c: "False \<or> True" by simp
  note t_cold = reload_config_restart_type [where vp = example_valve_packet,
      OF example_pipeline_change ch_cold, THEN conjunct1, THEN mp, OF c, THEN conjunct2]
  from t_cold run have cold:
    "map_sum id snd (reload_config ?cold example_valve_packet example_valve example_new_dp)
       = Inr None"
    "map_sum id (notifications \<circ> fst)
       (reload_config ?cold example_valve_packet example_valve example_new_dp)
       = Inr [CONFIG_CHANGE (Some ''cold'')]"
    by (simp_all add: notify_def inc_var_def)
  have ch_warm: "get_config_changes ?warm (dp example_valve) example_new_dp
      = ([4], [1], [2], [512], [768], False)"
    by (simp add: example_classes_def example_changes_def)
  have w: "\<not> (False \<or> False)" by simp
  from example_apply_config_changes_warm obtain v' where
    r: "apply_config_changes ?warm example_valve_packet example_valve example_new_dp
          ([4], [1], [2], [512], [768], False) = Inr (v', False, example_warm_ofmsgs)" ..
  from r ch_warm have r': "apply_config_changes ?warm example_valve_packet example_valve
      example_new_dp (get_config_changes ?warm (dp example_valve) example_new_dp)
      = Inr (v', False, example_warm_ofmsgs)"
    by simp
  note n_warm = apply_config_changes_warm_running(3) [OF example_pipeline_change r]
  note t_warm = reload_config_restart_type [where vp = example_valve_packet,
      OF example_pipeline_change ch_warm, THEN conjunct2, THEN mp, OF w,
      THEN spec, THEN spec, THEN spec, THEN mp, OF r',
      THEN conjunct2, THEN conjunct2]
  from t_warm run ne n_warm have warm:
    "map_sum id snd (reload_config ?warm example_valve_packet example_valve example_new_dp)
       = Inr (Some example_warm_ofmsgs)"
    "map_sum id (notifications \<circ> fst)
       (reload_config ?warm example_valve_packet example_valve example_new_dp)
       = Inr [CONFIG_CHANGE (Some ''warm'')]"
    by (simp_all add: notify_def inc_var_def)
  have ch_same: "get_config_changes ?same (dp example_valve) example_new_dp
      = ([], [], [], [], [], False)"
    by (simp add: example_classes_def)
  have "map_sum id snd
      (apply_config_changes ?same example_valve_packet example_valve example_new_dp
         ([], [], [], [], [], False)) = Inr (False, [])"
    by (simp add: apply_config_changes_warm [OF example_pipeline_change]
        del_vlans_def add_vlans_def split: option.splits)
  from map_sum_snd_InrD [OF this] obtain v0 where
    r0: "apply_config_changes ?same example_valve_packet example_valve example_new_dp
          ([], [], [], [], [], False) = Inr (v0, False, [])" ..
  from r0 ch_same have r0': "apply_config_changes ?same example_valve_packet example_valve
      example_new_dp (get_config_changes ?same (dp example_valve) example_new_dp)
      = Inr (v0, False, [])"
    by simp
  note n_same = apply_config_changes_warm_running(3) [OF example_pipeline_change r0]
  note t_same = reload_config_restart_type [where vp = example_valve_packet,
      OF example_pipeline_change ch_same, THEN conjunct2, THEN mp, OF w,
      THEN spec, THEN spec, THEN spec, THEN mp, OF r0',
      THEN conjunct2, THEN conjunct2]
  from t_same run n_same have same:
    "map_sum id snd (reload_config ?same example_valve_packet example_valve example_new_dp)
       = Inr (Some [])"
    "map_sum id (notifications \<circ> fst)
       (reload_config ?same example_valve_packet example_valve example_new_dp)
       = Inr [CONFIG_CHANGE None]"
    by (simp_all add: notify_def)
  from cold warm same show ?thesis by (intro conjI)
qed

end
